theory Spec2Isabelle
  imports Main "HOL-Library.Word"
begin

section \<open>Primitive value types\<close>

text \<open>
  The Go sources use \<^verbatim>\<open>common.Address\<close> (\<^verbatim>\<open>[20]byte\<close>), \<^verbatim>\<open>common.Hash\<close>
  (\<^verbatim>\<open>[32]byte\<close>), \<^verbatim>\<open>uint64\<close> and \<^verbatim>\<open>[]byte\<close>. A fixed-size byte array is a machine
  word of the same width, read big-endian; \<^verbatim>\<open>Bytes()\<close> gives its bytes back.
\<close>

type_synonym byte = "8 word"
type_synonym uint64 = "64 word"
type_synonym Address = "160 word"
type_synonym Hash = "256 word"
type_synonym AccessList = "(Address \<times> Hash list) list"

text \<open>
  A run-time panic of the Go program is a value of the model. The only panic these
  functions can raise is the dereference of a nil pointer.
\<close>

datatype panic = nil_pointer_dereference

definition and_then :: "panic + 'a \<Rightarrow> ('a \<Rightarrow> panic + 'b) \<Rightarrow> panic + 'b" where
  "and_then m k = (case m of Inl p \<Rightarrow> Inl p | Inr v \<Rightarrow> k v)"

text \<open>\<open>be_bytes n v\<close>: the \<open>n\<close> low-order bytes of \<open>v\<close>, most significant first.\<close>

fun be_bytes :: "nat \<Rightarrow> nat \<Rightarrow> byte list" where
  "be_bytes 0 v = []"
| "be_bytes (Suc n) v = be_bytes n (v div 256) @ [of_nat (v mod 256)]"

text \<open>The value a byte string denotes when read big-endian.\<close>

fun be_value :: "byte list \<Rightarrow> nat" where
  "be_value bs = foldl (\<lambda>acc b. 256 * acc + unat b) 0 bs"

definition Address_Bytes :: "Address \<Rightarrow> byte list" where
  "Address_Bytes a = be_bytes 20 (unat a)"

definition Hash_Bytes :: "Hash \<Rightarrow> byte list" where
  "Hash_Bytes h = be_bytes 32 (unat h)"

text \<open>\<^verbatim>\<open>make([]byte, n)\<close>\<close>

definition make_bytes :: "nat \<Rightarrow> byte list" where
  "make_bytes n = replicate n 0"

text \<open>
  A \<^verbatim>\<open>*big.Int\<close> is \<open>int option\<close> where only values matter: \<open>None\<close> is the nil pointer.
  \<^verbatim>\<open>bigZero = big.NewInt(0)\<close>; \<^verbatim>\<open>common.Big0\<close> is the same number.
\<close>

definition bigZero :: "int option" where
  "bigZero = Some 0"

definition Big0 :: "int option" where
  "Big0 = Some 0"

text \<open>\<^verbatim>\<open>dst.Set(x)\<close> on an allocated \<open>dst\<close>: reads \<open>x\<close>, returns \<open>dst\<close> holding that number.\<close>

definition big_Set :: "int \<Rightarrow> int option \<Rightarrow> panic + int" where
  "big_Set dst x = (case x of None \<Rightarrow> Inl nil_pointer_dereference | Some v \<Rightarrow> Inr v)"

text \<open>
  Modelled from the spec: \<^verbatim>\<open>math.U256Bytes\<close> lives in \<^verbatim>\<open>common/math\<close>, outside these
  sources. The spec gives its result as the 32-byte big-endian zero-padded encoding of a
  256-bit unsigned integer; the argument is taken into that range (two's complement,
  modulo \<open>2^256\<close>). It reads its argument, so a nil pointer panics.
\<close>

definition uint256_bytes :: "int \<Rightarrow> byte list" where
  "uint256_bytes v = be_bytes 32 (nat (v mod 2 ^ 256))"

definition U256Bytes :: "int option \<Rightarrow> panic + byte list" where
  "U256Bytes n =
     (case n of None \<Rightarrow> Inl nil_pointer_dereference | Some v \<Rightarrow> Inr (uint256_bytes v))"

section \<open>Transaction type bytes and package-level addresses\<close>

definition ArbitrumDepositTxType :: byte where "ArbitrumDepositTxType = 0x64"
definition ArbitrumUnsignedTxType :: byte where "ArbitrumUnsignedTxType = 0x65"
definition ArbitrumContractTxType :: byte where "ArbitrumContractTxType = 0x66"
definition ArbitrumRetryTxType :: byte where "ArbitrumRetryTxType = 0x68"
definition ArbitrumSubmitRetryableTxType :: byte where "ArbitrumSubmitRetryableTxType = 0x69"
definition ArbitrumInternalTxType :: byte where "ArbitrumInternalTxType = 0x6A"
definition ArbitrumLegacyTxType :: byte where "ArbitrumLegacyTxType = 0x78"
definition OPDepositTxType :: byte where "OPDepositTxType = 0x7e"

text \<open>\<^verbatim>\<open>common.HexToAddress("0xa4b05")\<close> and \<^verbatim>\<open>common.HexToAddress("0x6e")\<close>\<close>

definition arbosAddress :: Address where "arbosAddress = 0xa4b05"
definition arbRetryableTxAddress :: Address where "arbRetryableTxAddress = 0x6e"

section \<open>The transaction structs\<close>

text \<open>
  Each struct is a record. The three type parameters are the representations of
  \<^verbatim>\<open>*big.Int\<close> (\<open>'b\<close>), \<^verbatim>\<open>*common.Address\<close> (\<open>'a\<close>) and \<^verbatim>\<open>[]byte\<close> (\<open>'d\<close>). Where only
  the values matter they are \<open>int option\<close>, \<open>Address option\<close> and \<open>byte list\<close>
  (a nil slice is the empty list); the storage model further down instantiates them
  with locations of a store.
\<close>

record ('b, 'a, 'd) DepositTx =
  SourceHash :: Hash
  From :: Address
  To :: 'a
  Mint :: 'b
  Value :: 'b
  Gas :: uint64
  IsSystemTransaction :: bool
  Data :: 'd

record ('b, 'a, 'd) depositTxWithNonce =
  DepositTx :: "('b, 'a, 'd) DepositTx"
  EffectiveNonce :: uint64

text \<open>
  \<^verbatim>\<open>LegacyTx\<close> is declared outside these sources; its fields are the ones
  \<^verbatim>\<open>unmarshalArbitrumJSON\<close> assigns.
\<close>

record ('b, 'a, 'd) LegacyTx =
  Nonce :: uint64
  GasPrice :: 'b
  Gas :: uint64
  To :: 'a
  Value :: 'b
  Data :: 'd
  V :: 'b
  R :: 'b
  S :: 'b

record ('b, 'a, 'd) ArbitrumLegacyTxData =
  LegacyTx :: "('b, 'a, 'd) LegacyTx"
  HashOverride :: Hash
  EffectiveGasPrice :: uint64
  L1BlockNumber :: uint64
  Sender :: 'a

record ('b, 'a, 'd) ArbitrumUnsignedTx =
  ChainId :: 'b
  From :: Address
  Nonce :: uint64
  GasFeeCap :: 'b
  Gas :: uint64
  To :: 'a
  Value :: 'b
  Data :: 'd

record ('b, 'd) ArbitrumInternalTx =
  ChainId :: 'b
  Data :: 'd

record 'b ArbitrumDepositTx =
  ChainId :: 'b
  L1RequestId :: Hash
  From :: Address
  To :: Address
  Value :: 'b

record ('b, 'a, 'd) ArbitrumContractTx =
  ChainId :: 'b
  RequestId :: Hash
  From :: Address
  GasFeeCap :: 'b
  Gas :: uint64
  To :: 'a
  Value :: 'b
  Data :: 'd

record ('b, 'a, 'd) ArbitrumRetryTx =
  ChainId :: 'b
  Nonce :: uint64
  From :: Address
  GasFeeCap :: 'b
  Gas :: uint64
  To :: 'a
  Value :: 'b
  Data :: 'd
  TicketId :: Hash
  RefundTo :: Address
  MaxRefund :: 'b
  SubmissionFeeRefund :: 'b

record ('b, 'a, 'd) ArbitrumSubmitRetryableTx =
  ChainId :: 'b
  RequestId :: Hash
  From :: Address
  L1BaseFee :: 'b
  DepositValue :: 'b
  GasFeeCap :: 'b
  Gas :: uint64
  RetryTo :: 'a
  RetryValue :: 'b
  Beneficiary :: Address
  MaxSubmissionFee :: 'b
  FeeRefundAddr :: Address
  RetryData :: 'd

text \<open>\<^verbatim>\<open>TxData\<close>: the interface value, one constructor per implementing struct.\<close>

datatype ('b, 'a, 'd) TxData =
    Inner_DepositTx "('b, 'a, 'd) DepositTx"
  | Inner_depositTxWithNonce "('b, 'a, 'd) depositTxWithNonce"
  | Inner_ArbitrumLegacyTxData "('b, 'a, 'd) ArbitrumLegacyTxData"
  | Inner_ArbitrumUnsignedTx "('b, 'a, 'd) ArbitrumUnsignedTx"
  | Inner_ArbitrumInternalTx "('b, 'd) ArbitrumInternalTx"
  | Inner_ArbitrumDepositTx "'b ArbitrumDepositTx"
  | Inner_ArbitrumContractTx "('b, 'a, 'd) ArbitrumContractTx"
  | Inner_ArbitrumRetryTx "('b, 'a, 'd) ArbitrumRetryTx"
  | Inner_ArbitrumSubmitRetryableTx "('b, 'a, 'd) ArbitrumSubmitRetryableTx"

type_synonym DepositTx_val = "(int option, Address option, byte list) DepositTx"
type_synonym depositTxWithNonce_val = "(int option, Address option, byte list) depositTxWithNonce"
type_synonym LegacyTx_val = "(int option, Address option, byte list) LegacyTx"
type_synonym ArbitrumLegacyTxData_val =
  "(int option, Address option, byte list) ArbitrumLegacyTxData"
type_synonym ArbitrumUnsignedTx_val = "(int option, Address option, byte list) ArbitrumUnsignedTx"
type_synonym ArbitrumInternalTx_val = "(int option, byte list) ArbitrumInternalTx"
type_synonym ArbitrumDepositTx_val = "int option ArbitrumDepositTx"
type_synonym ArbitrumContractTx_val = "(int option, Address option, byte list) ArbitrumContractTx"
type_synonym ArbitrumRetryTx_val = "(int option, Address option, byte list) ArbitrumRetryTx"
type_synonym ArbitrumSubmitRetryableTx_val =
  "(int option, Address option, byte list) ArbitrumSubmitRetryableTx"
type_synonym TxData_val = "(int option, Address option, byte list) TxData"

section \<open>The JSON wire object\<close>

text \<open>
  \<^verbatim>\<open>txJSON\<close> is declared outside these sources; its fields are those the two decoders
  read. Every field but \<open>Type\<close> and \<open>Hash\<close> is a pointer: \<open>None\<close> is an absent field.
\<close>

record txJSON =
  Type :: byte
  ChainID :: "int option"
  Nonce :: "uint64 option"
  To :: "Address option"
  Gas :: "uint64 option"
  GasPrice :: "int option"
  MaxPriorityFeePerGas :: "int option"
  MaxFeePerGas :: "int option"
  Value :: "int option"
  Input :: "byte list option"
  AccessList :: "AccessList option"
  V :: "int option"
  R :: "int option"
  S :: "int option"
  Hash :: Hash
  From :: "Address option"
  SourceHash :: "Hash option"
  Mint :: "int option"
  IsSystemTx :: "bool option"
  RequestId :: "Hash option"
  TicketId :: "Hash option"
  MaxRefund :: "int option"
  SubmissionFeeRefund :: "int option"
  RefundTo :: "Address option"
  L1BaseFee :: "int option"
  DepositValue :: "int option"
  RetryTo :: "Address option"
  RetryValue :: "int option"
  RetryData :: "byte list option"
  Beneficiary :: "Address option"
  MaxSubmissionFee :: "int option"
  EffectiveGasPrice :: "uint64 option"
  L1BlockNumber :: "uint64 option"

text \<open>
  Errors: \<^verbatim>\<open>errors.New(msg)\<close> and the package-level \<^verbatim>\<open>ErrTxTypeNotSupported\<close>.
\<close>

datatype error = errors_New string | ErrTxTypeNotSupported

section \<open>The accessors of each struct\<close>

text \<open>
  One definition per Go method, on values. A method returning a nil slice returns the
  empty list, one returning a nil \<^verbatim>\<open>*big.Int\<close> returns \<open>None\<close>. \<^verbatim>\<open>new(big.Int)\<close> and
  \<^verbatim>\<open>big.NewInt(0)\<close> are \<open>Some 0\<close>. \<^verbatim>\<open>effectiveGasPrice(dst, baseFee)\<close> takes the number
  held by the caller's allocated \<open>dst\<close> and returns the number \<open>dst\<close> holds afterwards.
  Methods that return the address of a package-level variable or of a struct field
  (\<^verbatim>\<open>&arbosAddress\<close>, \<^verbatim>\<open>&tx.To\<close>) return here the address value found there; which
  storage they point to is the matter of the storage model below.
\<close>

subsection \<open>\<^verbatim>\<open>DepositTx\<close>\<close>

definition DepositTx_txType :: "DepositTx_val \<Rightarrow> byte" where
  "DepositTx_txType tx = OPDepositTxType"

definition DepositTx_chainID :: "DepositTx_val \<Rightarrow> int option" where
  "DepositTx_chainID tx = Big0"

definition DepositTx_accessList :: "DepositTx_val \<Rightarrow> AccessList" where
  "DepositTx_accessList tx = []"

definition DepositTx_data :: "DepositTx_val \<Rightarrow> byte list" where
  "DepositTx_data tx = DepositTx.Data tx"

definition DepositTx_gas :: "DepositTx_val \<Rightarrow> uint64" where
  "DepositTx_gas tx = DepositTx.Gas tx"

definition DepositTx_gasFeeCap :: "DepositTx_val \<Rightarrow> int option" where
  "DepositTx_gasFeeCap tx = Some 0"

definition DepositTx_gasTipCap :: "DepositTx_val \<Rightarrow> int option" where
  "DepositTx_gasTipCap tx = Some 0"

definition DepositTx_gasPrice :: "DepositTx_val \<Rightarrow> int option" where
  "DepositTx_gasPrice tx = Some 0"

definition DepositTx_value :: "DepositTx_val \<Rightarrow> int option" where
  "DepositTx_value tx = DepositTx.Value tx"

definition DepositTx_nonce :: "DepositTx_val \<Rightarrow> uint64" where
  "DepositTx_nonce tx = 0"

definition DepositTx_to :: "DepositTx_val \<Rightarrow> Address option" where
  "DepositTx_to tx = DepositTx.To tx"

definition DepositTx_blobGas :: "DepositTx_val \<Rightarrow> uint64" where
  "DepositTx_blobGas tx = 0"

definition DepositTx_blobGasFeeCap :: "DepositTx_val \<Rightarrow> int option" where
  "DepositTx_blobGasFeeCap tx = None"

definition DepositTx_blobHashes :: "DepositTx_val \<Rightarrow> Hash list" where
  "DepositTx_blobHashes tx = []"

definition DepositTx_effectiveGasPrice :: "DepositTx_val \<Rightarrow> int \<Rightarrow> int option \<Rightarrow> panic + int" where
  "DepositTx_effectiveGasPrice tx dst baseFee = big_Set dst (Some 0)"

definition DepositTx_rawSignatureValues :: "DepositTx_val \<Rightarrow> int option \<times> int option \<times> int option" where
  "DepositTx_rawSignatureValues tx = (Big0, Big0, Big0)"

subsection \<open>\<^verbatim>\<open>ArbitrumUnsignedTx\<close>\<close>

definition ArbitrumUnsignedTx_txType :: "ArbitrumUnsignedTx_val \<Rightarrow> byte" where
  "ArbitrumUnsignedTx_txType tx = ArbitrumUnsignedTxType"

definition ArbitrumUnsignedTx_chainID :: "ArbitrumUnsignedTx_val \<Rightarrow> int option" where
  "ArbitrumUnsignedTx_chainID tx = ArbitrumUnsignedTx.ChainId tx"

definition ArbitrumUnsignedTx_accessList :: "ArbitrumUnsignedTx_val \<Rightarrow> AccessList" where
  "ArbitrumUnsignedTx_accessList tx = []"

definition ArbitrumUnsignedTx_data :: "ArbitrumUnsignedTx_val \<Rightarrow> byte list" where
  "ArbitrumUnsignedTx_data tx = ArbitrumUnsignedTx.Data tx"

definition ArbitrumUnsignedTx_gas :: "ArbitrumUnsignedTx_val \<Rightarrow> uint64" where
  "ArbitrumUnsignedTx_gas tx = ArbitrumUnsignedTx.Gas tx"

definition ArbitrumUnsignedTx_gasPrice :: "ArbitrumUnsignedTx_val \<Rightarrow> int option" where
  "ArbitrumUnsignedTx_gasPrice tx = ArbitrumUnsignedTx.GasFeeCap tx"

definition ArbitrumUnsignedTx_gasTipCap :: "ArbitrumUnsignedTx_val \<Rightarrow> int option" where
  "ArbitrumUnsignedTx_gasTipCap tx = bigZero"

definition ArbitrumUnsignedTx_gasFeeCap :: "ArbitrumUnsignedTx_val \<Rightarrow> int option" where
  "ArbitrumUnsignedTx_gasFeeCap tx = ArbitrumUnsignedTx.GasFeeCap tx"

definition ArbitrumUnsignedTx_value :: "ArbitrumUnsignedTx_val \<Rightarrow> int option" where
  "ArbitrumUnsignedTx_value tx = ArbitrumUnsignedTx.Value tx"

definition ArbitrumUnsignedTx_nonce :: "ArbitrumUnsignedTx_val \<Rightarrow> uint64" where
  "ArbitrumUnsignedTx_nonce tx = ArbitrumUnsignedTx.Nonce tx"

definition ArbitrumUnsignedTx_to :: "ArbitrumUnsignedTx_val \<Rightarrow> Address option" where
  "ArbitrumUnsignedTx_to tx = ArbitrumUnsignedTx.To tx"

definition ArbitrumUnsignedTx_blobGas :: "ArbitrumUnsignedTx_val \<Rightarrow> uint64" where
  "ArbitrumUnsignedTx_blobGas tx = 0"

definition ArbitrumUnsignedTx_blobGasFeeCap :: "ArbitrumUnsignedTx_val \<Rightarrow> int option" where
  "ArbitrumUnsignedTx_blobGasFeeCap tx = None"

definition ArbitrumUnsignedTx_blobHashes :: "ArbitrumUnsignedTx_val \<Rightarrow> Hash list" where
  "ArbitrumUnsignedTx_blobHashes tx = []"

definition ArbitrumUnsignedTx_rawSignatureValues :: "ArbitrumUnsignedTx_val \<Rightarrow> int option \<times> int option \<times> int option" where
  "ArbitrumUnsignedTx_rawSignatureValues tx = (bigZero, bigZero, bigZero)"

definition ArbitrumUnsignedTx_effectiveGasPrice :: "ArbitrumUnsignedTx_val \<Rightarrow> int \<Rightarrow> int option \<Rightarrow> panic + int" where
  "ArbitrumUnsignedTx_effectiveGasPrice tx dst baseFee = (if baseFee = None then big_Set dst (ArbitrumUnsignedTx.GasFeeCap tx) else big_Set dst baseFee)"

subsection \<open>\<^verbatim>\<open>ArbitrumInternalTx\<close>\<close>

definition ArbitrumInternalTx_txType :: "ArbitrumInternalTx_val \<Rightarrow> byte" where
  "ArbitrumInternalTx_txType tx = ArbitrumInternalTxType"

definition ArbitrumInternalTx_chainID :: "ArbitrumInternalTx_val \<Rightarrow> int option" where
  "ArbitrumInternalTx_chainID tx = ArbitrumInternalTx.ChainId tx"

definition ArbitrumInternalTx_accessList :: "ArbitrumInternalTx_val \<Rightarrow> AccessList" where
  "ArbitrumInternalTx_accessList tx = []"

definition ArbitrumInternalTx_data :: "ArbitrumInternalTx_val \<Rightarrow> byte list" where
  "ArbitrumInternalTx_data tx = ArbitrumInternalTx.Data tx"

definition ArbitrumInternalTx_gas :: "ArbitrumInternalTx_val \<Rightarrow> uint64" where
  "ArbitrumInternalTx_gas tx = 0"

definition ArbitrumInternalTx_gasPrice :: "ArbitrumInternalTx_val \<Rightarrow> int option" where
  "ArbitrumInternalTx_gasPrice tx = bigZero"

definition ArbitrumInternalTx_gasTipCap :: "ArbitrumInternalTx_val \<Rightarrow> int option" where
  "ArbitrumInternalTx_gasTipCap tx = bigZero"

definition ArbitrumInternalTx_gasFeeCap :: "ArbitrumInternalTx_val \<Rightarrow> int option" where
  "ArbitrumInternalTx_gasFeeCap tx = bigZero"

definition ArbitrumInternalTx_value :: "ArbitrumInternalTx_val \<Rightarrow> int option" where
  "ArbitrumInternalTx_value tx = Big0"

definition ArbitrumInternalTx_nonce :: "ArbitrumInternalTx_val \<Rightarrow> uint64" where
  "ArbitrumInternalTx_nonce tx = 0"

definition ArbitrumInternalTx_to :: "ArbitrumInternalTx_val \<Rightarrow> Address option" where
  "ArbitrumInternalTx_to tx = Some arbosAddress"

definition ArbitrumInternalTx_blobGas :: "ArbitrumInternalTx_val \<Rightarrow> uint64" where
  "ArbitrumInternalTx_blobGas tx = 0"

definition ArbitrumInternalTx_blobGasFeeCap :: "ArbitrumInternalTx_val \<Rightarrow> int option" where
  "ArbitrumInternalTx_blobGasFeeCap tx = None"

definition ArbitrumInternalTx_blobHashes :: "ArbitrumInternalTx_val \<Rightarrow> Hash list" where
  "ArbitrumInternalTx_blobHashes tx = []"

definition ArbitrumInternalTx_rawSignatureValues :: "ArbitrumInternalTx_val \<Rightarrow> int option \<times> int option \<times> int option" where
  "ArbitrumInternalTx_rawSignatureValues tx = (bigZero, bigZero, bigZero)"

definition ArbitrumInternalTx_effectiveGasPrice :: "ArbitrumInternalTx_val \<Rightarrow> int \<Rightarrow> int option \<Rightarrow> panic + int" where
  "ArbitrumInternalTx_effectiveGasPrice tx dst baseFee = big_Set dst bigZero"

subsection \<open>\<^verbatim>\<open>ArbitrumDepositTx\<close>\<close>

definition ArbitrumDepositTx_txType :: "ArbitrumDepositTx_val \<Rightarrow> byte" where
  "ArbitrumDepositTx_txType tx = ArbitrumDepositTxType"

definition ArbitrumDepositTx_chainID :: "ArbitrumDepositTx_val \<Rightarrow> int option" where
  "ArbitrumDepositTx_chainID tx = ArbitrumDepositTx.ChainId tx"

definition ArbitrumDepositTx_accessList :: "ArbitrumDepositTx_val \<Rightarrow> AccessList" where
  "ArbitrumDepositTx_accessList tx = []"

definition ArbitrumDepositTx_data :: "ArbitrumDepositTx_val \<Rightarrow> byte list" where
  "ArbitrumDepositTx_data tx = []"

definition ArbitrumDepositTx_gas :: "ArbitrumDepositTx_val \<Rightarrow> uint64" where
  "ArbitrumDepositTx_gas tx = 0"

definition ArbitrumDepositTx_gasPrice :: "ArbitrumDepositTx_val \<Rightarrow> int option" where
  "ArbitrumDepositTx_gasPrice tx = bigZero"

definition ArbitrumDepositTx_gasTipCap :: "ArbitrumDepositTx_val \<Rightarrow> int option" where
  "ArbitrumDepositTx_gasTipCap tx = bigZero"

definition ArbitrumDepositTx_gasFeeCap :: "ArbitrumDepositTx_val \<Rightarrow> int option" where
  "ArbitrumDepositTx_gasFeeCap tx = bigZero"

definition ArbitrumDepositTx_value :: "ArbitrumDepositTx_val \<Rightarrow> int option" where
  "ArbitrumDepositTx_value tx = ArbitrumDepositTx.Value tx"

definition ArbitrumDepositTx_nonce :: "ArbitrumDepositTx_val \<Rightarrow> uint64" where
  "ArbitrumDepositTx_nonce tx = 0"

definition ArbitrumDepositTx_to :: "ArbitrumDepositTx_val \<Rightarrow> Address option" where
  "ArbitrumDepositTx_to tx = Some (ArbitrumDepositTx.To tx)"

definition ArbitrumDepositTx_blobGas :: "ArbitrumDepositTx_val \<Rightarrow> uint64" where
  "ArbitrumDepositTx_blobGas tx = 0"

definition ArbitrumDepositTx_blobGasFeeCap :: "ArbitrumDepositTx_val \<Rightarrow> int option" where
  "ArbitrumDepositTx_blobGasFeeCap tx = None"

definition ArbitrumDepositTx_blobHashes :: "ArbitrumDepositTx_val \<Rightarrow> Hash list" where
  "ArbitrumDepositTx_blobHashes tx = []"

definition ArbitrumDepositTx_rawSignatureValues :: "ArbitrumDepositTx_val \<Rightarrow> int option \<times> int option \<times> int option" where
  "ArbitrumDepositTx_rawSignatureValues tx = (bigZero, bigZero, bigZero)"

definition ArbitrumDepositTx_effectiveGasPrice :: "ArbitrumDepositTx_val \<Rightarrow> int \<Rightarrow> int option \<Rightarrow> panic + int" where
  "ArbitrumDepositTx_effectiveGasPrice tx dst baseFee = big_Set dst bigZero"

subsection \<open>\<^verbatim>\<open>ArbitrumContractTx\<close>\<close>

definition ArbitrumContractTx_txType :: "ArbitrumContractTx_val \<Rightarrow> byte" where
  "ArbitrumContractTx_txType tx = ArbitrumContractTxType"

definition ArbitrumContractTx_chainID :: "ArbitrumContractTx_val \<Rightarrow> int option" where
  "ArbitrumContractTx_chainID tx = ArbitrumContractTx.ChainId tx"

definition ArbitrumContractTx_accessList :: "ArbitrumContractTx_val \<Rightarrow> AccessList" where
  "ArbitrumContractTx_accessList tx = []"

definition ArbitrumContractTx_data :: "ArbitrumContractTx_val \<Rightarrow> byte list" where
  "ArbitrumContractTx_data tx = ArbitrumContractTx.Data tx"

definition ArbitrumContractTx_gas :: "ArbitrumContractTx_val \<Rightarrow> uint64" where
  "ArbitrumContractTx_gas tx = ArbitrumContractTx.Gas tx"

definition ArbitrumContractTx_gasPrice :: "ArbitrumContractTx_val \<Rightarrow> int option" where
  "ArbitrumContractTx_gasPrice tx = ArbitrumContractTx.GasFeeCap tx"

definition ArbitrumContractTx_gasTipCap :: "ArbitrumContractTx_val \<Rightarrow> int option" where
  "ArbitrumContractTx_gasTipCap tx = bigZero"

definition ArbitrumContractTx_gasFeeCap :: "ArbitrumContractTx_val \<Rightarrow> int option" where
  "ArbitrumContractTx_gasFeeCap tx = ArbitrumContractTx.GasFeeCap tx"

definition ArbitrumContractTx_value :: "ArbitrumContractTx_val \<Rightarrow> int option" where
  "ArbitrumContractTx_value tx = ArbitrumContractTx.Value tx"

definition ArbitrumContractTx_nonce :: "ArbitrumContractTx_val \<Rightarrow> uint64" where
  "ArbitrumContractTx_nonce tx = 0"

definition ArbitrumContractTx_to :: "ArbitrumContractTx_val \<Rightarrow> Address option" where
  "ArbitrumContractTx_to tx = ArbitrumContractTx.To tx"

definition ArbitrumContractTx_blobGas :: "ArbitrumContractTx_val \<Rightarrow> uint64" where
  "ArbitrumContractTx_blobGas tx = 0"

definition ArbitrumContractTx_blobGasFeeCap :: "ArbitrumContractTx_val \<Rightarrow> int option" where
  "ArbitrumContractTx_blobGasFeeCap tx = None"

definition ArbitrumContractTx_blobHashes :: "ArbitrumContractTx_val \<Rightarrow> Hash list" where
  "ArbitrumContractTx_blobHashes tx = []"

definition ArbitrumContractTx_rawSignatureValues :: "ArbitrumContractTx_val \<Rightarrow> int option \<times> int option \<times> int option" where
  "ArbitrumContractTx_rawSignatureValues tx = (bigZero, bigZero, bigZero)"

definition ArbitrumContractTx_effectiveGasPrice :: "ArbitrumContractTx_val \<Rightarrow> int \<Rightarrow> int option \<Rightarrow> panic + int" where
  "ArbitrumContractTx_effectiveGasPrice tx dst baseFee = (if baseFee = None then big_Set dst (ArbitrumContractTx.GasFeeCap tx) else big_Set dst baseFee)"

subsection \<open>\<^verbatim>\<open>ArbitrumRetryTx\<close>\<close>

definition ArbitrumRetryTx_txType :: "ArbitrumRetryTx_val \<Rightarrow> byte" where
  "ArbitrumRetryTx_txType tx = ArbitrumRetryTxType"

definition ArbitrumRetryTx_chainID :: "ArbitrumRetryTx_val \<Rightarrow> int option" where
  "ArbitrumRetryTx_chainID tx = ArbitrumRetryTx.ChainId tx"

definition ArbitrumRetryTx_accessList :: "ArbitrumRetryTx_val \<Rightarrow> AccessList" where
  "ArbitrumRetryTx_accessList tx = []"

definition ArbitrumRetryTx_data :: "ArbitrumRetryTx_val \<Rightarrow> byte list" where
  "ArbitrumRetryTx_data tx = ArbitrumRetryTx.Data tx"

definition ArbitrumRetryTx_gas :: "ArbitrumRetryTx_val \<Rightarrow> uint64" where
  "ArbitrumRetryTx_gas tx = ArbitrumRetryTx.Gas tx"

definition ArbitrumRetryTx_gasPrice :: "ArbitrumRetryTx_val \<Rightarrow> int option" where
  "ArbitrumRetryTx_gasPrice tx = ArbitrumRetryTx.GasFeeCap tx"

definition ArbitrumRetryTx_gasTipCap :: "ArbitrumRetryTx_val \<Rightarrow> int option" where
  "ArbitrumRetryTx_gasTipCap tx = bigZero"

definition ArbitrumRetryTx_gasFeeCap :: "ArbitrumRetryTx_val \<Rightarrow> int option" where
  "ArbitrumRetryTx_gasFeeCap tx = ArbitrumRetryTx.GasFeeCap tx"

definition ArbitrumRetryTx_value :: "ArbitrumRetryTx_val \<Rightarrow> int option" where
  "ArbitrumRetryTx_value tx = ArbitrumRetryTx.Value tx"

definition ArbitrumRetryTx_nonce :: "ArbitrumRetryTx_val \<Rightarrow> uint64" where
  "ArbitrumRetryTx_nonce tx = ArbitrumRetryTx.Nonce tx"

definition ArbitrumRetryTx_to :: "ArbitrumRetryTx_val \<Rightarrow> Address option" where
  "ArbitrumRetryTx_to tx = ArbitrumRetryTx.To tx"

definition ArbitrumRetryTx_blobGas :: "ArbitrumRetryTx_val \<Rightarrow> uint64" where
  "ArbitrumRetryTx_blobGas tx = 0"

definition ArbitrumRetryTx_blobGasFeeCap :: "ArbitrumRetryTx_val \<Rightarrow> int option" where
  "ArbitrumRetryTx_blobGasFeeCap tx = None"

definition ArbitrumRetryTx_blobHashes :: "ArbitrumRetryTx_val \<Rightarrow> Hash list" where
  "ArbitrumRetryTx_blobHashes tx = []"

definition ArbitrumRetryTx_rawSignatureValues :: "ArbitrumRetryTx_val \<Rightarrow> int option \<times> int option \<times> int option" where
  "ArbitrumRetryTx_rawSignatureValues tx = (bigZero, bigZero, bigZero)"

definition ArbitrumRetryTx_effectiveGasPrice :: "ArbitrumRetryTx_val \<Rightarrow> int \<Rightarrow> int option \<Rightarrow> panic + int" where
  "ArbitrumRetryTx_effectiveGasPrice tx dst baseFee = (if baseFee = None then big_Set dst (ArbitrumRetryTx.GasFeeCap tx) else big_Set dst baseFee)"

subsection \<open>\<^verbatim>\<open>ArbitrumSubmitRetryableTx\<close>\<close>

definition ArbitrumSubmitRetryableTx_txType :: "ArbitrumSubmitRetryableTx_val \<Rightarrow> byte" where
  "ArbitrumSubmitRetryableTx_txType tx = ArbitrumSubmitRetryableTxType"

definition ArbitrumSubmitRetryableTx_chainID :: "ArbitrumSubmitRetryableTx_val \<Rightarrow> int option" where
  "ArbitrumSubmitRetryableTx_chainID tx = ArbitrumSubmitRetryableTx.ChainId tx"

definition ArbitrumSubmitRetryableTx_accessList :: "ArbitrumSubmitRetryableTx_val \<Rightarrow> AccessList" where
  "ArbitrumSubmitRetryableTx_accessList tx = []"

definition ArbitrumSubmitRetryableTx_gas :: "ArbitrumSubmitRetryableTx_val \<Rightarrow> uint64" where
  "ArbitrumSubmitRetryableTx_gas tx = ArbitrumSubmitRetryableTx.Gas tx"

definition ArbitrumSubmitRetryableTx_gasPrice :: "ArbitrumSubmitRetryableTx_val \<Rightarrow> int option" where
  "ArbitrumSubmitRetryableTx_gasPrice tx = ArbitrumSubmitRetryableTx.GasFeeCap tx"

definition ArbitrumSubmitRetryableTx_gasTipCap :: "ArbitrumSubmitRetryableTx_val \<Rightarrow> int option" where
  "ArbitrumSubmitRetryableTx_gasTipCap tx = Some 0"

definition ArbitrumSubmitRetryableTx_gasFeeCap :: "ArbitrumSubmitRetryableTx_val \<Rightarrow> int option" where
  "ArbitrumSubmitRetryableTx_gasFeeCap tx = ArbitrumSubmitRetryableTx.GasFeeCap tx"

definition ArbitrumSubmitRetryableTx_value :: "ArbitrumSubmitRetryableTx_val \<Rightarrow> int option" where
  "ArbitrumSubmitRetryableTx_value tx = Big0"

definition ArbitrumSubmitRetryableTx_nonce :: "ArbitrumSubmitRetryableTx_val \<Rightarrow> uint64" where
  "ArbitrumSubmitRetryableTx_nonce tx = 0"

definition ArbitrumSubmitRetryableTx_to :: "ArbitrumSubmitRetryableTx_val \<Rightarrow> Address option" where
  "ArbitrumSubmitRetryableTx_to tx = Some arbRetryableTxAddress"

definition ArbitrumSubmitRetryableTx_blobGas :: "ArbitrumSubmitRetryableTx_val \<Rightarrow> uint64" where
  "ArbitrumSubmitRetryableTx_blobGas tx = 0"

definition ArbitrumSubmitRetryableTx_blobGasFeeCap :: "ArbitrumSubmitRetryableTx_val \<Rightarrow> int option" where
  "ArbitrumSubmitRetryableTx_blobGasFeeCap tx = None"

definition ArbitrumSubmitRetryableTx_blobHashes :: "ArbitrumSubmitRetryableTx_val \<Rightarrow> Hash list" where
  "ArbitrumSubmitRetryableTx_blobHashes tx = []"

definition ArbitrumSubmitRetryableTx_rawSignatureValues :: "ArbitrumSubmitRetryableTx_val \<Rightarrow> int option \<times> int option \<times> int option" where
  "ArbitrumSubmitRetryableTx_rawSignatureValues tx = (bigZero, bigZero, bigZero)"

definition ArbitrumSubmitRetryableTx_effectiveGasPrice :: "ArbitrumSubmitRetryableTx_val \<Rightarrow> int \<Rightarrow> int option \<Rightarrow> panic + int" where
  "ArbitrumSubmitRetryableTx_effectiveGasPrice tx dst baseFee = (if baseFee = None then big_Set dst (ArbitrumSubmitRetryableTx.GasFeeCap tx) else big_Set dst baseFee)"

subsection \<open>\<^verbatim>\<open>depositTxWithNonce\<close>\<close>

text \<open>
  The struct embeds \<^verbatim>\<open>DepositTx\<close> and declares no accessor of its own: Go promotes the
  methods of the embedded struct, \<^verbatim>\<open>copy\<close> included.
\<close>

definition depositTxWithNonce_txType :: "depositTxWithNonce_val \<Rightarrow> byte" where
  "depositTxWithNonce_txType tx = DepositTx_txType (depositTxWithNonce.DepositTx tx)"

definition depositTxWithNonce_chainID :: "depositTxWithNonce_val \<Rightarrow> int option" where
  "depositTxWithNonce_chainID tx = DepositTx_chainID (depositTxWithNonce.DepositTx tx)"

definition depositTxWithNonce_accessList :: "depositTxWithNonce_val \<Rightarrow> AccessList" where
  "depositTxWithNonce_accessList tx = DepositTx_accessList (depositTxWithNonce.DepositTx tx)"

definition depositTxWithNonce_data :: "depositTxWithNonce_val \<Rightarrow> byte list" where
  "depositTxWithNonce_data tx = DepositTx_data (depositTxWithNonce.DepositTx tx)"

definition depositTxWithNonce_gas :: "depositTxWithNonce_val \<Rightarrow> uint64" where
  "depositTxWithNonce_gas tx = DepositTx_gas (depositTxWithNonce.DepositTx tx)"

definition depositTxWithNonce_gasFeeCap :: "depositTxWithNonce_val \<Rightarrow> int option" where
  "depositTxWithNonce_gasFeeCap tx = DepositTx_gasFeeCap (depositTxWithNonce.DepositTx tx)"

definition depositTxWithNonce_gasTipCap :: "depositTxWithNonce_val \<Rightarrow> int option" where
  "depositTxWithNonce_gasTipCap tx = DepositTx_gasTipCap (depositTxWithNonce.DepositTx tx)"

definition depositTxWithNonce_gasPrice :: "depositTxWithNonce_val \<Rightarrow> int option" where
  "depositTxWithNonce_gasPrice tx = DepositTx_gasPrice (depositTxWithNonce.DepositTx tx)"

definition depositTxWithNonce_value :: "depositTxWithNonce_val \<Rightarrow> int option" where
  "depositTxWithNonce_value tx = DepositTx_value (depositTxWithNonce.DepositTx tx)"

definition depositTxWithNonce_nonce :: "depositTxWithNonce_val \<Rightarrow> uint64" where
  "depositTxWithNonce_nonce tx = DepositTx_nonce (depositTxWithNonce.DepositTx tx)"

definition depositTxWithNonce_to :: "depositTxWithNonce_val \<Rightarrow> Address option" where
  "depositTxWithNonce_to tx = DepositTx_to (depositTxWithNonce.DepositTx tx)"

definition depositTxWithNonce_blobGas :: "depositTxWithNonce_val \<Rightarrow> uint64" where
  "depositTxWithNonce_blobGas tx = DepositTx_blobGas (depositTxWithNonce.DepositTx tx)"

definition depositTxWithNonce_blobGasFeeCap :: "depositTxWithNonce_val \<Rightarrow> int option" where
  "depositTxWithNonce_blobGasFeeCap tx = DepositTx_blobGasFeeCap (depositTxWithNonce.DepositTx tx)"

definition depositTxWithNonce_blobHashes :: "depositTxWithNonce_val \<Rightarrow> Hash list" where
  "depositTxWithNonce_blobHashes tx = DepositTx_blobHashes (depositTxWithNonce.DepositTx tx)"

definition depositTxWithNonce_effectiveGasPrice ::
  "depositTxWithNonce_val \<Rightarrow> int \<Rightarrow> int option \<Rightarrow> panic + int" where
  "depositTxWithNonce_effectiveGasPrice tx dst baseFee =
     DepositTx_effectiveGasPrice (depositTxWithNonce.DepositTx tx) dst baseFee"

definition depositTxWithNonce_rawSignatureValues :: "depositTxWithNonce_val \<Rightarrow> int option \<times> int option \<times> int option" where
  "depositTxWithNonce_rawSignatureValues tx = DepositTx_rawSignatureValues (depositTxWithNonce.DepositTx tx)"


subsection \<open>The derived call data of \<^verbatim>\<open>ArbitrumSubmitRetryableTx\<close>\<close>

text \<open>\<^verbatim>\<open>hexutil.MustDecode("0xc9f95d32")\<close>\<close>

definition selector_c9f95d32 :: "byte list" where
  "selector_c9f95d32 = [0xc9, 0xf9, 0x5d, 0x32]"

text \<open>
  \<^verbatim>\<open>data()\<close>, statement by statement. \<^verbatim>\<open>new(big.Int).SetUint64(tx.Gas)\<close> is the unsigned
  value of \<open>Gas\<close>; \<^verbatim>\<open>big.NewInt(int64(n))\<close> of a slice length is that length.
\<close>

definition ArbitrumSubmitRetryableTx_data ::
  "ArbitrumSubmitRetryableTx_val \<Rightarrow> panic + byte list" where
  "ArbitrumSubmitRetryableTx_data tx =
    (let retryTo = (case ArbitrumSubmitRetryableTx.RetryTo tx of None \<Rightarrow> 0 | Some a \<Rightarrow> a);
         data = [];
         data = data @ Hash_Bytes (ArbitrumSubmitRetryableTx.RequestId tx)
     in and_then (U256Bytes (ArbitrumSubmitRetryableTx.L1BaseFee tx)) (\<lambda>w.
        let data = data @ w
     in and_then (U256Bytes (ArbitrumSubmitRetryableTx.DepositValue tx)) (\<lambda>w.
        let data = data @ w
     in and_then (U256Bytes (ArbitrumSubmitRetryableTx.RetryValue tx)) (\<lambda>w.
        let data = data @ w
     in and_then (U256Bytes (ArbitrumSubmitRetryableTx.GasFeeCap tx)) (\<lambda>w.
        let data = data @ w
     in and_then (U256Bytes (Some (uint (ArbitrumSubmitRetryableTx.Gas tx)))) (\<lambda>w.
        let data = data @ w
     in and_then (U256Bytes (ArbitrumSubmitRetryableTx.MaxSubmissionFee tx)) (\<lambda>w.
        let data = data @ w;
            data = data @ make_bytes 12;
            data = data @ Address_Bytes (ArbitrumSubmitRetryableTx.FeeRefundAddr tx);
            data = data @ make_bytes 12;
            data = data @ Address_Bytes (ArbitrumSubmitRetryableTx.Beneficiary tx);
            data = data @ make_bytes 12;
            data = data @ Address_Bytes retryTo;
            offset = length data + 32
     in and_then (U256Bytes (Some (int offset))) (\<lambda>w.
        let data = data @ w
     in and_then (U256Bytes (Some (int (length (ArbitrumSubmitRetryableTx.RetryData tx))))) (\<lambda>w.
        let data = data @ w;
            data = data @ ArbitrumSubmitRetryableTx.RetryData tx;
            extra = length (ArbitrumSubmitRetryableTx.RetryData tx) mod 32;
            data = (if extra > 0 then data @ make_bytes (32 - extra) else data);
            data = selector_c9f95d32 @ data
        in Inr data)))))))))"


section \<open>The JSON decoders\<close>

text \<open>
  Both decoders end in \<^verbatim>\<open>tx.setDecoded(inner, 0)\<close> and \<^verbatim>\<open>return nil\<close>: the model
  returns \<open>inner\<close>, or the error of the first \<^verbatim>\<open>return\<close> reached. A field dereferenced
  after its nil check is read with \<open>the\<close>. The zero value of a struct
  (\<^verbatim>\<open>var itx DepositTx\<close>) has every field zero, nil or empty.
\<close>

definition DepositTx_zero :: DepositTx_val where
  "DepositTx_zero =
     \<lparr>DepositTx.SourceHash = 0, From = 0, To = None, Mint = None, Value = None, Gas = 0,
      IsSystemTransaction = False, Data = []\<rparr>"

definition LegacyTx_zero :: LegacyTx_val where
  "LegacyTx_zero =
     \<lparr>LegacyTx.Nonce = 0, GasPrice = None, Gas = 0, To = None, Value = None, Data = [],
      V = None, R = None, S = None\<rparr>"

definition unmarshalOptimismJSON :: "txJSON \<Rightarrow> error + TxData_val" where
  "unmarshalOptimismJSON dec =
    (if txJSON.Type dec = OPDepositTxType then
       if txJSON.AccessList dec \<noteq> None \<or> txJSON.MaxFeePerGas dec \<noteq> None \<or>
          txJSON.MaxPriorityFeePerGas dec \<noteq> None
       then Inl (errors_New ''unexpected field(s) in deposit transaction'')
       else if txJSON.GasPrice dec \<noteq> None \<and> the (txJSON.GasPrice dec) \<noteq> 0
       then Inl (errors_New ''deposit transaction GasPrice must be 0'')
       else if (txJSON.V dec \<noteq> None \<and> the (txJSON.V dec) \<noteq> 0) \<or>
               (txJSON.R dec \<noteq> None \<and> the (txJSON.R dec) \<noteq> 0) \<or>
               (txJSON.S dec \<noteq> None \<and> the (txJSON.S dec) \<noteq> 0)
       then Inl (errors_New ''deposit transaction signature must be 0 or unset'')
       else
         let itx = DepositTx_zero;
             itx = (if txJSON.To dec \<noteq> None then itx\<lparr>DepositTx.To := txJSON.To dec\<rparr> else itx)
         in if txJSON.Gas dec = None
            then Inl (errors_New ''missing required field 'gas' for txdata'')
            else
         let itx = itx\<lparr>DepositTx.Gas := the (txJSON.Gas dec)\<rparr>
         in if txJSON.Value dec = None
            then Inl (errors_New ''missing required field 'value' in transaction'')
            else
         let itx = itx\<lparr>DepositTx.Value := txJSON.Value dec\<rparr>;
             itx = itx\<lparr>DepositTx.Mint := txJSON.Mint dec\<rparr>
         in if txJSON.Input dec = None
            then Inl (errors_New ''missing required field 'input' in transaction'')
            else
         let itx = itx\<lparr>DepositTx.Data := the (txJSON.Input dec)\<rparr>
         in if txJSON.From dec = None
            then Inl (errors_New ''missing required field 'from' in transaction'')
            else
         let itx = itx\<lparr>DepositTx.From := the (txJSON.From dec)\<rparr>
         in if txJSON.SourceHash dec = None
            then Inl (errors_New ''missing required field 'sourceHash' in transaction'')
            else
         let itx = itx\<lparr>DepositTx.SourceHash := the (txJSON.SourceHash dec)\<rparr>;
             itx = (if txJSON.IsSystemTx dec \<noteq> None
                    then itx\<lparr>DepositTx.IsSystemTransaction := the (txJSON.IsSystemTx dec)\<rparr>
                    else itx)
         in if txJSON.Nonce dec \<noteq> None
            then Inr (Inner_depositTxWithNonce
                        \<lparr>depositTxWithNonce.DepositTx = itx,
                         EffectiveNonce = the (txJSON.Nonce dec)\<rparr>)
            else Inr (Inner_DepositTx itx)
     else Inl ErrTxTypeNotSupported)"

text \<open>
  \<^verbatim>\<open>sanityCheckSignature(v, r, s, maybeProtected)\<close> is defined outside these sources and
  is a parameter of the decoder: \<open>None\<close> is the nil error. Each case of the
  \<^verbatim>\<open>switch dec.Type\<close> of \<^verbatim>\<open>unmarshalArbitrumJSON\<close> is a definition of its own.
\<close>

type_synonym sanityCheckSignature = "int \<Rightarrow> int \<Rightarrow> int \<Rightarrow> bool \<Rightarrow> error option"

definition unmarshal_ArbitrumLegacyTxType ::
  "sanityCheckSignature \<Rightarrow> txJSON \<Rightarrow> error + TxData_val" where
  "unmarshal_ArbitrumLegacyTxType sanityCheckSignature dec =
    (let itx = LegacyTx_zero;
         itx = (if txJSON.To dec \<noteq> None then itx\<lparr>LegacyTx.To := txJSON.To dec\<rparr> else itx)
     in if txJSON.Nonce dec = None
        then Inl (errors_New ''missing required field 'nonce' in transaction'')
        else
     let itx = itx\<lparr>LegacyTx.Nonce := the (txJSON.Nonce dec)\<rparr>
     in if txJSON.GasPrice dec = None
        then Inl (errors_New ''missing required field 'gasPrice' in transaction'')
        else
     let itx = itx\<lparr>LegacyTx.GasPrice := txJSON.GasPrice dec\<rparr>
     in if txJSON.Gas dec = None
        then Inl (errors_New ''missing required field 'gas' in transaction'')
        else
     let itx = itx\<lparr>LegacyTx.Gas := the (txJSON.Gas dec)\<rparr>
     in if txJSON.Value dec = None
        then Inl (errors_New ''missing required field 'value' in transaction'')
        else
     let itx = itx\<lparr>LegacyTx.Value := txJSON.Value dec\<rparr>
     in if txJSON.Input dec = None
        then Inl (errors_New ''missing required field 'input' in transaction'')
        else
     let itx = itx\<lparr>LegacyTx.Data := the (txJSON.Input dec)\<rparr>
     in if txJSON.V dec = None
        then Inl (errors_New ''missing required field 'v' in transaction'')
        else
     let itx = itx\<lparr>LegacyTx.V := txJSON.V dec\<rparr>
     in if txJSON.R dec = None
        then Inl (errors_New ''missing required field 'r' in transaction'')
        else
     let itx = itx\<lparr>LegacyTx.R := txJSON.R dec\<rparr>
     in if txJSON.S dec = None
        then Inl (errors_New ''missing required field 's' in transaction'')
        else
     let itx = itx\<lparr>LegacyTx.S := txJSON.S dec\<rparr>;
         withSignature = (the (LegacyTx.V itx) \<noteq> 0 \<or> the (LegacyTx.R itx) \<noteq> 0 \<or>
                          the (LegacyTx.S itx) \<noteq> 0);
         err = (if withSignature
                then sanityCheckSignature (the (LegacyTx.V itx)) (the (LegacyTx.R itx))
                       (the (LegacyTx.S itx)) True
                else None)
     in if err \<noteq> None then Inl (the err)
        else if txJSON.EffectiveGasPrice dec = None
        then Inl (errors_New ''missing required field 'EffectiveGasPrice' in transaction'')
        else if txJSON.L1BlockNumber dec = None
        then Inl (errors_New ''missing required field 'L1BlockNumber' in transaction'')
        else Inr (Inner_ArbitrumLegacyTxData
                    \<lparr>ArbitrumLegacyTxData.LegacyTx = itx,
                     HashOverride = txJSON.Hash dec,
                     EffectiveGasPrice = the (txJSON.EffectiveGasPrice dec),
                     L1BlockNumber = the (txJSON.L1BlockNumber dec),
                     Sender = txJSON.From dec\<rparr>))"

definition unmarshal_ArbitrumInternalTxType :: "txJSON \<Rightarrow> error + TxData_val" where
  "unmarshal_ArbitrumInternalTxType dec =
    (
     if txJSON.ChainID dec = None then Inl (errors_New ''missing required field 'chainId' in transaction'') else
     if txJSON.Input dec = None then Inl (errors_New ''missing required field 'input' in transaction'') else
     Inr (Inner_ArbitrumInternalTx
       \<lparr>ArbitrumInternalTx.ChainId = txJSON.ChainID dec,
        Data = the (txJSON.Input dec)\<rparr>))"

definition unmarshal_ArbitrumDepositTxType :: "txJSON \<Rightarrow> error + TxData_val" where
  "unmarshal_ArbitrumDepositTxType dec =
    (
     if txJSON.ChainID dec = None then Inl (errors_New ''missing required field 'chainId' in transaction'') else
     if txJSON.RequestId dec = None then Inl (errors_New ''missing required field 'requestId' in transaction'') else
     if txJSON.To dec = None then Inl (errors_New ''missing required field 'to' in transaction'') else
     if txJSON.From dec = None then Inl (errors_New ''missing required field 'from' in transaction'') else
     if txJSON.Value dec = None then Inl (errors_New ''missing required field 'value' in transaction'') else
     Inr (Inner_ArbitrumDepositTx
       \<lparr>ArbitrumDepositTx.ChainId = txJSON.ChainID dec,
        L1RequestId = the (txJSON.RequestId dec),
        From = the (txJSON.From dec),
        To = the (txJSON.To dec),
        Value = txJSON.Value dec\<rparr>))"

definition unmarshal_ArbitrumUnsignedTxType :: "txJSON \<Rightarrow> error + TxData_val" where
  "unmarshal_ArbitrumUnsignedTxType dec =
    (
     if txJSON.ChainID dec = None then Inl (errors_New ''missing required field 'chainId' in transaction'') else
     if txJSON.From dec = None then Inl (errors_New ''missing required field 'from' in transaction'') else
     if txJSON.Nonce dec = None then Inl (errors_New ''missing required field 'nonce' in transaction'') else
     if txJSON.MaxFeePerGas dec = None then Inl (errors_New ''missing required field 'maxFeePerGas' for txdata'') else
     if txJSON.Gas dec = None then Inl (errors_New ''missing required field 'gas' in txdata'') else
     if txJSON.Value dec = None then Inl (errors_New ''missing required field 'value' in transaction'') else
     if txJSON.Input dec = None then Inl (errors_New ''missing required field 'input' in transaction'') else
     Inr (Inner_ArbitrumUnsignedTx
       \<lparr>ArbitrumUnsignedTx.ChainId = txJSON.ChainID dec,
        From = the (txJSON.From dec),
        Nonce = the (txJSON.Nonce dec),
        GasFeeCap = txJSON.MaxFeePerGas dec,
        Gas = the (txJSON.Gas dec),
        To = txJSON.To dec,
        Value = txJSON.Value dec,
        Data = the (txJSON.Input dec)\<rparr>))"

definition unmarshal_ArbitrumContractTxType :: "txJSON \<Rightarrow> error + TxData_val" where
  "unmarshal_ArbitrumContractTxType dec =
    (
     if txJSON.ChainID dec = None then Inl (errors_New ''missing required field 'chainId' in transaction'') else
     if txJSON.RequestId dec = None then Inl (errors_New ''missing required field 'requestId' in transaction'') else
     if txJSON.From dec = None then Inl (errors_New ''missing required field 'from' in transaction'') else
     if txJSON.MaxFeePerGas dec = None then Inl (errors_New ''missing required field 'maxFeePerGas' for txdata'') else
     if txJSON.Gas dec = None then Inl (errors_New ''missing required field 'gas' in txdata'') else
     if txJSON.Value dec = None then Inl (errors_New ''missing required field 'value' in transaction'') else
     if txJSON.Input dec = None then Inl (errors_New ''missing required field 'input' in transaction'') else
     Inr (Inner_ArbitrumContractTx
       \<lparr>ArbitrumContractTx.ChainId = txJSON.ChainID dec,
        RequestId = the (txJSON.RequestId dec),
        From = the (txJSON.From dec),
        GasFeeCap = txJSON.MaxFeePerGas dec,
        Gas = the (txJSON.Gas dec),
        To = txJSON.To dec,
        Value = txJSON.Value dec,
        Data = the (txJSON.Input dec)\<rparr>))"

definition unmarshal_ArbitrumRetryTxType :: "txJSON \<Rightarrow> error + TxData_val" where
  "unmarshal_ArbitrumRetryTxType dec =
    (
     if txJSON.ChainID dec = None then Inl (errors_New ''missing required field 'chainId' in transaction'') else
     if txJSON.Nonce dec = None then Inl (errors_New ''missing required field 'nonce' in transaction'') else
     if txJSON.From dec = None then Inl (errors_New ''missing required field 'from' in transaction'') else
     if txJSON.MaxFeePerGas dec = None then Inl (errors_New ''missing required field 'maxFeePerGas' for txdata'') else
     if txJSON.Gas dec = None then Inl (errors_New ''missing required field 'gas' in txdata'') else
     if txJSON.Value dec = None then Inl (errors_New ''missing required field 'value' in transaction'') else
     if txJSON.Input dec = None then Inl (errors_New ''missing required field 'input' in transaction'') else
     if txJSON.TicketId dec = None then Inl (errors_New ''missing required field 'ticketId' in transaction'') else
     if txJSON.RefundTo dec = None then Inl (errors_New ''missing required field 'refundTo' in transaction'') else
     if txJSON.MaxRefund dec = None then Inl (errors_New ''missing required field 'maxRefund' in transaction'') else
     if txJSON.SubmissionFeeRefund dec = None then Inl (errors_New ''missing required field 'submissionFeeRefund' in transaction'') else
     Inr (Inner_ArbitrumRetryTx
       \<lparr>ArbitrumRetryTx.ChainId = txJSON.ChainID dec,
        Nonce = the (txJSON.Nonce dec),
        From = the (txJSON.From dec),
        GasFeeCap = txJSON.MaxFeePerGas dec,
        Gas = the (txJSON.Gas dec),
        To = txJSON.To dec,
        Value = txJSON.Value dec,
        Data = the (txJSON.Input dec),
        TicketId = the (txJSON.TicketId dec),
        RefundTo = the (txJSON.RefundTo dec),
        MaxRefund = txJSON.MaxRefund dec,
        SubmissionFeeRefund = txJSON.SubmissionFeeRefund dec\<rparr>))"

definition unmarshal_ArbitrumSubmitRetryableTxType :: "txJSON \<Rightarrow> error + TxData_val" where
  "unmarshal_ArbitrumSubmitRetryableTxType dec =
    (
     if txJSON.ChainID dec = None then Inl (errors_New ''missing required field 'chainId' in transaction'') else
     if txJSON.RequestId dec = None then Inl (errors_New ''missing required field 'requestId' in transaction'') else
     if txJSON.From dec = None then Inl (errors_New ''missing required field 'from' in transaction'') else
     if txJSON.L1BaseFee dec = None then Inl (errors_New ''missing required field 'l1BaseFee' in transaction'') else
     if txJSON.DepositValue dec = None then Inl (errors_New ''missing required field 'depositValue' in transaction'') else
     if txJSON.MaxFeePerGas dec = None then Inl (errors_New ''missing required field 'maxFeePerGas' for txdata'') else
     if txJSON.Gas dec = None then Inl (errors_New ''missing required field 'gas' in txdata'') else
     if txJSON.Beneficiary dec = None then Inl (errors_New ''missing required field 'beneficiary' in transaction'') else
     if txJSON.MaxSubmissionFee dec = None then Inl (errors_New ''missing required field 'maxSubmissionFee' in transaction'') else
     if txJSON.RefundTo dec = None then Inl (errors_New ''missing required field 'refundTo' in transaction'') else
     if txJSON.RetryValue dec = None then Inl (errors_New ''missing required field 'retryValue' in transaction'') else
     if txJSON.RetryData dec = None then Inl (errors_New ''missing required field 'retryData' in transaction'') else
     Inr (Inner_ArbitrumSubmitRetryableTx
       \<lparr>ArbitrumSubmitRetryableTx.ChainId = txJSON.ChainID dec,
        RequestId = the (txJSON.RequestId dec),
        From = the (txJSON.From dec),
        L1BaseFee = txJSON.L1BaseFee dec,
        DepositValue = txJSON.DepositValue dec,
        GasFeeCap = txJSON.MaxFeePerGas dec,
        Gas = the (txJSON.Gas dec),
        RetryTo = txJSON.RetryTo dec,
        RetryValue = txJSON.RetryValue dec,
        Beneficiary = the (txJSON.Beneficiary dec),
        MaxSubmissionFee = txJSON.MaxSubmissionFee dec,
        FeeRefundAddr = the (txJSON.RefundTo dec),
        RetryData = the (txJSON.RetryData dec)\<rparr>))"

definition unmarshalArbitrumJSON :: "sanityCheckSignature \<Rightarrow> txJSON \<Rightarrow> error + TxData_val" where
  "unmarshalArbitrumJSON sanityCheckSignature dec =
    (if txJSON.Type dec = ArbitrumLegacyTxType
       then unmarshal_ArbitrumLegacyTxType sanityCheckSignature dec
     else if txJSON.Type dec = ArbitrumInternalTxType then unmarshal_ArbitrumInternalTxType dec
     else if txJSON.Type dec = ArbitrumDepositTxType then unmarshal_ArbitrumDepositTxType dec
     else if txJSON.Type dec = ArbitrumUnsignedTxType then unmarshal_ArbitrumUnsignedTxType dec
     else if txJSON.Type dec = ArbitrumContractTxType then unmarshal_ArbitrumContractTxType dec
     else if txJSON.Type dec = ArbitrumRetryTxType then unmarshal_ArbitrumRetryTxType dec
     else if txJSON.Type dec = ArbitrumSubmitRetryableTxType
       then unmarshal_ArbitrumSubmitRetryableTxType dec
     else Inl ErrTxTypeNotSupported)"

section \<open>Canonical encoding of the nonce-carrying deposit\<close>

text \<open>
  \<^verbatim>\<open>rlp.Encode\<close> belongs to the external encoder. Its result on a plain \<^verbatim>\<open>DepositTx\<close>
  struct is a parameter; \<^verbatim>\<open>depositTxWithNonce.EncodeRLP\<close> hands it \<^verbatim>\<open>tx.DepositTx\<close>.
\<close>

definition depositTxWithNonce_EncodeRLP ::
  "(DepositTx_val \<Rightarrow> error + byte list) \<Rightarrow> depositTxWithNonce_val \<Rightarrow> error + byte list" where
  "depositTxWithNonce_EncodeRLP rlp_Encode tx = rlp_Encode (depositTxWithNonce.DepositTx tx)"


section \<open>Storage: pointers, allocation and \<^verbatim>\<open>copy\<close>\<close>

text \<open>
  Where aliasing matters the structs hold pointers. The store has one list of cells for
  each kind of mutable object: \<^verbatim>\<open>big.Int\<close> values, heap-allocated \<^verbatim>\<open>common.Address\<close>
  values and the backing arrays of byte slices. A pointer is an index into its list,
  \<open>None\<close> is nil, and allocation appends a cell, so a new pointer differs from every
  pointer that existed before. A byte slice is a pointer to its backing array (a nil
  slice is \<open>None\<close>) and always spans the whole array.
\<close>

record heap =
  bigs :: "int list"
  addrs :: "Address list"
  bufs :: "byte list list"

type_synonym DepositTx_ptr = "(nat option, nat option, nat option) DepositTx"
type_synonym depositTxWithNonce_ptr = "(nat option, nat option, nat option) depositTxWithNonce"
type_synonym LegacyTx_ptr = "(nat option, nat option, nat option) LegacyTx"
type_synonym ArbitrumLegacyTxData_ptr =
  "(nat option, nat option, nat option) ArbitrumLegacyTxData"
type_synonym ArbitrumUnsignedTx_ptr = "(nat option, nat option, nat option) ArbitrumUnsignedTx"
type_synonym ArbitrumInternalTx_ptr = "(nat option, nat option) ArbitrumInternalTx"
type_synonym ArbitrumDepositTx_ptr = "nat option ArbitrumDepositTx"
type_synonym ArbitrumContractTx_ptr = "(nat option, nat option, nat option) ArbitrumContractTx"
type_synonym ArbitrumRetryTx_ptr = "(nat option, nat option, nat option) ArbitrumRetryTx"
type_synonym ArbitrumSubmitRetryableTx_ptr =
  "(nat option, nat option, nat option) ArbitrumSubmitRetryableTx"
type_synonym TxData_ptr = "(nat option, nat option, nat option) TxData"

text \<open>\<^verbatim>\<open>new(big.Int)\<close>: a fresh cell holding zero.\<close>

definition new_big :: "heap \<Rightarrow> nat \<times> heap" where
  "new_big h = (length (bigs h), h\<lparr>bigs := bigs h @ [0]\<rparr>)"

text \<open>\<^verbatim>\<open>z.Set(x)\<close> for allocated \<open>z\<close> and \<open>x\<close>: cell \<open>z\<close> takes the number in cell \<open>x\<close>.\<close>

definition big_Set_at :: "nat \<Rightarrow> nat \<Rightarrow> heap \<Rightarrow> heap" where
  "big_Set_at z x h = h\<lparr>bigs := (bigs h)[z := bigs h ! x]\<rparr>"

text \<open>
  The recurring statement \<^verbatim>\<open>if tx.F != nil { cpy.F.Set(tx.F) }\<close>, for the cell \<open>z\<close> of
  \<^verbatim>\<open>cpy.F\<close>.
\<close>

definition Set_if_not_nil :: "nat \<Rightarrow> nat option \<Rightarrow> heap \<Rightarrow> heap" where
  "Set_if_not_nil z x h = (case x of None \<Rightarrow> h | Some p \<Rightarrow> big_Set_at z p h)"

text \<open>
  A fresh \<^verbatim>\<open>common.Address\<close> cell holding \<open>v\<close>: \<^verbatim>\<open>tmp := *tx.To; cpy.To = &tmp\<close>, and
  \<^verbatim>\<open>sender = new(common.Address); *sender = *tx.Sender\<close>.
\<close>

definition new_Address :: "Address \<Rightarrow> heap \<Rightarrow> nat \<times> heap" where
  "new_Address v h = (length (addrs h), h\<lparr>addrs := addrs h @ [v]\<rparr>)"

text \<open>
  Modelled from the spec: \<^verbatim>\<open>copyAddressPtr\<close> is defined outside these sources. Deep-copy
  rule 4: nil stays nil; non-nil allocates a new address and copies the value.
\<close>

definition copyAddressPtr :: "nat option \<Rightarrow> heap \<Rightarrow> nat option \<times> heap" where
  "copyAddressPtr a h =
     (case a of None \<Rightarrow> (None, h)
      | Some p \<Rightarrow> (let (q, h) = new_Address (addrs h ! p) h in (Some q, h)))"

text \<open>
  Modelled from the spec: \<^verbatim>\<open>common.CopyBytes\<close> is defined outside these sources. Deep-copy
  rule 2: allocate a new buffer and duplicate the contents byte for byte, never sharing
  the backing storage. A nil slice has no buffer to duplicate and stays nil.
\<close>

definition CopyBytes :: "nat option \<Rightarrow> heap \<Rightarrow> nat option \<times> heap" where
  "CopyBytes b h =
     (case b of None \<Rightarrow> (None, h)
      | Some p \<Rightarrow> (Some (length (bufs h)), h\<lparr>bufs := bufs h @ [bufs h ! p]\<rparr>))"

subsection \<open>The \<^verbatim>\<open>copy\<close> method of each struct\<close>

text \<open>
  Each \<^verbatim>\<open>copy\<close> first evaluates its composite literal, field by field in the order
  written, then runs the guarded statements that follow. It returns the clone and the
  store after the call.
\<close>

definition DepositTx_copy :: "DepositTx_ptr \<Rightarrow> heap \<Rightarrow> DepositTx_ptr \<times> heap" where
  "DepositTx_copy tx h =
    (let (to, h) = copyAddressPtr (DepositTx.To tx) h;
         (val, h) = new_big h;
         (data, h) = CopyBytes (DepositTx.Data tx) h;
         cpy = \<lparr>DepositTx.SourceHash = DepositTx.SourceHash tx,
                From = DepositTx.From tx,
                To = to,
                Mint = None,
                Value = Some val,
                Gas = DepositTx.Gas tx,
                IsSystemTransaction = DepositTx.IsSystemTransaction tx,
                Data = data\<rparr>;
         (cpy, h) = (case DepositTx.Mint tx of None \<Rightarrow> (cpy, h)
                     | Some m \<Rightarrow> (let (n, h) = new_big h; h = big_Set_at n m h
                                  in (cpy\<lparr>DepositTx.Mint := Some n\<rparr>, h)));
         h = Set_if_not_nil val (DepositTx.Value tx) h
     in (cpy, h))"

text \<open>
  Modelled from the spec: \<^verbatim>\<open>LegacyTx.copy\<close> is defined outside these sources. It follows
  the deep-copy protocol as the copies in these sources do: optional address by rule 4,
  payload by rule 2, every big integer a new cell set to the source's value, zero where
  the source is nil.
\<close>

definition LegacyTx_copy :: "LegacyTx_ptr \<Rightarrow> heap \<Rightarrow> LegacyTx_ptr \<times> heap" where
  "LegacyTx_copy tx h =
    (let (to, h) = copyAddressPtr (LegacyTx.To tx) h;
         (data, h) = CopyBytes (LegacyTx.Data tx) h;
         (val, h) = new_big h;
         (gasPrice, h) = new_big h;
         (v, h) = new_big h;
         (r, h) = new_big h;
         (s, h) = new_big h;
         cpy = \<lparr>LegacyTx.Nonce = LegacyTx.Nonce tx,
                GasPrice = Some gasPrice,
                Gas = LegacyTx.Gas tx,
                To = to,
                Value = Some val,
                Data = data,
                V = Some v,
                R = Some r,
                S = Some s\<rparr>;
         h = Set_if_not_nil val (LegacyTx.Value tx) h;
         h = Set_if_not_nil gasPrice (LegacyTx.GasPrice tx) h;
         h = Set_if_not_nil v (LegacyTx.V tx) h;
         h = Set_if_not_nil r (LegacyTx.R tx) h;
         h = Set_if_not_nil s (LegacyTx.S tx) h
     in (cpy, h))"

definition ArbitrumLegacyTxData_copy ::
  "ArbitrumLegacyTxData_ptr \<Rightarrow> heap \<Rightarrow> ArbitrumLegacyTxData_ptr \<times> heap" where
  "ArbitrumLegacyTxData_copy tx h =
    (let (legacyCopy, h) = LegacyTx_copy (ArbitrumLegacyTxData.LegacyTx tx) h;
         (sender, h) = (case ArbitrumLegacyTxData.Sender tx of None \<Rightarrow> (None, h)
                        | Some p \<Rightarrow> (let (q, h) = new_Address (addrs h ! p) h in (Some q, h)))
     in (\<lparr>ArbitrumLegacyTxData.LegacyTx = legacyCopy,
          HashOverride = ArbitrumLegacyTxData.HashOverride tx,
          EffectiveGasPrice = ArbitrumLegacyTxData.EffectiveGasPrice tx,
          L1BlockNumber = ArbitrumLegacyTxData.L1BlockNumber tx,
          Sender = sender\<rparr>, h))"

definition ArbitrumUnsignedTx_copy ::
  "ArbitrumUnsignedTx_ptr \<Rightarrow> heap \<Rightarrow> ArbitrumUnsignedTx_ptr \<times> heap" where
  "ArbitrumUnsignedTx_copy tx h =
    (let (chainId, h) = new_big h;
         (gasFeeCap, h) = new_big h;
         (val, h) = new_big h;
         (data, h) = CopyBytes (ArbitrumUnsignedTx.Data tx) h;
         cpy = \<lparr>ArbitrumUnsignedTx.ChainId = Some chainId,
                From = ArbitrumUnsignedTx.From tx,
                Nonce = ArbitrumUnsignedTx.Nonce tx,
                GasFeeCap = Some gasFeeCap,
                Gas = ArbitrumUnsignedTx.Gas tx,
                To = None,
                Value = Some val,
                Data = data\<rparr>;
         h = Set_if_not_nil chainId (ArbitrumUnsignedTx.ChainId tx) h;
         h = Set_if_not_nil gasFeeCap (ArbitrumUnsignedTx.GasFeeCap tx) h;
         (cpy, h) = (case ArbitrumUnsignedTx.To tx of None \<Rightarrow> (cpy, h)
                     | Some p \<Rightarrow> (let (tmp, h) = new_Address (addrs h ! p) h
                                  in (cpy\<lparr>ArbitrumUnsignedTx.To := Some tmp\<rparr>, h)));
         h = Set_if_not_nil val (ArbitrumUnsignedTx.Value tx) h
     in (cpy, h))"

text \<open>
  \<^verbatim>\<open>new(big.Int).Set(tx.ChainId)\<close> has no nil guard: the cell is allocated, then \<^verbatim>\<open>Set\<close>
  reads \<^verbatim>\<open>tx.ChainId\<close> and panics when it is nil.
\<close>

definition ArbitrumInternalTx_copy ::
  "ArbitrumInternalTx_ptr \<Rightarrow> heap \<Rightarrow> panic + ArbitrumInternalTx_ptr \<times> heap" where
  "ArbitrumInternalTx_copy tx h =
    (let (chainId, h) = new_big h
     in case ArbitrumInternalTx.ChainId tx of
          None \<Rightarrow> Inl nil_pointer_dereference
        | Some c \<Rightarrow>
           (let h = big_Set_at chainId c h;
                (data, h) = CopyBytes (ArbitrumInternalTx.Data tx) h
            in Inr (\<lparr>ArbitrumInternalTx.ChainId = Some chainId, Data = data\<rparr>, h)))"

definition ArbitrumDepositTx_copy ::
  "ArbitrumDepositTx_ptr \<Rightarrow> heap \<Rightarrow> ArbitrumDepositTx_ptr \<times> heap" where
  "ArbitrumDepositTx_copy tx h =
    (let (chainId, h) = new_big h;
         (val, h) = new_big h;
         dtx = \<lparr>ArbitrumDepositTx.ChainId = Some chainId,
                L1RequestId = ArbitrumDepositTx.L1RequestId tx,
                From = ArbitrumDepositTx.From tx,
                To = ArbitrumDepositTx.To tx,
                Value = Some val\<rparr>;
         h = Set_if_not_nil chainId (ArbitrumDepositTx.ChainId tx) h;
         h = Set_if_not_nil val (ArbitrumDepositTx.Value tx) h
     in (dtx, h))"

definition ArbitrumContractTx_copy ::
  "ArbitrumContractTx_ptr \<Rightarrow> heap \<Rightarrow> ArbitrumContractTx_ptr \<times> heap" where
  "ArbitrumContractTx_copy tx h =
    (let (chainId, h) = new_big h;
         (gasFeeCap, h) = new_big h;
         (val, h) = new_big h;
         (data, h) = CopyBytes (ArbitrumContractTx.Data tx) h;
         cpy = \<lparr>ArbitrumContractTx.ChainId = Some chainId,
                RequestId = ArbitrumContractTx.RequestId tx,
                From = ArbitrumContractTx.From tx,
                GasFeeCap = Some gasFeeCap,
                Gas = ArbitrumContractTx.Gas tx,
                To = None,
                Value = Some val,
                Data = data\<rparr>;
         h = Set_if_not_nil chainId (ArbitrumContractTx.ChainId tx) h;
         h = Set_if_not_nil gasFeeCap (ArbitrumContractTx.GasFeeCap tx) h;
         (cpy, h) = (case ArbitrumContractTx.To tx of None \<Rightarrow> (cpy, h)
                     | Some p \<Rightarrow> (let (tmp, h) = new_Address (addrs h ! p) h
                                  in (cpy\<lparr>ArbitrumContractTx.To := Some tmp\<rparr>, h)));
         h = Set_if_not_nil val (ArbitrumContractTx.Value tx) h
     in (cpy, h))"

definition ArbitrumRetryTx_copy ::
  "ArbitrumRetryTx_ptr \<Rightarrow> heap \<Rightarrow> ArbitrumRetryTx_ptr \<times> heap" where
  "ArbitrumRetryTx_copy tx h =
    (let (chainId, h) = new_big h;
         (gasFeeCap, h) = new_big h;
         (val, h) = new_big h;
         (data, h) = CopyBytes (ArbitrumRetryTx.Data tx) h;
         (maxRefund, h) = new_big h;
         (submissionFeeRefund, h) = new_big h;
         cpy = \<lparr>ArbitrumRetryTx.ChainId = Some chainId,
                Nonce = ArbitrumRetryTx.Nonce tx,
                From = ArbitrumRetryTx.From tx,
                GasFeeCap = Some gasFeeCap,
                Gas = ArbitrumRetryTx.Gas tx,
                To = None,
                Value = Some val,
                Data = data,
                TicketId = ArbitrumRetryTx.TicketId tx,
                RefundTo = ArbitrumRetryTx.RefundTo tx,
                MaxRefund = Some maxRefund,
                SubmissionFeeRefund = Some submissionFeeRefund\<rparr>;
         h = Set_if_not_nil chainId (ArbitrumRetryTx.ChainId tx) h;
         h = Set_if_not_nil gasFeeCap (ArbitrumRetryTx.GasFeeCap tx) h;
         (cpy, h) = (case ArbitrumRetryTx.To tx of None \<Rightarrow> (cpy, h)
                     | Some p \<Rightarrow> (let (tmp, h) = new_Address (addrs h ! p) h
                                  in (cpy\<lparr>ArbitrumRetryTx.To := Some tmp\<rparr>, h)));
         h = Set_if_not_nil val (ArbitrumRetryTx.Value tx) h;
         h = Set_if_not_nil maxRefund (ArbitrumRetryTx.MaxRefund tx) h;
         h = Set_if_not_nil submissionFeeRefund (ArbitrumRetryTx.SubmissionFeeRefund tx) h
     in (cpy, h))"

text \<open>
  The literal of \<^verbatim>\<open>ArbitrumSubmitRetryableTx.copy\<close> first stores \<^verbatim>\<open>tx.RetryTo\<close> itself; the
  guarded statement then replaces a non-nil one by the address of a fresh copy.
\<close>

definition ArbitrumSubmitRetryableTx_copy ::
  "ArbitrumSubmitRetryableTx_ptr \<Rightarrow> heap \<Rightarrow> ArbitrumSubmitRetryableTx_ptr \<times> heap" where
  "ArbitrumSubmitRetryableTx_copy tx h =
    (let (chainId, h) = new_big h;
         (depositValue, h) = new_big h;
         (l1BaseFee, h) = new_big h;
         (gasFeeCap, h) = new_big h;
         (retryValue, h) = new_big h;
         (maxSubmissionFee, h) = new_big h;
         (retryData, h) = CopyBytes (ArbitrumSubmitRetryableTx.RetryData tx) h;
         cpy = \<lparr>ArbitrumSubmitRetryableTx.ChainId = Some chainId,
                RequestId = ArbitrumSubmitRetryableTx.RequestId tx,
                From = ArbitrumSubmitRetryableTx.From tx,
                L1BaseFee = Some l1BaseFee,
                DepositValue = Some depositValue,
                GasFeeCap = Some gasFeeCap,
                Gas = ArbitrumSubmitRetryableTx.Gas tx,
                RetryTo = ArbitrumSubmitRetryableTx.RetryTo tx,
                RetryValue = Some retryValue,
                Beneficiary = ArbitrumSubmitRetryableTx.Beneficiary tx,
                MaxSubmissionFee = Some maxSubmissionFee,
                FeeRefundAddr = ArbitrumSubmitRetryableTx.FeeRefundAddr tx,
                RetryData = retryData\<rparr>;
         h = Set_if_not_nil chainId (ArbitrumSubmitRetryableTx.ChainId tx) h;
         h = Set_if_not_nil depositValue (ArbitrumSubmitRetryableTx.DepositValue tx) h;
         h = Set_if_not_nil l1BaseFee (ArbitrumSubmitRetryableTx.L1BaseFee tx) h;
         h = Set_if_not_nil gasFeeCap (ArbitrumSubmitRetryableTx.GasFeeCap tx) h;
         (cpy, h) = (case ArbitrumSubmitRetryableTx.RetryTo tx of None \<Rightarrow> (cpy, h)
                     | Some p \<Rightarrow> (let (tmp, h) = new_Address (addrs h ! p) h
                                  in (cpy\<lparr>ArbitrumSubmitRetryableTx.RetryTo := Some tmp\<rparr>, h)));
         h = Set_if_not_nil retryValue (ArbitrumSubmitRetryableTx.RetryValue tx) h;
         h = Set_if_not_nil maxSubmissionFee (ArbitrumSubmitRetryableTx.MaxSubmissionFee tx) h
     in (cpy, h))"

text \<open>
  \<^verbatim>\<open>copy\<close> on the interface value. \<^verbatim>\<open>depositTxWithNonce\<close> declares no \<^verbatim>\<open>copy\<close>: the call
  runs the promoted \<^verbatim>\<open>DepositTx.copy\<close> on the embedded struct and returns a \<^verbatim>\<open>*DepositTx\<close>.
\<close>

fun TxData_copy :: "TxData_ptr \<Rightarrow> heap \<Rightarrow> panic + TxData_ptr \<times> heap" where
  "TxData_copy (Inner_DepositTx tx) h =
     Inr (map_prod Inner_DepositTx id (DepositTx_copy tx h))"
| "TxData_copy (Inner_depositTxWithNonce tx) h =
     Inr (map_prod Inner_DepositTx id (DepositTx_copy (depositTxWithNonce.DepositTx tx) h))"
| "TxData_copy (Inner_ArbitrumLegacyTxData tx) h =
     Inr (map_prod Inner_ArbitrumLegacyTxData id (ArbitrumLegacyTxData_copy tx h))"
| "TxData_copy (Inner_ArbitrumUnsignedTx tx) h =
     Inr (map_prod Inner_ArbitrumUnsignedTx id (ArbitrumUnsignedTx_copy tx h))"
| "TxData_copy (Inner_ArbitrumInternalTx tx) h =
     map_sum id (map_prod Inner_ArbitrumInternalTx id) (ArbitrumInternalTx_copy tx h)"
| "TxData_copy (Inner_ArbitrumDepositTx tx) h =
     Inr (map_prod Inner_ArbitrumDepositTx id (ArbitrumDepositTx_copy tx h))"
| "TxData_copy (Inner_ArbitrumContractTx tx) h =
     Inr (map_prod Inner_ArbitrumContractTx id (ArbitrumContractTx_copy tx h))"
| "TxData_copy (Inner_ArbitrumRetryTx tx) h =
     Inr (map_prod Inner_ArbitrumRetryTx id (ArbitrumRetryTx_copy tx h))"
| "TxData_copy (Inner_ArbitrumSubmitRetryableTx tx) h =
     Inr (map_prod Inner_ArbitrumSubmitRetryableTx id (ArbitrumSubmitRetryableTx_copy tx h))"

subsection \<open>Reading a struct out of the store\<close>

text \<open>The values behind the three kinds of pointer.\<close>

definition big_val :: "heap \<Rightarrow> nat option \<Rightarrow> int option" where
  "big_val h p = map_option (\<lambda>q. bigs h ! q) p"

definition addr_val :: "heap \<Rightarrow> nat option \<Rightarrow> Address option" where
  "addr_val h p = map_option (\<lambda>q. addrs h ! q) p"

definition buf_val :: "heap \<Rightarrow> nat option \<Rightarrow> byte list" where
  "buf_val h p = (case p of None \<Rightarrow> [] | Some q \<Rightarrow> bufs h ! q)"

definition DepositTx_deref :: "heap \<Rightarrow> DepositTx_ptr \<Rightarrow> DepositTx_val" where
  "DepositTx_deref h tx =
     \<lparr>DepositTx.SourceHash = DepositTx.SourceHash tx,
      From = DepositTx.From tx,
      To = addr_val h (DepositTx.To tx),
      Mint = big_val h (DepositTx.Mint tx),
      Value = big_val h (DepositTx.Value tx),
      Gas = DepositTx.Gas tx,
      IsSystemTransaction = DepositTx.IsSystemTransaction tx,
      Data = buf_val h (DepositTx.Data tx)\<rparr>"

definition LegacyTx_deref :: "heap \<Rightarrow> LegacyTx_ptr \<Rightarrow> LegacyTx_val" where
  "LegacyTx_deref h tx =
     \<lparr>LegacyTx.Nonce = LegacyTx.Nonce tx,
      GasPrice = big_val h (LegacyTx.GasPrice tx),
      Gas = LegacyTx.Gas tx,
      To = addr_val h (LegacyTx.To tx),
      Value = big_val h (LegacyTx.Value tx),
      Data = buf_val h (LegacyTx.Data tx),
      V = big_val h (LegacyTx.V tx),
      R = big_val h (LegacyTx.R tx),
      S = big_val h (LegacyTx.S tx)\<rparr>"

definition ArbitrumLegacyTxData_deref ::
  "heap \<Rightarrow> ArbitrumLegacyTxData_ptr \<Rightarrow> ArbitrumLegacyTxData_val" where
  "ArbitrumLegacyTxData_deref h tx =
     \<lparr>ArbitrumLegacyTxData.LegacyTx = LegacyTx_deref h (ArbitrumLegacyTxData.LegacyTx tx),
      HashOverride = ArbitrumLegacyTxData.HashOverride tx,
      EffectiveGasPrice = ArbitrumLegacyTxData.EffectiveGasPrice tx,
      L1BlockNumber = ArbitrumLegacyTxData.L1BlockNumber tx,
      Sender = addr_val h (ArbitrumLegacyTxData.Sender tx)\<rparr>"

definition ArbitrumUnsignedTx_deref ::
  "heap \<Rightarrow> ArbitrumUnsignedTx_ptr \<Rightarrow> ArbitrumUnsignedTx_val" where
  "ArbitrumUnsignedTx_deref h tx =
     \<lparr>ArbitrumUnsignedTx.ChainId = big_val h (ArbitrumUnsignedTx.ChainId tx),
      From = ArbitrumUnsignedTx.From tx,
      Nonce = ArbitrumUnsignedTx.Nonce tx,
      GasFeeCap = big_val h (ArbitrumUnsignedTx.GasFeeCap tx),
      Gas = ArbitrumUnsignedTx.Gas tx,
      To = addr_val h (ArbitrumUnsignedTx.To tx),
      Value = big_val h (ArbitrumUnsignedTx.Value tx),
      Data = buf_val h (ArbitrumUnsignedTx.Data tx)\<rparr>"

definition ArbitrumInternalTx_deref ::
  "heap \<Rightarrow> ArbitrumInternalTx_ptr \<Rightarrow> ArbitrumInternalTx_val" where
  "ArbitrumInternalTx_deref h tx =
     \<lparr>ArbitrumInternalTx.ChainId = big_val h (ArbitrumInternalTx.ChainId tx),
      Data = buf_val h (ArbitrumInternalTx.Data tx)\<rparr>"

definition ArbitrumDepositTx_deref ::
  "heap \<Rightarrow> ArbitrumDepositTx_ptr \<Rightarrow> ArbitrumDepositTx_val" where
  "ArbitrumDepositTx_deref h tx =
     \<lparr>ArbitrumDepositTx.ChainId = big_val h (ArbitrumDepositTx.ChainId tx),
      L1RequestId = ArbitrumDepositTx.L1RequestId tx,
      From = ArbitrumDepositTx.From tx,
      To = ArbitrumDepositTx.To tx,
      Value = big_val h (ArbitrumDepositTx.Value tx)\<rparr>"

definition ArbitrumContractTx_deref ::
  "heap \<Rightarrow> ArbitrumContractTx_ptr \<Rightarrow> ArbitrumContractTx_val" where
  "ArbitrumContractTx_deref h tx =
     \<lparr>ArbitrumContractTx.ChainId = big_val h (ArbitrumContractTx.ChainId tx),
      RequestId = ArbitrumContractTx.RequestId tx,
      From = ArbitrumContractTx.From tx,
      GasFeeCap = big_val h (ArbitrumContractTx.GasFeeCap tx),
      Gas = ArbitrumContractTx.Gas tx,
      To = addr_val h (ArbitrumContractTx.To tx),
      Value = big_val h (ArbitrumContractTx.Value tx),
      Data = buf_val h (ArbitrumContractTx.Data tx)\<rparr>"

definition ArbitrumRetryTx_deref :: "heap \<Rightarrow> ArbitrumRetryTx_ptr \<Rightarrow> ArbitrumRetryTx_val" where
  "ArbitrumRetryTx_deref h tx =
     \<lparr>ArbitrumRetryTx.ChainId = big_val h (ArbitrumRetryTx.ChainId tx),
      Nonce = ArbitrumRetryTx.Nonce tx,
      From = ArbitrumRetryTx.From tx,
      GasFeeCap = big_val h (ArbitrumRetryTx.GasFeeCap tx),
      Gas = ArbitrumRetryTx.Gas tx,
      To = addr_val h (ArbitrumRetryTx.To tx),
      Value = big_val h (ArbitrumRetryTx.Value tx),
      Data = buf_val h (ArbitrumRetryTx.Data tx),
      TicketId = ArbitrumRetryTx.TicketId tx,
      RefundTo = ArbitrumRetryTx.RefundTo tx,
      MaxRefund = big_val h (ArbitrumRetryTx.MaxRefund tx),
      SubmissionFeeRefund = big_val h (ArbitrumRetryTx.SubmissionFeeRefund tx)\<rparr>"

definition ArbitrumSubmitRetryableTx_deref ::
  "heap \<Rightarrow> ArbitrumSubmitRetryableTx_ptr \<Rightarrow> ArbitrumSubmitRetryableTx_val" where
  "ArbitrumSubmitRetryableTx_deref h tx =
     \<lparr>ArbitrumSubmitRetryableTx.ChainId = big_val h (ArbitrumSubmitRetryableTx.ChainId tx),
      RequestId = ArbitrumSubmitRetryableTx.RequestId tx,
      From = ArbitrumSubmitRetryableTx.From tx,
      L1BaseFee = big_val h (ArbitrumSubmitRetryableTx.L1BaseFee tx),
      DepositValue = big_val h (ArbitrumSubmitRetryableTx.DepositValue tx),
      GasFeeCap = big_val h (ArbitrumSubmitRetryableTx.GasFeeCap tx),
      Gas = ArbitrumSubmitRetryableTx.Gas tx,
      RetryTo = addr_val h (ArbitrumSubmitRetryableTx.RetryTo tx),
      RetryValue = big_val h (ArbitrumSubmitRetryableTx.RetryValue tx),
      Beneficiary = ArbitrumSubmitRetryableTx.Beneficiary tx,
      MaxSubmissionFee = big_val h (ArbitrumSubmitRetryableTx.MaxSubmissionFee tx),
      FeeRefundAddr = ArbitrumSubmitRetryableTx.FeeRefundAddr tx,
      RetryData = buf_val h (ArbitrumSubmitRetryableTx.RetryData tx)\<rparr>"

fun TxData_deref :: "heap \<Rightarrow> TxData_ptr \<Rightarrow> TxData_val" where
  "TxData_deref h (Inner_DepositTx tx) = Inner_DepositTx (DepositTx_deref h tx)"
| "TxData_deref h (Inner_depositTxWithNonce tx) =
     Inner_depositTxWithNonce
       \<lparr>depositTxWithNonce.DepositTx = DepositTx_deref h (depositTxWithNonce.DepositTx tx),
        EffectiveNonce = depositTxWithNonce.EffectiveNonce tx\<rparr>"
| "TxData_deref h (Inner_ArbitrumLegacyTxData tx) =
     Inner_ArbitrumLegacyTxData (ArbitrumLegacyTxData_deref h tx)"
| "TxData_deref h (Inner_ArbitrumUnsignedTx tx) =
     Inner_ArbitrumUnsignedTx (ArbitrumUnsignedTx_deref h tx)"
| "TxData_deref h (Inner_ArbitrumInternalTx tx) =
     Inner_ArbitrumInternalTx (ArbitrumInternalTx_deref h tx)"
| "TxData_deref h (Inner_ArbitrumDepositTx tx) =
     Inner_ArbitrumDepositTx (ArbitrumDepositTx_deref h tx)"
| "TxData_deref h (Inner_ArbitrumContractTx tx) =
     Inner_ArbitrumContractTx (ArbitrumContractTx_deref h tx)"
| "TxData_deref h (Inner_ArbitrumRetryTx tx) =
     Inner_ArbitrumRetryTx (ArbitrumRetryTx_deref h tx)"
| "TxData_deref h (Inner_ArbitrumSubmitRetryableTx tx) =
     Inner_ArbitrumSubmitRetryableTx (ArbitrumSubmitRetryableTx_deref h tx)"

subsection \<open>The pointers a struct holds\<close>

text \<open>
  The \<^verbatim>\<open>*big.Int\<close> fields, the \<^verbatim>\<open>*common.Address\<close> fields and the byte-slice fields of
  each struct; \<open>cells\<close> drops the nil ones.
\<close>

definition cells :: "nat option list \<Rightarrow> nat set" where
  "cells ps = {q. Some q \<in> set ps}"

fun big_fields :: "TxData_ptr \<Rightarrow> nat option list" where
  "big_fields (Inner_DepositTx tx) = [DepositTx.Mint tx, DepositTx.Value tx]"
| "big_fields (Inner_depositTxWithNonce tx) =
     [DepositTx.Mint (depositTxWithNonce.DepositTx tx),
      DepositTx.Value (depositTxWithNonce.DepositTx tx)]"
| "big_fields (Inner_ArbitrumLegacyTxData tx) =
     [LegacyTx.GasPrice (ArbitrumLegacyTxData.LegacyTx tx),
      LegacyTx.Value (ArbitrumLegacyTxData.LegacyTx tx),
      LegacyTx.V (ArbitrumLegacyTxData.LegacyTx tx),
      LegacyTx.R (ArbitrumLegacyTxData.LegacyTx tx),
      LegacyTx.S (ArbitrumLegacyTxData.LegacyTx tx)]"
| "big_fields (Inner_ArbitrumUnsignedTx tx) =
     [ArbitrumUnsignedTx.ChainId tx, ArbitrumUnsignedTx.GasFeeCap tx,
      ArbitrumUnsignedTx.Value tx]"
| "big_fields (Inner_ArbitrumInternalTx tx) = [ArbitrumInternalTx.ChainId tx]"
| "big_fields (Inner_ArbitrumDepositTx tx) =
     [ArbitrumDepositTx.ChainId tx, ArbitrumDepositTx.Value tx]"
| "big_fields (Inner_ArbitrumContractTx tx) =
     [ArbitrumContractTx.ChainId tx, ArbitrumContractTx.GasFeeCap tx,
      ArbitrumContractTx.Value tx]"
| "big_fields (Inner_ArbitrumRetryTx tx) =
     [ArbitrumRetryTx.ChainId tx, ArbitrumRetryTx.GasFeeCap tx, ArbitrumRetryTx.Value tx,
      ArbitrumRetryTx.MaxRefund tx, ArbitrumRetryTx.SubmissionFeeRefund tx]"
| "big_fields (Inner_ArbitrumSubmitRetryableTx tx) =
     [ArbitrumSubmitRetryableTx.ChainId tx, ArbitrumSubmitRetryableTx.L1BaseFee tx,
      ArbitrumSubmitRetryableTx.DepositValue tx, ArbitrumSubmitRetryableTx.GasFeeCap tx,
      ArbitrumSubmitRetryableTx.RetryValue tx, ArbitrumSubmitRetryableTx.MaxSubmissionFee tx]"

fun addr_fields :: "TxData_ptr \<Rightarrow> nat option list" where
  "addr_fields (Inner_DepositTx tx) = [DepositTx.To tx]"
| "addr_fields (Inner_depositTxWithNonce tx) = [DepositTx.To (depositTxWithNonce.DepositTx tx)]"
| "addr_fields (Inner_ArbitrumLegacyTxData tx) =
     [LegacyTx.To (ArbitrumLegacyTxData.LegacyTx tx), ArbitrumLegacyTxData.Sender tx]"
| "addr_fields (Inner_ArbitrumUnsignedTx tx) = [ArbitrumUnsignedTx.To tx]"
| "addr_fields (Inner_ArbitrumInternalTx tx) = []"
| "addr_fields (Inner_ArbitrumDepositTx tx) = []"
| "addr_fields (Inner_ArbitrumContractTx tx) = [ArbitrumContractTx.To tx]"
| "addr_fields (Inner_ArbitrumRetryTx tx) = [ArbitrumRetryTx.To tx]"
| "addr_fields (Inner_ArbitrumSubmitRetryableTx tx) = [ArbitrumSubmitRetryableTx.RetryTo tx]"

fun buf_fields :: "TxData_ptr \<Rightarrow> nat option list" where
  "buf_fields (Inner_DepositTx tx) = [DepositTx.Data tx]"
| "buf_fields (Inner_depositTxWithNonce tx) = [DepositTx.Data (depositTxWithNonce.DepositTx tx)]"
| "buf_fields (Inner_ArbitrumLegacyTxData tx) =
     [LegacyTx.Data (ArbitrumLegacyTxData.LegacyTx tx)]"
| "buf_fields (Inner_ArbitrumUnsignedTx tx) = [ArbitrumUnsignedTx.Data tx]"
| "buf_fields (Inner_ArbitrumInternalTx tx) = [ArbitrumInternalTx.Data tx]"
| "buf_fields (Inner_ArbitrumDepositTx tx) = []"
| "buf_fields (Inner_ArbitrumContractTx tx) = [ArbitrumContractTx.Data tx]"
| "buf_fields (Inner_ArbitrumRetryTx tx) = [ArbitrumRetryTx.Data tx]"
| "buf_fields (Inner_ArbitrumSubmitRetryableTx tx) = [ArbitrumSubmitRetryableTx.RetryData tx]"

text \<open>
  The big-integer fields that are not declared optional: every one but \<open>Mint\<close>. The
  optional pointers are \<open>Mint\<close> and the address fields.
\<close>

fun required_big_fields :: "TxData_ptr \<Rightarrow> nat option list" where
  "required_big_fields (Inner_DepositTx tx) = [DepositTx.Value tx]"
| "required_big_fields (Inner_depositTxWithNonce tx) =
     [DepositTx.Value (depositTxWithNonce.DepositTx tx)]"
| "required_big_fields x = big_fields x"

fun optional_fields :: "TxData_ptr \<Rightarrow> nat option list" where
  "optional_fields (Inner_DepositTx tx) = [DepositTx.To tx, DepositTx.Mint tx]"
| "optional_fields (Inner_depositTxWithNonce tx) =
     [DepositTx.To (depositTxWithNonce.DepositTx tx),
      DepositTx.Mint (depositTxWithNonce.DepositTx tx)]"
| "optional_fields x = addr_fields x"

text \<open>
  A struct is valid in a store when each of its pointers is nil or the index of a cell:
  Go has no dangling pointers.
\<close>

definition ptr_ok :: "nat \<Rightarrow> nat option \<Rightarrow> bool" where
  "ptr_ok n p = (case p of None \<Rightarrow> True | Some q \<Rightarrow> q < n)"

definition in_store :: "nat \<Rightarrow> nat option list \<Rightarrow> bool" where
  "in_store n ps = list_all (ptr_ok n) ps"

definition valid :: "heap \<Rightarrow> TxData_ptr \<Rightarrow> bool" where
  "valid h x =
     (in_store (length (bigs h)) (big_fields x) \<and>
      in_store (length (addrs h)) (addr_fields x) \<and>
      in_store (length (bufs h)) (buf_fields x))"

text \<open>
  \<open>fresh_in n ps\<close>: every non-nil pointer of \<open>ps\<close> was allocated after the first \<open>n\<close> cells.
  \<open>fresh h x\<close>: every pointer of \<open>x\<close> was allocated after the store was \<open>h\<close>.
\<close>

definition ptr_fresh :: "nat \<Rightarrow> nat option \<Rightarrow> bool" where
  "ptr_fresh n p = (case p of None \<Rightarrow> True | Some q \<Rightarrow> n \<le> q)"

definition fresh_in :: "nat \<Rightarrow> nat option list \<Rightarrow> bool" where
  "fresh_in n ps = list_all (ptr_fresh n) ps"

definition fresh :: "heap \<Rightarrow> TxData_ptr \<Rightarrow> bool" where
  "fresh h x =
     (fresh_in (length (bigs h)) (big_fields x) \<and>
      fresh_in (length (addrs h)) (addr_fields x) \<and>
      fresh_in (length (bufs h)) (buf_fields x))"

text \<open>\<open>grown h h'\<close>: \<open>h'\<close> is \<open>h\<close> with cells appended; no cell of \<open>h\<close> has changed.\<close>

definition grown :: "heap \<Rightarrow> heap \<Rightarrow> bool" where
  "grown h h' =
     (take (length (bigs h)) (bigs h') = bigs h \<and>
      take (length (addrs h)) (addrs h') = addrs h \<and>
      take (length (bufs h)) (bufs h') = bufs h)"

text \<open>The number in the cell \<open>p\<close> points to, zero for the nil pointer.\<close>

definition cell_or_zero :: "int list \<Rightarrow> nat option \<Rightarrow> int" where
  "cell_or_zero xs p = (case p of None \<Rightarrow> 0 | Some q \<Rightarrow> xs ! q)"

text \<open>
  What \<^verbatim>\<open>copy\<close> makes of the values: a nil big integer that is not optional reads as zero
  in the clone, and the clone of a nonce-carrying deposit is the bare deposit.
\<close>

definition zero_if_nil :: "int option \<Rightarrow> int option" where
  "zero_if_nil v = (case v of None \<Rightarrow> Some 0 | Some n \<Rightarrow> Some n)"

definition DepositTx_initialised :: "DepositTx_val \<Rightarrow> DepositTx_val" where
  "DepositTx_initialised tx = tx\<lparr>DepositTx.Value := zero_if_nil (DepositTx.Value tx)\<rparr>"

definition LegacyTx_initialised :: "LegacyTx_val \<Rightarrow> LegacyTx_val" where
  "LegacyTx_initialised tx =
     tx\<lparr>LegacyTx.GasPrice := zero_if_nil (LegacyTx.GasPrice tx),
        LegacyTx.Value := zero_if_nil (LegacyTx.Value tx),
        LegacyTx.V := zero_if_nil (LegacyTx.V tx),
        LegacyTx.R := zero_if_nil (LegacyTx.R tx),
        LegacyTx.S := zero_if_nil (LegacyTx.S tx)\<rparr>"

fun initialised :: "TxData_val \<Rightarrow> TxData_val" where
  "initialised (Inner_DepositTx tx) = Inner_DepositTx (DepositTx_initialised tx)"
| "initialised (Inner_depositTxWithNonce tx) =
     Inner_DepositTx (DepositTx_initialised (depositTxWithNonce.DepositTx tx))"
| "initialised (Inner_ArbitrumLegacyTxData tx) =
     Inner_ArbitrumLegacyTxData
       (tx\<lparr>ArbitrumLegacyTxData.LegacyTx :=
             LegacyTx_initialised (ArbitrumLegacyTxData.LegacyTx tx)\<rparr>)"
| "initialised (Inner_ArbitrumUnsignedTx tx) =
     Inner_ArbitrumUnsignedTx
       (tx\<lparr>ArbitrumUnsignedTx.ChainId := zero_if_nil (ArbitrumUnsignedTx.ChainId tx),
           ArbitrumUnsignedTx.GasFeeCap := zero_if_nil (ArbitrumUnsignedTx.GasFeeCap tx),
           ArbitrumUnsignedTx.Value := zero_if_nil (ArbitrumUnsignedTx.Value tx)\<rparr>)"
| "initialised (Inner_ArbitrumInternalTx tx) = Inner_ArbitrumInternalTx tx"
| "initialised (Inner_ArbitrumDepositTx tx) =
     Inner_ArbitrumDepositTx
       (tx\<lparr>ArbitrumDepositTx.ChainId := zero_if_nil (ArbitrumDepositTx.ChainId tx),
           ArbitrumDepositTx.Value := zero_if_nil (ArbitrumDepositTx.Value tx)\<rparr>)"
| "initialised (Inner_ArbitrumContractTx tx) =
     Inner_ArbitrumContractTx
       (tx\<lparr>ArbitrumContractTx.ChainId := zero_if_nil (ArbitrumContractTx.ChainId tx),
           ArbitrumContractTx.GasFeeCap := zero_if_nil (ArbitrumContractTx.GasFeeCap tx),
           ArbitrumContractTx.Value := zero_if_nil (ArbitrumContractTx.Value tx)\<rparr>)"
| "initialised (Inner_ArbitrumRetryTx tx) =
     Inner_ArbitrumRetryTx
       (tx\<lparr>ArbitrumRetryTx.ChainId := zero_if_nil (ArbitrumRetryTx.ChainId tx),
           ArbitrumRetryTx.GasFeeCap := zero_if_nil (ArbitrumRetryTx.GasFeeCap tx),
           ArbitrumRetryTx.Value := zero_if_nil (ArbitrumRetryTx.Value tx),
           ArbitrumRetryTx.MaxRefund := zero_if_nil (ArbitrumRetryTx.MaxRefund tx),
           ArbitrumRetryTx.SubmissionFeeRefund :=
             zero_if_nil (ArbitrumRetryTx.SubmissionFeeRefund tx)\<rparr>)"
| "initialised (Inner_ArbitrumSubmitRetryableTx tx) =
     Inner_ArbitrumSubmitRetryableTx
       (tx\<lparr>ArbitrumSubmitRetryableTx.ChainId :=
             zero_if_nil (ArbitrumSubmitRetryableTx.ChainId tx),
           ArbitrumSubmitRetryableTx.L1BaseFee :=
             zero_if_nil (ArbitrumSubmitRetryableTx.L1BaseFee tx),
           ArbitrumSubmitRetryableTx.DepositValue :=
             zero_if_nil (ArbitrumSubmitRetryableTx.DepositValue tx),
           ArbitrumSubmitRetryableTx.GasFeeCap :=
             zero_if_nil (ArbitrumSubmitRetryableTx.GasFeeCap tx),
           ArbitrumSubmitRetryableTx.RetryValue :=
             zero_if_nil (ArbitrumSubmitRetryableTx.RetryValue tx),
           ArbitrumSubmitRetryableTx.MaxSubmissionFee :=
             zero_if_nil (ArbitrumSubmitRetryableTx.MaxSubmissionFee tx)\<rparr>)"

subsection \<open>The Capability Interface as one observation\<close>

text \<open>
  Everything a caller can read off a variant through the interface: the results of the
  accessors, with \<open>effectiveGasPrice\<close> as a function of the old content of \<open>dst\<close> and of
  \<open>baseFee\<close>. \<open>data()\<close> can panic on \<^verbatim>\<open>ArbitrumSubmitRetryableTx\<close> only.
\<close>

record Capability =
  obs_txType :: byte
  obs_chainID :: "int option"
  obs_accessList :: AccessList
  obs_data :: "panic + byte list"
  obs_gas :: uint64
  obs_gasPrice :: "int option"
  obs_gasTipCap :: "int option"
  obs_gasFeeCap :: "int option"
  obs_value :: "int option"
  obs_nonce :: uint64
  obs_to :: "Address option"
  obs_blobGas :: uint64
  obs_blobGasFeeCap :: "int option"
  obs_blobHashes :: "Hash list"
  obs_rawSignatureValues :: "int option \<times> int option \<times> int option"
  obs_effectiveGasPrice :: "int \<Rightarrow> int option \<Rightarrow> panic + int"

definition ArbitrumLegacyTxData_txType :: "ArbitrumLegacyTxData_val \<Rightarrow> byte" where
  "ArbitrumLegacyTxData_txType tx = ArbitrumLegacyTxType"

text \<open>
  \<^verbatim>\<open>ArbitrumLegacyTxData\<close> declares \<^verbatim>\<open>txType\<close> and \<^verbatim>\<open>copy\<close>; its other methods are those of
  the embedded \<^verbatim>\<open>LegacyTx\<close>, defined outside these sources. They read the fields of that
  struct only and are the parameter \<open>legacy\<close>.
\<close>

fun observe :: "(LegacyTx_val \<Rightarrow> Capability) \<Rightarrow> TxData_val \<Rightarrow> Capability" where
  "observe legacy (Inner_DepositTx tx) =
     \<lparr>obs_txType = DepositTx_txType tx,
      obs_chainID = DepositTx_chainID tx,
      obs_accessList = DepositTx_accessList tx,
      obs_data = Inr (DepositTx_data tx),
      obs_gas = DepositTx_gas tx,
      obs_gasPrice = DepositTx_gasPrice tx,
      obs_gasTipCap = DepositTx_gasTipCap tx,
      obs_gasFeeCap = DepositTx_gasFeeCap tx,
      obs_value = DepositTx_value tx,
      obs_nonce = DepositTx_nonce tx,
      obs_to = DepositTx_to tx,
      obs_blobGas = DepositTx_blobGas tx,
      obs_blobGasFeeCap = DepositTx_blobGasFeeCap tx,
      obs_blobHashes = DepositTx_blobHashes tx,
      obs_rawSignatureValues = DepositTx_rawSignatureValues tx,
      obs_effectiveGasPrice = DepositTx_effectiveGasPrice tx\<rparr>"
| "observe legacy (Inner_depositTxWithNonce tx) =
     \<lparr>obs_txType = depositTxWithNonce_txType tx,
      obs_chainID = depositTxWithNonce_chainID tx,
      obs_accessList = depositTxWithNonce_accessList tx,
      obs_data = Inr (depositTxWithNonce_data tx),
      obs_gas = depositTxWithNonce_gas tx,
      obs_gasPrice = depositTxWithNonce_gasPrice tx,
      obs_gasTipCap = depositTxWithNonce_gasTipCap tx,
      obs_gasFeeCap = depositTxWithNonce_gasFeeCap tx,
      obs_value = depositTxWithNonce_value tx,
      obs_nonce = depositTxWithNonce_nonce tx,
      obs_to = depositTxWithNonce_to tx,
      obs_blobGas = depositTxWithNonce_blobGas tx,
      obs_blobGasFeeCap = depositTxWithNonce_blobGasFeeCap tx,
      obs_blobHashes = depositTxWithNonce_blobHashes tx,
      obs_rawSignatureValues = depositTxWithNonce_rawSignatureValues tx,
      obs_effectiveGasPrice = depositTxWithNonce_effectiveGasPrice tx\<rparr>"
| "observe legacy (Inner_ArbitrumLegacyTxData tx) =
     (legacy (ArbitrumLegacyTxData.LegacyTx tx))\<lparr>obs_txType := ArbitrumLegacyTxData_txType tx\<rparr>"
| "observe legacy (Inner_ArbitrumUnsignedTx tx) =
     \<lparr>obs_txType = ArbitrumUnsignedTx_txType tx,
      obs_chainID = ArbitrumUnsignedTx_chainID tx,
      obs_accessList = ArbitrumUnsignedTx_accessList tx,
      obs_data = Inr (ArbitrumUnsignedTx_data tx),
      obs_gas = ArbitrumUnsignedTx_gas tx,
      obs_gasPrice = ArbitrumUnsignedTx_gasPrice tx,
      obs_gasTipCap = ArbitrumUnsignedTx_gasTipCap tx,
      obs_gasFeeCap = ArbitrumUnsignedTx_gasFeeCap tx,
      obs_value = ArbitrumUnsignedTx_value tx,
      obs_nonce = ArbitrumUnsignedTx_nonce tx,
      obs_to = ArbitrumUnsignedTx_to tx,
      obs_blobGas = ArbitrumUnsignedTx_blobGas tx,
      obs_blobGasFeeCap = ArbitrumUnsignedTx_blobGasFeeCap tx,
      obs_blobHashes = ArbitrumUnsignedTx_blobHashes tx,
      obs_rawSignatureValues = ArbitrumUnsignedTx_rawSignatureValues tx,
      obs_effectiveGasPrice = ArbitrumUnsignedTx_effectiveGasPrice tx\<rparr>"
| "observe legacy (Inner_ArbitrumInternalTx tx) =
     \<lparr>obs_txType = ArbitrumInternalTx_txType tx,
      obs_chainID = ArbitrumInternalTx_chainID tx,
      obs_accessList = ArbitrumInternalTx_accessList tx,
      obs_data = Inr (ArbitrumInternalTx_data tx),
      obs_gas = ArbitrumInternalTx_gas tx,
      obs_gasPrice = ArbitrumInternalTx_gasPrice tx,
      obs_gasTipCap = ArbitrumInternalTx_gasTipCap tx,
      obs_gasFeeCap = ArbitrumInternalTx_gasFeeCap tx,
      obs_value = ArbitrumInternalTx_value tx,
      obs_nonce = ArbitrumInternalTx_nonce tx,
      obs_to = ArbitrumInternalTx_to tx,
      obs_blobGas = ArbitrumInternalTx_blobGas tx,
      obs_blobGasFeeCap = ArbitrumInternalTx_blobGasFeeCap tx,
      obs_blobHashes = ArbitrumInternalTx_blobHashes tx,
      obs_rawSignatureValues = ArbitrumInternalTx_rawSignatureValues tx,
      obs_effectiveGasPrice = ArbitrumInternalTx_effectiveGasPrice tx\<rparr>"
| "observe legacy (Inner_ArbitrumDepositTx tx) =
     \<lparr>obs_txType = ArbitrumDepositTx_txType tx,
      obs_chainID = ArbitrumDepositTx_chainID tx,
      obs_accessList = ArbitrumDepositTx_accessList tx,
      obs_data = Inr (ArbitrumDepositTx_data tx),
      obs_gas = ArbitrumDepositTx_gas tx,
      obs_gasPrice = ArbitrumDepositTx_gasPrice tx,
      obs_gasTipCap = ArbitrumDepositTx_gasTipCap tx,
      obs_gasFeeCap = ArbitrumDepositTx_gasFeeCap tx,
      obs_value = ArbitrumDepositTx_value tx,
      obs_nonce = ArbitrumDepositTx_nonce tx,
      obs_to = ArbitrumDepositTx_to tx,
      obs_blobGas = ArbitrumDepositTx_blobGas tx,
      obs_blobGasFeeCap = ArbitrumDepositTx_blobGasFeeCap tx,
      obs_blobHashes = ArbitrumDepositTx_blobHashes tx,
      obs_rawSignatureValues = ArbitrumDepositTx_rawSignatureValues tx,
      obs_effectiveGasPrice = ArbitrumDepositTx_effectiveGasPrice tx\<rparr>"
| "observe legacy (Inner_ArbitrumContractTx tx) =
     \<lparr>obs_txType = ArbitrumContractTx_txType tx,
      obs_chainID = ArbitrumContractTx_chainID tx,
      obs_accessList = ArbitrumContractTx_accessList tx,
      obs_data = Inr (ArbitrumContractTx_data tx),
      obs_gas = ArbitrumContractTx_gas tx,
      obs_gasPrice = ArbitrumContractTx_gasPrice tx,
      obs_gasTipCap = ArbitrumContractTx_gasTipCap tx,
      obs_gasFeeCap = ArbitrumContractTx_gasFeeCap tx,
      obs_value = ArbitrumContractTx_value tx,
      obs_nonce = ArbitrumContractTx_nonce tx,
      obs_to = ArbitrumContractTx_to tx,
      obs_blobGas = ArbitrumContractTx_blobGas tx,
      obs_blobGasFeeCap = ArbitrumContractTx_blobGasFeeCap tx,
      obs_blobHashes = ArbitrumContractTx_blobHashes tx,
      obs_rawSignatureValues = ArbitrumContractTx_rawSignatureValues tx,
      obs_effectiveGasPrice = ArbitrumContractTx_effectiveGasPrice tx\<rparr>"
| "observe legacy (Inner_ArbitrumRetryTx tx) =
     \<lparr>obs_txType = ArbitrumRetryTx_txType tx,
      obs_chainID = ArbitrumRetryTx_chainID tx,
      obs_accessList = ArbitrumRetryTx_accessList tx,
      obs_data = Inr (ArbitrumRetryTx_data tx),
      obs_gas = ArbitrumRetryTx_gas tx,
      obs_gasPrice = ArbitrumRetryTx_gasPrice tx,
      obs_gasTipCap = ArbitrumRetryTx_gasTipCap tx,
      obs_gasFeeCap = ArbitrumRetryTx_gasFeeCap tx,
      obs_value = ArbitrumRetryTx_value tx,
      obs_nonce = ArbitrumRetryTx_nonce tx,
      obs_to = ArbitrumRetryTx_to tx,
      obs_blobGas = ArbitrumRetryTx_blobGas tx,
      obs_blobGasFeeCap = ArbitrumRetryTx_blobGasFeeCap tx,
      obs_blobHashes = ArbitrumRetryTx_blobHashes tx,
      obs_rawSignatureValues = ArbitrumRetryTx_rawSignatureValues tx,
      obs_effectiveGasPrice = ArbitrumRetryTx_effectiveGasPrice tx\<rparr>"
| "observe legacy (Inner_ArbitrumSubmitRetryableTx tx) =
     \<lparr>obs_txType = ArbitrumSubmitRetryableTx_txType tx,
      obs_chainID = ArbitrumSubmitRetryableTx_chainID tx,
      obs_accessList = ArbitrumSubmitRetryableTx_accessList tx,
      obs_data = ArbitrumSubmitRetryableTx_data tx,
      obs_gas = ArbitrumSubmitRetryableTx_gas tx,
      obs_gasPrice = ArbitrumSubmitRetryableTx_gasPrice tx,
      obs_gasTipCap = ArbitrumSubmitRetryableTx_gasTipCap tx,
      obs_gasFeeCap = ArbitrumSubmitRetryableTx_gasFeeCap tx,
      obs_value = ArbitrumSubmitRetryableTx_value tx,
      obs_nonce = ArbitrumSubmitRetryableTx_nonce tx,
      obs_to = ArbitrumSubmitRetryableTx_to tx,
      obs_blobGas = ArbitrumSubmitRetryableTx_blobGas tx,
      obs_blobGasFeeCap = ArbitrumSubmitRetryableTx_blobGasFeeCap tx,
      obs_blobHashes = ArbitrumSubmitRetryableTx_blobHashes tx,
      obs_rawSignatureValues = ArbitrumSubmitRetryableTx_rawSignatureValues tx,
      obs_effectiveGasPrice = ArbitrumSubmitRetryableTx_effectiveGasPrice tx\<rparr>"

text \<open>The condition under which \<^verbatim>\<open>copy\<close> changes no value and does not panic.\<close>

definition all_set :: "TxData_ptr \<Rightarrow> bool" where
  "all_set x = list_all (\<lambda>p. p \<noteq> None) (required_big_fields x)"

fun copy_panics :: "TxData_ptr \<Rightarrow> bool" where
  "copy_panics (Inner_ArbitrumInternalTx tx) = (ArbitrumInternalTx.ChainId tx = None)"
| "copy_panics x = False"

subsection \<open>The destination returned by \<^verbatim>\<open>to()\<close> as a pointer\<close>

text \<open>
  \<^verbatim>\<open>arbosAddress\<close> and \<^verbatim>\<open>arbRetryableTxAddress\<close> are package-level variables. A
  \<^verbatim>\<open>*common.Address\<close> is the address of one of them or of a cell of the store; a caller
  holding one can read and write through it.
\<close>

datatype Address_ref = Global_arbosAddress | Global_arbRetryableTxAddress | Cell nat

record globals =
  arbosAddress_var :: Address
  arbRetryableTxAddress_var :: Address

definition globals_init :: globals where
  "globals_init =
     \<lparr>arbosAddress_var = arbosAddress, arbRetryableTxAddress_var = arbRetryableTxAddress\<rparr>"

fun load_Address :: "globals \<times> heap \<Rightarrow> Address_ref \<Rightarrow> Address" where
  "load_Address (g, h) Global_arbosAddress = arbosAddress_var g"
| "load_Address (g, h) Global_arbRetryableTxAddress = arbRetryableTxAddress_var g"
| "load_Address (g, h) (Cell p) = addrs h ! p"

fun store_Address :: "Address_ref \<Rightarrow> Address \<Rightarrow> globals \<times> heap \<Rightarrow> globals \<times> heap" where
  "store_Address Global_arbosAddress a (g, h) = (g\<lparr>arbosAddress_var := a\<rparr>, h)"
| "store_Address Global_arbRetryableTxAddress a (g, h) = (g\<lparr>arbRetryableTxAddress_var := a\<rparr>, h)"
| "store_Address (Cell p) a (g, h) = (g, h\<lparr>addrs := (addrs h)[p := a]\<rparr>)"

text \<open>\<^verbatim>\<open>return &arbosAddress\<close> and \<^verbatim>\<open>return &arbRetryableTxAddress\<close>\<close>

definition ArbitrumInternalTx_to_ref :: "ArbitrumInternalTx_ptr \<Rightarrow> Address_ref option" where
  "ArbitrumInternalTx_to_ref tx = Some Global_arbosAddress"

definition ArbitrumSubmitRetryableTx_to_ref ::
  "ArbitrumSubmitRetryableTx_ptr \<Rightarrow> Address_ref option" where
  "ArbitrumSubmitRetryableTx_to_ref tx = Some Global_arbRetryableTxAddress"

section \<open>What a decoder reads from a wire object\<close>

text \<open>
  Names for the conditions the decoders test and for the structs they build once every
  test has passed. \<open>zero_or_unset\<close>: a field that is absent or holds zero.
\<close>

definition zero_or_unset :: "int option \<Rightarrow> bool" where
  "zero_or_unset x = (x = None \<or> x = Some 0)"

definition deposit_forbidden :: "txJSON \<Rightarrow> bool" where
  "deposit_forbidden dec =
     (txJSON.AccessList dec \<noteq> None \<or> txJSON.MaxFeePerGas dec \<noteq> None \<or>
      txJSON.MaxPriorityFeePerGas dec \<noteq> None)"

definition deposit_prechecks_pass :: "txJSON \<Rightarrow> bool" where
  "deposit_prechecks_pass dec =
     (\<not> deposit_forbidden dec \<and> zero_or_unset (txJSON.GasPrice dec) \<and>
      zero_or_unset (txJSON.V dec) \<and> zero_or_unset (txJSON.R dec) \<and>
      zero_or_unset (txJSON.S dec))"

definition deposit_required_present :: "txJSON \<Rightarrow> bool" where
  "deposit_required_present dec =
     (txJSON.Gas dec \<noteq> None \<and> txJSON.Value dec \<noteq> None \<and> txJSON.Input dec \<noteq> None \<and>
      txJSON.From dec \<noteq> None \<and> txJSON.SourceHash dec \<noteq> None)"

definition DepositTx_of_json :: "txJSON \<Rightarrow> DepositTx_val" where
  "DepositTx_of_json dec =
     \<lparr>DepositTx.SourceHash = the (txJSON.SourceHash dec), From = the (txJSON.From dec),
      To = txJSON.To dec, Mint = txJSON.Mint dec, Value = txJSON.Value dec,
      Gas = the (txJSON.Gas dec),
      IsSystemTransaction = (case txJSON.IsSystemTx dec of None \<Rightarrow> False | Some b \<Rightarrow> b),
      Data = the (txJSON.Input dec)\<rparr>"

definition arbitrum_deposit_required_present :: "txJSON \<Rightarrow> bool" where
  "arbitrum_deposit_required_present dec =
     (txJSON.ChainID dec \<noteq> None \<and> txJSON.RequestId dec \<noteq> None \<and> txJSON.To dec \<noteq> None \<and>
      txJSON.From dec \<noteq> None \<and> txJSON.Value dec \<noteq> None)"

definition ArbitrumDepositTx_of_json :: "txJSON \<Rightarrow> ArbitrumDepositTx_val" where
  "ArbitrumDepositTx_of_json dec =
     \<lparr>ArbitrumDepositTx.ChainId = txJSON.ChainID dec,
      L1RequestId = the (txJSON.RequestId dec),
      From = the (txJSON.From dec),
      To = the (txJSON.To dec),
      Value = txJSON.Value dec\<rparr>"

definition legacy_signed_fields_present :: "txJSON \<Rightarrow> bool" where
  "legacy_signed_fields_present dec =
     (txJSON.Nonce dec \<noteq> None \<and> txJSON.GasPrice dec \<noteq> None \<and> txJSON.Gas dec \<noteq> None \<and>
      txJSON.Value dec \<noteq> None \<and> txJSON.Input dec \<noteq> None \<and> txJSON.V dec \<noteq> None \<and>
      txJSON.R dec \<noteq> None \<and> txJSON.S dec \<noteq> None)"

definition legacy_metadata_present :: "txJSON \<Rightarrow> bool" where
  "legacy_metadata_present dec =
     (txJSON.EffectiveGasPrice dec \<noteq> None \<and> txJSON.L1BlockNumber dec \<noteq> None)"

text \<open>
  The error of the signature check on a wire object whose \<open>v\<close>, \<open>r\<close>, \<open>s\<close> are present:
  none when the triple is all zero, else what \<^verbatim>\<open>sanityCheckSignature\<close> returns.
\<close>

definition legacy_signature_error :: "sanityCheckSignature \<Rightarrow> txJSON \<Rightarrow> error option" where
  "legacy_signature_error sanityCheckSignature dec =
     (if the (txJSON.V dec) \<noteq> 0 \<or> the (txJSON.R dec) \<noteq> 0 \<or> the (txJSON.S dec) \<noteq> 0
      then sanityCheckSignature (the (txJSON.V dec)) (the (txJSON.R dec)) (the (txJSON.S dec)) True
      else None)"

definition ArbitrumLegacyTxData_of_json :: "txJSON \<Rightarrow> ArbitrumLegacyTxData_val" where
  "ArbitrumLegacyTxData_of_json dec =
     \<lparr>ArbitrumLegacyTxData.LegacyTx =
        \<lparr>LegacyTx.Nonce = the (txJSON.Nonce dec), GasPrice = txJSON.GasPrice dec,
         Gas = the (txJSON.Gas dec), To = txJSON.To dec, Value = txJSON.Value dec,
         Data = the (txJSON.Input dec), V = txJSON.V dec, R = txJSON.R dec, S = txJSON.S dec\<rparr>,
      HashOverride = txJSON.Hash dec,
      EffectiveGasPrice = the (txJSON.EffectiveGasPrice dec),
      L1BlockNumber = the (txJSON.L1BlockNumber dec),
      Sender = txJSON.From dec\<rparr>"

section \<open>Concrete inputs\<close>

text \<open>
  The submit-retryable transaction of the spec's test: request id \<open>0x00...01\<close>, fee cap 1,
  gas 21000, every other number zero, the three addresses zero, no retry data. Chain id
  and sender are left open; \<open>data()\<close> does not read them.
\<close>

definition submit_retryable_example ::
  "int option \<Rightarrow> Address \<Rightarrow> Address option \<Rightarrow> ArbitrumSubmitRetryableTx_val" where
  "submit_retryable_example c f rt =
     \<lparr>ArbitrumSubmitRetryableTx.ChainId = c, RequestId = 1, From = f, L1BaseFee = Some 0,
      DepositValue = Some 0, GasFeeCap = Some 1, Gas = 21000, RetryTo = rt,
      RetryValue = Some 0, Beneficiary = 0, MaxSubmissionFee = Some 0, FeeRefundAddr = 0,
      RetryData = []\<rparr>"

text \<open>A submit-retryable transaction with a three-byte payload and a retry destination.\<close>

definition submit_retryable_payload :: ArbitrumSubmitRetryableTx_val where
  "submit_retryable_payload =
     \<lparr>ArbitrumSubmitRetryableTx.ChainId = Some 42161, RequestId = 2, From = 5,
      L1BaseFee = Some 7, DepositValue = Some 1000, GasFeeCap = Some 3, Gas = 21000,
      RetryTo = Some 9, RetryValue = Some 10, Beneficiary = 6, MaxSubmissionFee = Some 4,
      FeeRefundAddr = 8, RetryData = [1, 2, 3]\<rparr>"

text \<open>The zero value \<^verbatim>\<open>ArbitrumSubmitRetryableTx{}\<close>: every pointer nil.\<close>

definition submit_retryable_zero :: ArbitrumSubmitRetryableTx_val where
  "submit_retryable_zero =
     \<lparr>ArbitrumSubmitRetryableTx.ChainId = None, RequestId = 0, From = 0, L1BaseFee = None,
      DepositValue = None, GasFeeCap = None, Gas = 0, RetryTo = None, RetryValue = None,
      Beneficiary = 0, MaxSubmissionFee = None, FeeRefundAddr = 0, RetryData = []\<rparr>"

text \<open>An unsigned transaction, with a fee cap and (\<open>None\<close>) without.\<close>

definition unsigned_example :: "int option \<Rightarrow> ArbitrumUnsignedTx_val" where
  "unsigned_example cap =
     \<lparr>ArbitrumUnsignedTx.ChainId = Some 42161, From = 5, Nonce = 1, GasFeeCap = cap,
      Gas = 21000, To = None, Value = Some 0, Data = []\<rparr>"

text \<open>The message of a missing-field error, and the test for one.\<close>

definition missing_required_field :: "string \<Rightarrow> string \<Rightarrow> error" where
  "missing_required_field name place =
     errors_New (''missing required field '' @ [CHR 0x27] @ name @ [CHR 0x27] @ '' '' @ place)"

fun is_missing_field :: "error \<Rightarrow> bool" where
  "is_missing_field (errors_New msg) =
     (take (length ''missing required field '') msg = ''missing required field '')"
| "is_missing_field ErrTxTypeNotSupported = False"

text \<open>A wire object of type \<open>t\<close> with every field absent.\<close>

definition txJSON_empty :: "byte \<Rightarrow> txJSON" where
  "txJSON_empty t =
     \<lparr>txJSON.Type = t, ChainID = None, Nonce = None, To = None, Gas = None, GasPrice = None,
      MaxPriorityFeePerGas = None, MaxFeePerGas = None, Value = None, Input = None,
      AccessList = None, V = None, R = None, S = None, Hash = 0, From = None,
      SourceHash = None, Mint = None, IsSystemTx = None, RequestId = None, TicketId = None,
      MaxRefund = None, SubmissionFeeRefund = None, RefundTo = None, L1BaseFee = None,
      DepositValue = None, RetryTo = None, RetryValue = None, RetryData = None,
      Beneficiary = None, MaxSubmissionFee = None, EffectiveGasPrice = None,
      L1BlockNumber = None\<rparr>"

text \<open>An Optimism deposit object with its five required fields and a destination.\<close>

definition deposit_json :: txJSON where
  "deposit_json =
     (txJSON_empty OPDepositTxType)
       \<lparr>txJSON.To := Some 0x42, txJSON.Gas := Some 21000, txJSON.Value := Some 5,
        txJSON.Input := Some [1, 2], txJSON.From := Some 7, txJSON.SourceHash := Some 9\<rparr>"

definition deposit_itx :: DepositTx_val where
  "deposit_itx =
     \<lparr>DepositTx.SourceHash = 9, From = 7, To = Some 0x42, Mint = None, Value = Some 5,
      Gas = 21000, IsSystemTransaction = False, Data = [1, 2]\<rparr>"

text \<open>
  An Arbitrum deposit object with chain id, request id, destination, sender and value,
  and neither gas nor input.
\<close>

definition arbitrum_deposit_json :: txJSON where
  "arbitrum_deposit_json =
     (txJSON_empty ArbitrumDepositTxType)
       \<lparr>txJSON.ChainID := Some 42161, txJSON.To := Some 0x42, txJSON.Value := Some 5,
        txJSON.From := Some 7, txJSON.RequestId := Some 9\<rparr>"

text \<open>
  A legacy-with-override object with every required field but \<open>EffectiveGasPrice\<close>, and the
  triple \<open>(v, r, s)\<close> given as argument.
\<close>

definition legacy_json :: "int \<Rightarrow> int \<Rightarrow> int \<Rightarrow> txJSON" where
  "legacy_json v r s =
     (txJSON_empty ArbitrumLegacyTxType)
       \<lparr>txJSON.Nonce := Some 3, txJSON.Gas := Some 21000, txJSON.GasPrice := Some 1,
        txJSON.Value := Some 5, txJSON.Input := Some [], txJSON.V := Some v,
        txJSON.R := Some r, txJSON.S := Some s, txJSON.L1BlockNumber := Some 100\<rparr>"

text \<open>
  A stand-in for the external signature check in concrete runs: it rejects a triple with
  \<open>r < 1\<close> or \<open>s < 1\<close>, which no signature-shape check accepts, and accepts the rest.
\<close>

definition sanity_r_s_positive :: sanityCheckSignature where
  "sanity_r_s_positive v r s maybeProtected =
     (if r < 1 \<or> s < 1 then Some (errors_New ''invalid transaction v, r, s values'') else None)"

text \<open>A stand-in for the external encoder in concrete runs: source hash, then payload.\<close>

definition rlp_stub :: "DepositTx_val \<Rightarrow> error + byte list" where
  "rlp_stub tx = Inr (Hash_Bytes (DepositTx.SourceHash tx) @ DepositTx.Data tx)"

text \<open>
  A store with three numbers, one address and one buffer, and an unsigned transaction
  whose pointers lead into it; its \<open>Value\<close> pointer is the argument.
\<close>

definition store_example :: heap where
  "store_example = \<lparr>bigs = [42161, 30, 5], addrs = [0x42], bufs = [[1, 2]]\<rparr>"

definition unsigned_ptr_example :: "nat option \<Rightarrow> ArbitrumUnsignedTx_ptr" where
  "unsigned_ptr_example val =
     \<lparr>ArbitrumUnsignedTx.ChainId = Some 0, From = 7, Nonce = 1, GasFeeCap = Some 1,
      Gas = 21000, To = Some 0, Value = val, Data = Some 0\<rparr>"

text \<open>The clone \<^verbatim>\<open>copy\<close> returns for it, and the store after the call.\<close>

definition unsigned_ptr_clone :: ArbitrumUnsignedTx_ptr where
  "unsigned_ptr_clone =
     \<lparr>ArbitrumUnsignedTx.ChainId = Some 3, From = 7, Nonce = 1, GasFeeCap = Some 4,
      Gas = 21000, To = Some 1, Value = Some 5, Data = Some 1\<rparr>"

definition store_after_copy :: "int \<Rightarrow> heap" where
  "store_after_copy v =
     \<lparr>bigs = [42161, 30, 5, 42161, 30, v], addrs = [0x42, 0x42], bufs = [[1, 2], [1, 2]]\<rparr>"

text \<open>
  A stand-in for the methods of \<^verbatim>\<open>LegacyTx\<close> in concrete runs: each accessor returns the
  field of its name, the others the zero form.
\<close>

definition LegacyTx_methods_stub :: "LegacyTx_val \<Rightarrow> Capability" where
  "LegacyTx_methods_stub tx =
     \<lparr>obs_txType = 0,
      obs_chainID = None,
      obs_accessList = [],
      obs_data = Inr (LegacyTx.Data tx),
      obs_gas = LegacyTx.Gas tx,
      obs_gasPrice = LegacyTx.GasPrice tx,
      obs_gasTipCap = LegacyTx.GasPrice tx,
      obs_gasFeeCap = LegacyTx.GasPrice tx,
      obs_value = LegacyTx.Value tx,
      obs_nonce = LegacyTx.Nonce tx,
      obs_to = LegacyTx.To tx,
      obs_blobGas = 0,
      obs_blobGasFeeCap = None,
      obs_blobHashes = [],
      obs_rawSignatureValues = (LegacyTx.V tx, LegacyTx.R tx, LegacyTx.S tx),
      obs_effectiveGasPrice = (\<lambda>dst baseFee. big_Set dst (LegacyTx.GasPrice tx))\<rparr>"

text \<open>Two internal transactions and a submit-retryable one, as structs of pointers.\<close>

definition internal_ptr_a :: ArbitrumInternalTx_ptr where
  "internal_ptr_a = \<lparr>ArbitrumInternalTx.ChainId = Some 0, Data = Some 0\<rparr>"

definition internal_ptr_b :: ArbitrumInternalTx_ptr where
  "internal_ptr_b = \<lparr>ArbitrumInternalTx.ChainId = Some 1, Data = None\<rparr>"

definition submit_retryable_ptr :: ArbitrumSubmitRetryableTx_ptr where
  "submit_retryable_ptr =
     \<lparr>ArbitrumSubmitRetryableTx.ChainId = Some 0, RequestId = 1, From = 7,
      L1BaseFee = Some 1, DepositValue = Some 2, GasFeeCap = Some 1, Gas = 21000,
      RetryTo = None, RetryValue = Some 2, Beneficiary = 0, MaxSubmissionFee = Some 2,
      FeeRefundAddr = 0, RetryData = Some 0\<rparr>"

section \<open>Byte encodings\<close>

lemma length_be_bytes [simp]: "length (be_bytes n v) = n"
  by (induction n arbitrary: v) auto

lemma be_value_be_bytes: "be_value (be_bytes n v) = v mod 256 ^ n"
proof (induction n arbitrary: v)
  case 0
  show ?case by simp
next
  case (Suc n)
  have "unat (of_nat (v mod 256) :: byte) = v mod 256"
    by (simp add: unat_of_nat)
  then show ?case
    using Suc [of "v div 256"] by (simp add: mod_mult2_eq)
qed

lemma be_bytes_zero: "be_bytes n 0 = replicate n 0"
  by (induction n) (auto simp: replicate_append_same)

lemma be_bytes_small: "v < 256 ^ k \<Longrightarrow> be_bytes (n + k) v = replicate n 0 @ be_bytes k v"
proof (induction k arbitrary: v)
  case 0
  then show ?case by (simp add: be_bytes_zero)
next
  case (Suc k)
  then have "v div 256 < 256 ^ k"
    by (simp add: less_mult_imp_div_less mult.commute)
  with Suc.IH [of "v div 256"] show ?case by simp
qed

lemma be_bytes_mod: "be_bytes n (v mod 256 ^ n) = be_bytes n v"
proof (induction n arbitrary: v)
  case 0
  show ?case by simp
next
  case (Suc n)
  have a: "v mod (256 * 256 ^ n) div 256 = (v div 256) mod 256 ^ n"
    by (simp add: mod_mult2_eq)
  have b: "v mod (256 * 256 ^ n) mod 256 = v mod 256"
    by (simp add: mod_mod_cancel)
  show ?case
    using Suc [of "v div 256"] by (simp add: a b)
qed

lemma be_bytes_mod32: "be_bytes 32 (v mod 2 ^ 256) = be_bytes 32 v"
proof -
  have "(2::nat) ^ 256 = 256 ^ 32" by simp
  then show ?thesis
    using be_bytes_mod [of 32 v] by simp
qed

lemma be_bytes_32_1: "v < 256 \<Longrightarrow> be_bytes 32 v = replicate 31 0 @ [of_nat v]"
  using be_bytes_small [of v 1 31] by simp

lemma be_bytes_2: "be_bytes 2 v = [of_nat (v div 256 mod 256), of_nat (v mod 256)]"
  by (simp add: numeral_2_eq_2)

lemma be_bytes_32_2:
  "v < 65536 \<Longrightarrow> be_bytes 32 v = replicate 30 0 @ [of_nat (v div 256 mod 256), of_nat (v mod 256)]"
  using be_bytes_small [of v 2 30] by (simp add: be_bytes_2)

lemma length_Hash_Bytes [simp]: "length (Hash_Bytes h) = 32"
  by (simp add: Hash_Bytes_def)

lemma length_Address_Bytes [simp]: "length (Address_Bytes a) = 20"
  by (simp add: Address_Bytes_def)

lemma length_uint256_bytes [simp]: "length (uint256_bytes v) = 32"
  by (simp add: uint256_bytes_def)

text \<open>
  \<open>uint256_bytes v\<close> is 32 bytes long and reads back, big-endian, as \<open>v\<close> modulo \<open>2^256\<close>:
  as \<open>v\<close> itself when \<open>0 \<le> v < 2^256\<close>.
\<close>

lemma be_value_uint256_bytes: "int (be_value (uint256_bytes v)) = v mod 2 ^ 256"
proof -
  have "(256::nat) ^ 32 = 2 ^ 256" by simp
  then have "be_value (uint256_bytes v) = nat (v mod 2 ^ 256) mod 2 ^ 256"
    unfolding uint256_bytes_def by (simp only: be_value_be_bytes)
  moreover have "nat (v mod 2 ^ 256) < 2 ^ 256"
    by (simp add: nat_less_iff)
  ultimately have "be_value (uint256_bytes v) = nat (v mod 2 ^ 256)" by simp
  then show ?thesis by simp
qed

lemma uint256_bytes_uint64: "uint256_bytes (uint (g::uint64)) = be_bytes 32 (unat g)"
proof -
  have "uint g < 2 ^ 64"
    using uint_bounded [of g] by simp
  also have "(2::int) ^ 64 \<le> 2 ^ 256" by simp
  finally have "uint g mod 2 ^ 256 = uint g" by simp
  then show ?thesis
    unfolding uint256_bytes_def by simp
qed

lemma uint256_bytes_nat: "uint256_bytes (int n) = be_bytes 32 n"
proof -
  have "nat (int n mod 2 ^ 256) = n mod 2 ^ 256"
    by (simp add: nat_mod_distrib)
  then show ?thesis
    unfolding uint256_bytes_def by (simp only: be_bytes_mod32)
qed

lemma uint256_bytes_small: "0 \<le> v \<Longrightarrow> v < 65536 \<Longrightarrow> uint256_bytes v = be_bytes 32 (nat v)"
  using uint256_bytes_nat [of "nat v"] by simp

lemma replicate_12_20: "replicate 12 x @ replicate 20 x @ ys = replicate 32 x @ ys"
  using replicate_add [of 12 20 x] by simp

lemma replicate_12_20_end: "replicate 12 x @ replicate 20 x = replicate 32 x"
  using replicate_add [of 12 20 x] by simp

section \<open>The call data of a submit-retryable transaction\<close>

lemma pad_to_boundary:
  "(if 0 < n mod 32 then xs @ replicate (32 - n mod 32) (0::byte) else xs) =
   xs @ replicate ((32 - n mod 32) mod 32) 0"
  by (cases "n mod 32 = 0") auto

lemma data_closed_form:
  assumes "ArbitrumSubmitRetryableTx.L1BaseFee tx = Some l1"
    and "ArbitrumSubmitRetryableTx.DepositValue tx = Some dv"
    and "ArbitrumSubmitRetryableTx.RetryValue tx = Some rv"
    and "ArbitrumSubmitRetryableTx.GasFeeCap tx = Some fc"
    and "ArbitrumSubmitRetryableTx.MaxSubmissionFee tx = Some msf"
  shows "ArbitrumSubmitRetryableTx_data tx = Inr (
      selector_c9f95d32
      @ Hash_Bytes (ArbitrumSubmitRetryableTx.RequestId tx)
      @ uint256_bytes l1
      @ uint256_bytes dv
      @ uint256_bytes rv
      @ uint256_bytes fc
      @ be_bytes 32 (unat (ArbitrumSubmitRetryableTx.Gas tx))
      @ uint256_bytes msf
      @ replicate 12 0 @ Address_Bytes (ArbitrumSubmitRetryableTx.FeeRefundAddr tx)
      @ replicate 12 0 @ Address_Bytes (ArbitrumSubmitRetryableTx.Beneficiary tx)
      @ replicate 12 0
      @ Address_Bytes (case ArbitrumSubmitRetryableTx.RetryTo tx of None \<Rightarrow> 0 | Some a \<Rightarrow> a)
      @ be_bytes 32 (320 + 32)
      @ be_bytes 32 (length (ArbitrumSubmitRetryableTx.RetryData tx))
      @ ArbitrumSubmitRetryableTx.RetryData tx
      @ replicate ((32 - length (ArbitrumSubmitRetryableTx.RetryData tx) mod 32) mod 32) 0)"
  using assms
  by (simp add: ArbitrumSubmitRetryableTx_data_def Let_def and_then_def U256Bytes_def
      make_bytes_def pad_to_boundary uint256_bytes_uint64 uint256_bytes_nat)

lemma data_nil_panics:
  assumes "ArbitrumSubmitRetryableTx.L1BaseFee tx = None \<or>
     ArbitrumSubmitRetryableTx.DepositValue tx = None \<or>
     ArbitrumSubmitRetryableTx.RetryValue tx = None \<or>
     ArbitrumSubmitRetryableTx.GasFeeCap tx = None \<or>
     ArbitrumSubmitRetryableTx.MaxSubmissionFee tx = None"
  shows "ArbitrumSubmitRetryableTx_data tx = Inl nil_pointer_dereference"
  using assms
  by (auto simp: ArbitrumSubmitRetryableTx_data_def Let_def and_then_def U256Bytes_def
      split: option.splits sum.splits)


text \<open>
  C1 (amended). For every \<^verbatim>\<open>ArbitrumSubmitRetryableTx\<close> whose \<open>L1BaseFee\<close>, \<open>DepositValue\<close>,
  \<open>RetryValue\<close>, \<open>GasFeeCap\<close> and \<open>MaxSubmissionFee\<close> are set (not nil), \<open>data()\<close> returns
  exactly: the selector \<open>0xc9f95d32\<close>; the 32 bytes of the request identifier; the 32-byte
  big-endian zero-padded words of L1 base fee, deposit value, retry value, fee cap, gas
  limit and max submission fee (each big integer taken modulo \<open>2^256\<close>); three words of
  12 zero bytes and the 20-byte fee-refund address, beneficiary and retry-to address (the
  zero address when retry-to is nil); the word of 320 + 32, the length of the argument
  block so far plus 32; the word of the payload length; the payload, zero-padded to the
  next 32-byte boundary.
\<close>

theorem C1_data_layout:
  assumes "ArbitrumSubmitRetryableTx.L1BaseFee tx = Some l1"
    and "ArbitrumSubmitRetryableTx.DepositValue tx = Some dv"
    and "ArbitrumSubmitRetryableTx.RetryValue tx = Some rv"
    and "ArbitrumSubmitRetryableTx.GasFeeCap tx = Some fc"
    and "ArbitrumSubmitRetryableTx.MaxSubmissionFee tx = Some msf"
  shows "ArbitrumSubmitRetryableTx_data tx = Inr (
      selector_c9f95d32
      @ Hash_Bytes (ArbitrumSubmitRetryableTx.RequestId tx)
      @ uint256_bytes l1
      @ uint256_bytes dv
      @ uint256_bytes rv
      @ uint256_bytes fc
      @ be_bytes 32 (unat (ArbitrumSubmitRetryableTx.Gas tx))
      @ uint256_bytes msf
      @ replicate 12 0 @ Address_Bytes (ArbitrumSubmitRetryableTx.FeeRefundAddr tx)
      @ replicate 12 0 @ Address_Bytes (ArbitrumSubmitRetryableTx.Beneficiary tx)
      @ replicate 12 0
      @ Address_Bytes (case ArbitrumSubmitRetryableTx.RetryTo tx of None \<Rightarrow> 0 | Some a \<Rightarrow> a)
      @ be_bytes 32 (320 + 32)
      @ be_bytes 32 (length (ArbitrumSubmitRetryableTx.RetryData tx))
      @ ArbitrumSubmitRetryableTx.RetryData tx
      @ replicate ((32 - length (ArbitrumSubmitRetryableTx.RetryData tx) mod 32) mod 32) 0)"
  using assms by (rule data_closed_form)

theorem C1_data_layout_witness:
  "ArbitrumSubmitRetryableTx.L1BaseFee submit_retryable_payload = Some 7 \<and>
   ArbitrumSubmitRetryableTx.DepositValue submit_retryable_payload = Some 1000 \<and>
   ArbitrumSubmitRetryableTx.RetryValue submit_retryable_payload = Some 10 \<and>
   ArbitrumSubmitRetryableTx.GasFeeCap submit_retryable_payload = Some 3 \<and>
   ArbitrumSubmitRetryableTx.MaxSubmissionFee submit_retryable_payload = Some 4 \<and>
   ArbitrumSubmitRetryableTx_data submit_retryable_payload = Inr (
      selector_c9f95d32 @ Hash_Bytes 2
      @ uint256_bytes 7 @ uint256_bytes 1000 @ uint256_bytes 10 @ uint256_bytes 3
      @ be_bytes 32 21000 @ uint256_bytes 4
      @ replicate 12 0 @ Address_Bytes 8
      @ replicate 12 0 @ Address_Bytes 6
      @ replicate 12 0 @ Address_Bytes 9
      @ be_bytes 32 352 @ be_bytes 32 (length [1::byte, 2, 3]) @ [1, 2, 3] @ replicate 29 0)"
  using C1_data_layout [of submit_retryable_payload 7 1000 10 3 4]
  by (simp add: submit_retryable_payload_def)

text \<open>
  C1 as stated, for every \<^verbatim>\<open>ArbitrumSubmitRetryableTx\<close>, fails on the zero value of the
  struct: \<^verbatim>\<open>math.U256Bytes(tx.L1BaseFee)\<close> reads a nil pointer and \<open>data()\<close> panics.
\<close>

theorem C1_nil_field_counterexample:
  "ArbitrumSubmitRetryableTx_data submit_retryable_zero = Inl nil_pointer_dereference"
  by (rule data_nil_panics) (simp add: submit_retryable_zero_def)

lemma data_example:
  "rt = None \<or> rt = Some 0 \<Longrightarrow>
   ArbitrumSubmitRetryableTx_data (submit_retryable_example c f rt) = Inr (
      selector_c9f95d32
      @ (replicate 31 0 @ [1]) @ replicate 32 0 @ replicate 32 0 @ replicate 32 0
      @ (replicate 31 0 @ [1]) @ (replicate 30 0 @ [0x52, 0x08]) @ replicate 32 0
      @ replicate 32 0 @ replicate 32 0 @ replicate 32 0
      @ (replicate 30 0 @ [0x01, 0x60]) @ replicate 32 0)"
  apply (subst data_closed_form [where ?l1.0 = 0 and dv = 0 and rv = 0 and fc = 1 and msf = 0])
       apply (simp_all add: submit_retryable_example_def)
  apply (auto simp add: Hash_Bytes_def Address_Bytes_def be_bytes_32_1 be_bytes_32_2 be_bytes_zero
      uint256_bytes_small replicate_12_20 replicate_12_20_end simp del: replicate_eq_replicate)
  done

text \<open>
  C2 (amended). For the submit-retryable transaction with request id \<open>0x00...01\<close>, fee cap 1,
  gas 21000, every other number zero, the three addresses zero (retry-to the zero address
  or nil) and empty retry data, \<open>data()\<close> is the 4-byte selector followed by exactly 384
  bytes: 10 fixed words (7 numbers and 3 addresses, 320 bytes), the offset word \<open>0x160\<close>
  and the length word 0, with no payload bytes after them.
\<close>

theorem C2_example_call_data:
  "ArbitrumSubmitRetryableTx_data (submit_retryable_example c f (Some 0)) = Inr (
      selector_c9f95d32
      @ (replicate 31 0 @ [1]) @ replicate 32 0 @ replicate 32 0 @ replicate 32 0
      @ (replicate 31 0 @ [1]) @ (replicate 30 0 @ [0x52, 0x08]) @ replicate 32 0
      @ replicate 32 0 @ replicate 32 0 @ replicate 32 0
      @ (replicate 30 0 @ [0x01, 0x60]) @ replicate 32 0) \<and>
   ArbitrumSubmitRetryableTx_data (submit_retryable_example c f None) =
     ArbitrumSubmitRetryableTx_data (submit_retryable_example c f (Some 0)) \<and>
   map_sum id length (ArbitrumSubmitRetryableTx_data (submit_retryable_example c f (Some 0))) =
     Inr (4 + 384)"
  by (simp add: data_example selector_c9f95d32_def)

text \<open>
  C2 as stated asks for 4 + 320 bytes. The call returns 4 + 384: the 320 bytes are the ten
  fixed words alone, and the offset and length words follow them.
\<close>

theorem C2_length_counterexample:
  "map_sum id length
     (ArbitrumSubmitRetryableTx_data (submit_retryable_example (Some 1) 0 (Some 0))) = Inr 388 \<and>
   (388::nat) \<noteq> 4 + 320"
  by (simp add: data_example selector_c9f95d32_def)

section \<open>Effective gas price, value and nonce\<close>

text \<open>
  C5 (amended). \<open>effectiveGasPrice\<close> on every feeless variant (\<^verbatim>\<open>DepositTx\<close>, its
  nonce-carrying shape, \<^verbatim>\<open>ArbitrumDepositTx\<close>, \<^verbatim>\<open>ArbitrumInternalTx\<close>) returns zero for every
  \<open>baseFee\<close>, absent included. On every fee-market variant (\<^verbatim>\<open>ArbitrumUnsignedTx\<close>,
  \<^verbatim>\<open>ArbitrumContractTx\<close>, \<^verbatim>\<open>ArbitrumRetryTx\<close>, \<^verbatim>\<open>ArbitrumSubmitRetryableTx\<close>) it returns
  \<open>baseFee\<close> when \<open>baseFee\<close> is present, and when \<open>baseFee\<close> is absent it returns the fee cap
  provided the fee cap is set (not nil).
\<close>

theorem C5_effectiveGasPrice:
  "DepositTx_effectiveGasPrice d dst baseFee = Inr 0 \<and>
   depositTxWithNonce_effectiveGasPrice dn dst baseFee = Inr 0 \<and>
   ArbitrumDepositTx_effectiveGasPrice ad dst baseFee = Inr 0 \<and>
   ArbitrumInternalTx_effectiveGasPrice ai dst baseFee = Inr 0 \<and>
   ArbitrumUnsignedTx_effectiveGasPrice u dst (Some b) = Inr b \<and>
   ArbitrumContractTx_effectiveGasPrice c dst (Some b) = Inr b \<and>
   ArbitrumRetryTx_effectiveGasPrice r dst (Some b) = Inr b \<and>
   ArbitrumSubmitRetryableTx_effectiveGasPrice s dst (Some b) = Inr b \<and>
   (ArbitrumUnsignedTx.GasFeeCap u = Some cap \<longrightarrow>
      ArbitrumUnsignedTx_effectiveGasPrice u dst None = Inr cap) \<and>
   (ArbitrumContractTx.GasFeeCap c = Some cap \<longrightarrow>
      ArbitrumContractTx_effectiveGasPrice c dst None = Inr cap) \<and>
   (ArbitrumRetryTx.GasFeeCap r = Some cap \<longrightarrow>
      ArbitrumRetryTx_effectiveGasPrice r dst None = Inr cap) \<and>
   (ArbitrumSubmitRetryableTx.GasFeeCap s = Some cap \<longrightarrow>
      ArbitrumSubmitRetryableTx_effectiveGasPrice s dst None = Inr cap)"
  by (simp add: DepositTx_effectiveGasPrice_def depositTxWithNonce_effectiveGasPrice_def
      ArbitrumDepositTx_effectiveGasPrice_def ArbitrumInternalTx_effectiveGasPrice_def
      ArbitrumUnsignedTx_effectiveGasPrice_def ArbitrumContractTx_effectiveGasPrice_def
      ArbitrumRetryTx_effectiveGasPrice_def ArbitrumSubmitRetryableTx_effectiveGasPrice_def
      big_Set_def bigZero_def)

theorem C5_effectiveGasPrice_witness:
  "ArbitrumUnsignedTx.GasFeeCap (unsigned_example (Some 30)) = Some 30 \<and>
   ArbitrumUnsignedTx_effectiveGasPrice (unsigned_example (Some 30)) 0 None = Inr 30 \<and>
   ArbitrumUnsignedTx_effectiveGasPrice (unsigned_example (Some 30)) 0 (Some 12) = Inr 12 \<and>
   ArbitrumSubmitRetryableTx.GasFeeCap submit_retryable_payload = Some 3 \<and>
   ArbitrumSubmitRetryableTx_effectiveGasPrice submit_retryable_payload 0 None = Inr 3"
  using C5_effectiveGasPrice [of _ 0 None _ _ _ "unsigned_example (Some 30)" 12 _ _
      submit_retryable_payload 30]
    C5_effectiveGasPrice [of _ 0 None _ _ _ _ 12 _ _ submit_retryable_payload 3]
  by (simp add: unsigned_example_def submit_retryable_payload_def)

text \<open>
  C5 as stated fails on a fee-market variant whose fee cap is nil: with \<open>baseFee\<close> absent,
  \<^verbatim>\<open>dst.Set(tx.GasFeeCap)\<close> reads the nil pointer and the call panics instead of returning.
\<close>

theorem C5_nil_fee_cap_counterexample:
  "ArbitrumUnsignedTx_effectiveGasPrice (unsigned_example None) 0 None =
     Inl nil_pointer_dereference"
  by (simp add: ArbitrumUnsignedTx_effectiveGasPrice_def big_Set_def unsigned_example_def)

text \<open>
  C10. For every \<^verbatim>\<open>ArbitrumSubmitRetryableTx\<close>, whatever \<open>DepositValue\<close> and \<open>RetryValue\<close>
  hold, \<open>value()\<close> and \<open>nonce()\<close> return zero.
\<close>

theorem C10_value_and_nonce_zero:
  "ArbitrumSubmitRetryableTx_value tx = Some 0 \<and>
   ArbitrumSubmitRetryableTx_nonce tx = 0 \<and>
   ArbitrumSubmitRetryableTx_value
     (tx\<lparr>ArbitrumSubmitRetryableTx.DepositValue := dv,
         ArbitrumSubmitRetryableTx.RetryValue := rv\<rparr>) = Some 0 \<and>
   ArbitrumSubmitRetryableTx_nonce
     (tx\<lparr>ArbitrumSubmitRetryableTx.DepositValue := dv,
         ArbitrumSubmitRetryableTx.RetryValue := rv\<rparr>) = 0"
  by (simp add: ArbitrumSubmitRetryableTx_value_def ArbitrumSubmitRetryableTx_nonce_def Big0_def)

section \<open>The Optimism decoder, check by check\<close>

lemma present_and_nonzero: "((\<exists>y. x = Some y) \<and> the x \<noteq> (0::int)) = (\<not> zero_or_unset x)"
  by (cases x) (auto simp: zero_or_unset_def)

lemma forbidden_fields_iff: "((\<exists>y. txJSON.AccessList dec = Some y) \<or> (\<exists>y. txJSON.MaxFeePerGas dec = Some y) \<or>
          (\<exists>y. txJSON.MaxPriorityFeePerGas dec = Some y)) = deposit_forbidden dec"
  by (auto simp: deposit_forbidden_def)

lemma optimism_other_type: "txJSON.Type dec \<noteq> OPDepositTxType \<Longrightarrow> unmarshalOptimismJSON dec = Inl ErrTxTypeNotSupported"
  by (simp add: unmarshalOptimismJSON_def)

lemma optimism_forbidden_field: "txJSON.Type dec = OPDepositTxType \<Longrightarrow> deposit_forbidden dec \<Longrightarrow>
   unmarshalOptimismJSON dec = Inl (errors_New ''unexpected field(s) in deposit transaction'')"
  by (simp add: unmarshalOptimismJSON_def forbidden_fields_iff)

lemma optimism_gas_price_nonzero: "txJSON.Type dec = OPDepositTxType \<Longrightarrow> \<not> deposit_forbidden dec \<Longrightarrow> \<not> zero_or_unset (txJSON.GasPrice dec) \<Longrightarrow>
   unmarshalOptimismJSON dec = Inl (errors_New ''deposit transaction GasPrice must be 0'')"
  by (simp add: unmarshalOptimismJSON_def forbidden_fields_iff present_and_nonzero)

lemma optimism_signature_nonzero: "txJSON.Type dec = OPDepositTxType \<Longrightarrow> \<not> deposit_forbidden dec \<Longrightarrow> zero_or_unset (txJSON.GasPrice dec) \<Longrightarrow>
   \<not> zero_or_unset (txJSON.V dec) \<or> \<not> zero_or_unset (txJSON.R dec) \<or> \<not> zero_or_unset (txJSON.S dec) \<Longrightarrow>
   unmarshalOptimismJSON dec = Inl (errors_New ''deposit transaction signature must be 0 or unset'')"
  by (simp add: unmarshalOptimismJSON_def forbidden_fields_iff present_and_nonzero)

lemma optimism_missing_gas: "txJSON.Type dec = OPDepositTxType \<Longrightarrow> deposit_prechecks_pass dec \<Longrightarrow> txJSON.Gas dec = None \<Longrightarrow>
   unmarshalOptimismJSON dec = Inl (missing_required_field ''gas'' ''for txdata'')"
  by (simp add: unmarshalOptimismJSON_def forbidden_fields_iff present_and_nonzero deposit_prechecks_pass_def missing_required_field_def)

lemma optimism_missing_value: "txJSON.Type dec = OPDepositTxType \<Longrightarrow> deposit_prechecks_pass dec \<Longrightarrow> txJSON.Gas dec = Some g \<Longrightarrow> txJSON.Value dec = None \<Longrightarrow>
   unmarshalOptimismJSON dec = Inl (missing_required_field ''value'' ''in transaction'')"
  by (simp add: unmarshalOptimismJSON_def forbidden_fields_iff present_and_nonzero deposit_prechecks_pass_def missing_required_field_def Let_def)

lemma optimism_missing_input: "txJSON.Type dec = OPDepositTxType \<Longrightarrow> deposit_prechecks_pass dec \<Longrightarrow> txJSON.Gas dec = Some g \<Longrightarrow> txJSON.Value dec = Some v \<Longrightarrow>
   txJSON.Input dec = None \<Longrightarrow>
   unmarshalOptimismJSON dec = Inl (missing_required_field ''input'' ''in transaction'')"
  by (simp add: unmarshalOptimismJSON_def forbidden_fields_iff present_and_nonzero deposit_prechecks_pass_def missing_required_field_def Let_def)

lemma optimism_missing_from: "txJSON.Type dec = OPDepositTxType \<Longrightarrow> deposit_prechecks_pass dec \<Longrightarrow> txJSON.Gas dec = Some g \<Longrightarrow> txJSON.Value dec = Some v \<Longrightarrow>
   txJSON.Input dec = Some i \<Longrightarrow> txJSON.From dec = None \<Longrightarrow>
   unmarshalOptimismJSON dec = Inl (missing_required_field ''from'' ''in transaction'')"
  by (simp add: unmarshalOptimismJSON_def forbidden_fields_iff present_and_nonzero deposit_prechecks_pass_def missing_required_field_def Let_def)

lemma optimism_missing_sourceHash: "txJSON.Type dec = OPDepositTxType \<Longrightarrow> deposit_prechecks_pass dec \<Longrightarrow> txJSON.Gas dec = Some g \<Longrightarrow> txJSON.Value dec = Some v \<Longrightarrow>
   txJSON.Input dec = Some i \<Longrightarrow> txJSON.From dec = Some f \<Longrightarrow> txJSON.SourceHash dec = None \<Longrightarrow>
   unmarshalOptimismJSON dec = Inl (missing_required_field ''sourceHash'' ''in transaction'')"
  by (simp add: unmarshalOptimismJSON_def forbidden_fields_iff present_and_nonzero deposit_prechecks_pass_def missing_required_field_def Let_def)

lemma optimism_all_present: "txJSON.Type dec = OPDepositTxType \<Longrightarrow> deposit_prechecks_pass dec \<Longrightarrow> txJSON.Gas dec = Some g \<Longrightarrow> txJSON.Value dec = Some v \<Longrightarrow>
   txJSON.Input dec = Some i \<Longrightarrow> txJSON.From dec = Some f \<Longrightarrow> txJSON.SourceHash dec = Some h \<Longrightarrow>
   unmarshalOptimismJSON dec = Inr (case txJSON.Nonce dec of
                 None \<Rightarrow> Inner_DepositTx (DepositTx_of_json dec)
               | Some n \<Rightarrow> Inner_depositTxWithNonce
                    \<lparr>depositTxWithNonce.DepositTx = DepositTx_of_json dec, EffectiveNonce = n\<rparr>)"
  by (cases "txJSON.To dec"; cases "txJSON.IsSystemTx dec"; cases "txJSON.Nonce dec")
     (simp_all add: unmarshalOptimismJSON_def forbidden_fields_iff present_and_nonzero deposit_prechecks_pass_def Let_def DepositTx_zero_def DepositTx_of_json_def)

lemma optimism_precheck_fails:
  assumes "txJSON.Type dec = OPDepositTxType" "\<not> deposit_prechecks_pass dec"
  shows "isl (unmarshalOptimismJSON dec) \<and> \<not> is_missing_field (projl (unmarshalOptimismJSON dec))"
proof -
  consider (a) "deposit_forbidden dec"
    | (b) "\<not> deposit_forbidden dec" "\<not> zero_or_unset (txJSON.GasPrice dec)"
    | (c) "\<not> deposit_forbidden dec" "zero_or_unset (txJSON.GasPrice dec)"
        "\<not> zero_or_unset (txJSON.V dec) \<or> \<not> zero_or_unset (txJSON.R dec) \<or> \<not> zero_or_unset (txJSON.S dec)"
    using assms(2) unfolding deposit_prechecks_pass_def by blast
  then show ?thesis
  proof cases
    case a
    then show ?thesis by (simp add: optimism_forbidden_field [OF assms(1)])
  next
    case b
    then show ?thesis by (simp add: optimism_gas_price_nonzero [OF assms(1)])
  next
    case c
    then show ?thesis by (simp add: optimism_signature_nonzero [OF assms(1)])
  qed
qed

lemma optimism_missing:
  assumes "txJSON.Type dec = OPDepositTxType" "deposit_prechecks_pass dec" "\<not> deposit_required_present dec"
  shows "unmarshalOptimismJSON dec = Inl (
     if txJSON.Gas dec = None then missing_required_field ''gas'' ''for txdata''
     else if txJSON.Value dec = None then missing_required_field ''value'' ''in transaction''
     else if txJSON.Input dec = None then missing_required_field ''input'' ''in transaction''
     else if txJSON.From dec = None then missing_required_field ''from'' ''in transaction''
     else missing_required_field ''sourceHash'' ''in transaction'')"
proof -
  consider (a) "txJSON.Gas dec = None"
    | (b) g where "txJSON.Gas dec = Some g" "txJSON.Value dec = None"
    | (c) g v where "txJSON.Gas dec = Some g" "txJSON.Value dec = Some v" "txJSON.Input dec = None"
    | (d) g v i where "txJSON.Gas dec = Some g" "txJSON.Value dec = Some v" "txJSON.Input dec = Some i"
        "txJSON.From dec = None"
    | (e) g v i f where "txJSON.Gas dec = Some g" "txJSON.Value dec = Some v" "txJSON.Input dec = Some i"
        "txJSON.From dec = Some f" "txJSON.SourceHash dec = None"
    using assms(3) unfolding deposit_required_present_def by blast
  then show ?thesis
  proof cases
    case a
    then show ?thesis by (simp add: optimism_missing_gas [OF assms(1,2)])
  next
    case b
    then show ?thesis by (simp add: optimism_missing_value [OF assms(1,2)])
  next
    case c
    then show ?thesis by (simp add: optimism_missing_input [OF assms(1,2)])
  next
    case d
    then show ?thesis by (simp add: optimism_missing_from [OF assms(1,2)])
  next
    case e
    then show ?thesis by (simp add: optimism_missing_sourceHash [OF assms(1,2)])
  qed
qed

lemma optimism_present:
  assumes "txJSON.Type dec = OPDepositTxType" "deposit_prechecks_pass dec" "deposit_required_present dec"
  shows "unmarshalOptimismJSON dec = Inr (case txJSON.Nonce dec of
                 None \<Rightarrow> Inner_DepositTx (DepositTx_of_json dec)
               | Some n \<Rightarrow> Inner_depositTxWithNonce
                    \<lparr>depositTxWithNonce.DepositTx = DepositTx_of_json dec, EffectiveNonce = n\<rparr>)"
proof -
  obtain g v i f h where "txJSON.Gas dec = Some g" "txJSON.Value dec = Some v" "txJSON.Input dec = Some i"
        "txJSON.From dec = Some f" "txJSON.SourceHash dec = Some h"
    using assms(3) unfolding deposit_required_present_def by blast
  then show ?thesis by (rule optimism_all_present [OF assms(1,2)])
qed

lemma optimism_success_iff:
  "unmarshalOptimismJSON dec = Inr inner \<longleftrightarrow>
     txJSON.Type dec = OPDepositTxType \<and> deposit_prechecks_pass dec \<and> deposit_required_present dec \<and>
     inner = (case txJSON.Nonce dec of
                 None \<Rightarrow> Inner_DepositTx (DepositTx_of_json dec)
               | Some n \<Rightarrow> Inner_depositTxWithNonce
                    \<lparr>depositTxWithNonce.DepositTx = DepositTx_of_json dec, EffectiveNonce = n\<rparr>)"
proof (cases "txJSON.Type dec = OPDepositTxType")
  case False
  then show ?thesis by (simp add: optimism_other_type)
next
  case t: True
  show ?thesis
  proof (cases "deposit_prechecks_pass dec")
    case False
    then show ?thesis using optimism_precheck_fails [OF t] by auto
  next
    case p: True
    show ?thesis
    proof (cases "deposit_required_present dec")
      case False
      then show ?thesis using optimism_missing [OF t p] by simp
    next
      case True
      then show ?thesis using optimism_present [OF t p] t p by auto
    qed
  qed
qed

lemma deposit_prechecks_pass_Nonce [simp]:
  "deposit_prechecks_pass (dec\<lparr>txJSON.Nonce := x\<rparr>) = deposit_prechecks_pass dec"
  by (simp add: deposit_prechecks_pass_def deposit_forbidden_def)

lemma deposit_required_present_Nonce [simp]:
  "deposit_required_present (dec\<lparr>txJSON.Nonce := x\<rparr>) = deposit_required_present dec"
  by (simp add: deposit_required_present_def)

lemma DepositTx_of_json_Nonce [simp]:
  "DepositTx_of_json (dec\<lparr>txJSON.Nonce := x\<rparr>) = DepositTx_of_json dec"
  by (simp add: DepositTx_of_json_def)

text \<open>
  C3. For every wire object that \<^verbatim>\<open>unmarshalOptimismJSON\<close> decodes successfully and that
  carries a nonce \<open>n\<close>, the result is the nonce-carrying shape around some \<^verbatim>\<open>DepositTx\<close>
  \<open>itx\<close> with effective nonce \<open>n\<close>; the same object with the nonce field absent decodes to
  the bare \<open>itx\<close>; and \<^verbatim>\<open>EncodeRLP\<close> of the nonce-carrying shape is the encoder's output on
  \<open>itx\<close>, whatever the effective nonce \<open>m\<close> is.
\<close>

theorem C3_nonce_shape_encoding:
  assumes "unmarshalOptimismJSON dec = Inr inner" and "txJSON.Nonce dec = Some n"
  shows "\<exists>itx.
     inner = Inner_depositTxWithNonce \<lparr>depositTxWithNonce.DepositTx = itx, EffectiveNonce = n\<rparr> \<and>
     unmarshalOptimismJSON (dec\<lparr>txJSON.Nonce := None\<rparr>) = Inr (Inner_DepositTx itx) \<and>
     depositTxWithNonce_EncodeRLP rlp_Encode
       \<lparr>depositTxWithNonce.DepositTx = itx, EffectiveNonce = n\<rparr> = rlp_Encode itx \<and>
     depositTxWithNonce_EncodeRLP rlp_Encode
       \<lparr>depositTxWithNonce.DepositTx = itx, EffectiveNonce = m\<rparr> = rlp_Encode itx"
proof -
  have i: "inner = Inner_depositTxWithNonce
      \<lparr>depositTxWithNonce.DepositTx = DepositTx_of_json dec, EffectiveNonce = n\<rparr>"
    using assms by (simp add: optimism_success_iff)
  have s: "unmarshalOptimismJSON (dec\<lparr>txJSON.Nonce := None\<rparr>) =
      Inr (Inner_DepositTx (DepositTx_of_json dec))"
    using assms(1) by (simp add: optimism_success_iff)
  show ?thesis
    using i s by (simp add: depositTxWithNonce_EncodeRLP_def)
qed

lemma deposit_json_present:
  "txJSON.Type deposit_json = OPDepositTxType"
  "deposit_prechecks_pass deposit_json"
  "deposit_required_present deposit_json"
  "DepositTx_of_json deposit_json = deposit_itx"
  by (simp_all add: deposit_json_def txJSON_empty_def deposit_prechecks_pass_def
      deposit_forbidden_def zero_or_unset_def deposit_required_present_def DepositTx_of_json_def
      deposit_itx_def)

lemma deposit_json_decodes:
  "unmarshalOptimismJSON (deposit_json\<lparr>txJSON.Nonce := Some n\<rparr>) =
     Inr (Inner_depositTxWithNonce \<lparr>depositTxWithNonce.DepositTx = deposit_itx, EffectiveNonce = n\<rparr>)"
  "unmarshalOptimismJSON (deposit_json\<lparr>txJSON.Nonce := None\<rparr>) = Inr (Inner_DepositTx deposit_itx)"
  by (simp_all add: optimism_success_iff deposit_json_present)

theorem C3_nonce_shape_encoding_witness:
  "unmarshalOptimismJSON (deposit_json\<lparr>txJSON.Nonce := Some 7\<rparr>) =
     Inr (Inner_depositTxWithNonce
            \<lparr>depositTxWithNonce.DepositTx = deposit_itx, EffectiveNonce = 7\<rparr>) \<and>
   txJSON.Nonce (deposit_json\<lparr>txJSON.Nonce := Some 7\<rparr>) = Some 7 \<and>
   unmarshalOptimismJSON (deposit_json\<lparr>txJSON.Nonce := Some 7, txJSON.Nonce := None\<rparr>) =
     Inr (Inner_DepositTx deposit_itx) \<and>
   depositTxWithNonce_EncodeRLP rlp_stub
     \<lparr>depositTxWithNonce.DepositTx = deposit_itx, EffectiveNonce = 7\<rparr> = rlp_stub deposit_itx"
  using C3_nonce_shape_encoding [of "deposit_json\<lparr>txJSON.Nonce := Some 7\<rparr>"
      "Inner_depositTxWithNonce \<lparr>depositTxWithNonce.DepositTx = deposit_itx, EffectiveNonce = 7\<rparr>"
      7 rlp_stub 7]
  by (simp add: deposit_json_decodes)

lemma optimism_cong:
  assumes "txJSON.Type d1 = txJSON.Type d2"
    and "deposit_prechecks_pass d1" and "deposit_prechecks_pass d2"
    and "txJSON.Gas d1 = txJSON.Gas d2" and "txJSON.Value d1 = txJSON.Value d2"
    and "txJSON.Input d1 = txJSON.Input d2" and "txJSON.From d1 = txJSON.From d2"
    and "txJSON.SourceHash d1 = txJSON.SourceHash d2" and "txJSON.Nonce d1 = txJSON.Nonce d2"
    and "DepositTx_of_json d1 = DepositTx_of_json d2"
  shows "unmarshalOptimismJSON d1 = unmarshalOptimismJSON d2"
proof (cases "txJSON.Type d1 = OPDepositTxType")
  case False
  then show ?thesis using assms(1) by (simp add: optimism_other_type)
next
  case t: True
  then have t2: "txJSON.Type d2 = OPDepositTxType" using assms(1) by simp
  have r: "deposit_required_present d1 = deposit_required_present d2"
    using assms by (simp add: deposit_required_present_def)
  show ?thesis
  proof (cases "deposit_required_present d1")
    case False
    then show ?thesis
      using optimism_missing [OF t assms(2)] optimism_missing [OF t2 assms(3)] r assms by simp
  next
    case True
    then show ?thesis
      using optimism_present [OF t assms(2)] optimism_present [OF t2 assms(3)] r assms
      by (simp split: option.split)
  qed
qed

lemma zero_accepted:
  assumes "deposit_prechecks_pass (dec\<lparr>txJSON.GasPrice := None, txJSON.V := None, txJSON.R := None, txJSON.S := None\<rparr>)"
  shows "unmarshalOptimismJSON (dec\<lparr>txJSON.GasPrice := Some 0, txJSON.V := Some 0, txJSON.R := Some 0, txJSON.S := Some 0\<rparr>) =
         unmarshalOptimismJSON (dec\<lparr>txJSON.GasPrice := None, txJSON.V := None, txJSON.R := None, txJSON.S := None\<rparr>)"
  apply (rule optimism_cong)
  using assms
  by (simp_all add: deposit_prechecks_pass_def deposit_forbidden_def zero_or_unset_def DepositTx_of_json_def)

lemma optimism_cong_checks:
  assumes ty: "txJSON.Type d1 = txJSON.Type d2"
    and fb: "deposit_forbidden d1 = deposit_forbidden d2"
    and gp: "zero_or_unset (txJSON.GasPrice d1) = zero_or_unset (txJSON.GasPrice d2)"
    and sv: "zero_or_unset (txJSON.V d1) = zero_or_unset (txJSON.V d2)"
    and sr: "zero_or_unset (txJSON.R d1) = zero_or_unset (txJSON.R d2)"
    and ss: "zero_or_unset (txJSON.S d1) = zero_or_unset (txJSON.S d2)"
    and rest: "txJSON.Gas d1 = txJSON.Gas d2" "txJSON.Value d1 = txJSON.Value d2"
      "txJSON.Input d1 = txJSON.Input d2" "txJSON.From d1 = txJSON.From d2"
      "txJSON.SourceHash d1 = txJSON.SourceHash d2" "txJSON.Nonce d1 = txJSON.Nonce d2"
      "DepositTx_of_json d1 = DepositTx_of_json d2"
  shows "unmarshalOptimismJSON d1 = unmarshalOptimismJSON d2"
proof (cases "txJSON.Type d1 = OPDepositTxType")
  case False
  then show ?thesis using ty by (simp add: optimism_other_type)
next
  case t: True
  then have t2: "txJSON.Type d2 = OPDepositTxType" using ty by simp
  show ?thesis
  proof (cases "deposit_forbidden d1")
    case True
    then show ?thesis using fb by (simp add: optimism_forbidden_field [OF t] optimism_forbidden_field [OF t2])
  next
    case f: False
    then have f2: "\<not> deposit_forbidden d2" using fb by simp
    show ?thesis
    proof (cases "zero_or_unset (txJSON.GasPrice d1)")
      case False
      then show ?thesis using gp by (simp add: optimism_gas_price_nonzero [OF t f] optimism_gas_price_nonzero [OF t2 f2])
    next
      case g: True
      then have g2: "zero_or_unset (txJSON.GasPrice d2)" using gp by simp
      show ?thesis
      proof (cases "zero_or_unset (txJSON.V d1) \<and> zero_or_unset (txJSON.R d1) \<and>
          zero_or_unset (txJSON.S d1)")
        case False
        then show ?thesis
          using sv sr ss by (simp add: optimism_signature_nonzero [OF t f g] optimism_signature_nonzero [OF t2 f2 g2])
      next
        case True
        then have p: "deposit_prechecks_pass d1" "deposit_prechecks_pass d2"
          using f f2 g g2 sv sr ss by (simp_all add: deposit_prechecks_pass_def)
        show ?thesis by (rule optimism_cong [OF ty p rest])
      qed
    qed
  qed
qed

lemma optimism_precheck_fails_isl:
  "\<not> deposit_prechecks_pass dec \<Longrightarrow> isl (unmarshalOptimismJSON dec)"
  using optimism_precheck_fails [of dec] optimism_other_type [of dec]
  by (cases "txJSON.Type dec = OPDepositTxType") simp_all

text \<open>
  C7. Decoding a deposit object fails if an access list, max-fee or max-priority-fee field
  is present; fails if the gas price is present and not zero; fails if one of \<open>v\<close>, \<open>r\<close>,
  \<open>s\<close> is present and not zero. A gas price or signature component that is present and
  zero is accepted: the decoder returns what it returns with that field absent.
\<close>

theorem C7_deposit_forbidden_fields:
  "(txJSON.AccessList dec \<noteq> None \<or> txJSON.MaxFeePerGas dec \<noteq> None \<or>
    txJSON.MaxPriorityFeePerGas dec \<noteq> None \<longrightarrow> isl (unmarshalOptimismJSON dec)) \<and>
   (txJSON.GasPrice dec = Some g \<and> g \<noteq> 0 \<longrightarrow> isl (unmarshalOptimismJSON dec)) \<and>
   ((txJSON.V dec = Some v \<or> txJSON.R dec = Some v \<or> txJSON.S dec = Some v) \<and> v \<noteq> 0 \<longrightarrow>
      isl (unmarshalOptimismJSON dec)) \<and>
   unmarshalOptimismJSON (dec\<lparr>txJSON.GasPrice := Some 0\<rparr>) =
     unmarshalOptimismJSON (dec\<lparr>txJSON.GasPrice := None\<rparr>) \<and>
   unmarshalOptimismJSON (dec\<lparr>txJSON.V := Some 0\<rparr>) =
     unmarshalOptimismJSON (dec\<lparr>txJSON.V := None\<rparr>) \<and>
   unmarshalOptimismJSON (dec\<lparr>txJSON.R := Some 0\<rparr>) =
     unmarshalOptimismJSON (dec\<lparr>txJSON.R := None\<rparr>) \<and>
   unmarshalOptimismJSON (dec\<lparr>txJSON.S := Some 0\<rparr>) =
     unmarshalOptimismJSON (dec\<lparr>txJSON.S := None\<rparr>)"
proof -
  have a: "txJSON.AccessList dec \<noteq> None \<or> txJSON.MaxFeePerGas dec \<noteq> None \<or>
      txJSON.MaxPriorityFeePerGas dec \<noteq> None \<Longrightarrow> isl (unmarshalOptimismJSON dec)"
    by (rule optimism_precheck_fails_isl)
      (simp add: deposit_prechecks_pass_def deposit_forbidden_def)
  have b: "txJSON.GasPrice dec = Some g \<and> g \<noteq> 0 \<Longrightarrow> isl (unmarshalOptimismJSON dec)"
    by (rule optimism_precheck_fails_isl) (simp add: deposit_prechecks_pass_def zero_or_unset_def)
  have c: "(txJSON.V dec = Some v \<or> txJSON.R dec = Some v \<or> txJSON.S dec = Some v) \<and> v \<noteq> 0 \<Longrightarrow>
      isl (unmarshalOptimismJSON dec)"
    by (rule optimism_precheck_fails_isl)
      (auto simp add: deposit_prechecks_pass_def zero_or_unset_def)
  have d: "unmarshalOptimismJSON (dec\<lparr>txJSON.GasPrice := Some 0\<rparr>) =
      unmarshalOptimismJSON (dec\<lparr>txJSON.GasPrice := None\<rparr>)"
    by (rule optimism_cong_checks)
      (simp_all add: deposit_forbidden_def zero_or_unset_def DepositTx_of_json_def)
  have e: "unmarshalOptimismJSON (dec\<lparr>txJSON.V := Some 0\<rparr>) =
      unmarshalOptimismJSON (dec\<lparr>txJSON.V := None\<rparr>)"
    by (rule optimism_cong_checks)
      (simp_all add: deposit_forbidden_def zero_or_unset_def DepositTx_of_json_def)
  have f: "unmarshalOptimismJSON (dec\<lparr>txJSON.R := Some 0\<rparr>) =
      unmarshalOptimismJSON (dec\<lparr>txJSON.R := None\<rparr>)"
    by (rule optimism_cong_checks)
      (simp_all add: deposit_forbidden_def zero_or_unset_def DepositTx_of_json_def)
  have g: "unmarshalOptimismJSON (dec\<lparr>txJSON.S := Some 0\<rparr>) =
      unmarshalOptimismJSON (dec\<lparr>txJSON.S := None\<rparr>)"
    by (rule optimism_cong_checks)
      (simp_all add: deposit_forbidden_def zero_or_unset_def DepositTx_of_json_def)
  show ?thesis using a b c d e f g by blast
qed

lemma deposit_json_update_decodes:
  "unmarshalOptimismJSON (deposit_json\<lparr>txJSON.GasPrice := None\<rparr>) = Inr (Inner_DepositTx deposit_itx)"
  by (simp add: optimism_success_iff deposit_json_def txJSON_empty_def deposit_prechecks_pass_def
      deposit_forbidden_def zero_or_unset_def deposit_required_present_def DepositTx_of_json_def
      deposit_itx_def)

theorem C7_deposit_forbidden_fields_witness:
  "isl (unmarshalOptimismJSON (deposit_json\<lparr>txJSON.AccessList := Some []\<rparr>)) \<and>
   isl (unmarshalOptimismJSON (deposit_json\<lparr>txJSON.GasPrice := Some 5\<rparr>)) \<and>
   isl (unmarshalOptimismJSON (deposit_json\<lparr>txJSON.R := Some 1\<rparr>)) \<and>
   unmarshalOptimismJSON (deposit_json\<lparr>txJSON.GasPrice := Some 0\<rparr>) =
     Inr (Inner_DepositTx deposit_itx)"
  using C7_deposit_forbidden_fields [of "deposit_json\<lparr>txJSON.AccessList := Some []\<rparr>" 0 0]
    C7_deposit_forbidden_fields [of "deposit_json\<lparr>txJSON.GasPrice := Some 5\<rparr>" 5 0]
    C7_deposit_forbidden_fields [of "deposit_json\<lparr>txJSON.R := Some 1\<rparr>" 0 1]
    C7_deposit_forbidden_fields [of deposit_json 0 0]
  by (simp add: deposit_json_update_decodes)

section \<open>The Arbitrum decoder: deposit and legacy cases\<close>

lemma arbitrum_deposit_dispatch:
  "txJSON.Type dec = ArbitrumDepositTxType \<Longrightarrow>
   unmarshalArbitrumJSON sanity dec = unmarshal_ArbitrumDepositTxType dec"
  by (simp add: unmarshalArbitrumJSON_def ArbitrumDepositTxType_def ArbitrumLegacyTxType_def
      ArbitrumInternalTxType_def)

lemma arbitrum_deposit_present:
  "arbitrum_deposit_required_present dec \<Longrightarrow>
   unmarshal_ArbitrumDepositTxType dec = Inr (Inner_ArbitrumDepositTx (ArbitrumDepositTx_of_json dec))"
  by (simp add: unmarshal_ArbitrumDepositTxType_def arbitrum_deposit_required_present_def
      ArbitrumDepositTx_of_json_def)

lemma arbitrum_deposit_missing:
  "\<not> arbitrum_deposit_required_present dec \<Longrightarrow>
   unmarshal_ArbitrumDepositTxType dec = Inl (
     if txJSON.ChainID dec = None then missing_required_field ''chainId'' ''in transaction''
     else if txJSON.RequestId dec = None then missing_required_field ''requestId'' ''in transaction''
     else if txJSON.To dec = None then missing_required_field ''to'' ''in transaction''
     else if txJSON.From dec = None then missing_required_field ''from'' ''in transaction''
     else missing_required_field ''value'' ''in transaction'')"
  by (auto simp add: unmarshal_ArbitrumDepositTxType_def arbitrum_deposit_required_present_def
      missing_required_field_def)

lemma is_missing_field_missing [simp]: "is_missing_field (missing_required_field name place)"
  by (simp add: missing_required_field_def)

lemma legacy_dispatch:
  "txJSON.Type dec = ArbitrumLegacyTxType \<Longrightarrow>
   unmarshalArbitrumJSON sanity dec = unmarshal_ArbitrumLegacyTxType sanity dec"
  by (simp add: unmarshalArbitrumJSON_def)

lemma legacy_missing_nonce: "txJSON.Nonce dec = None \<Longrightarrow>
  unmarshal_ArbitrumLegacyTxType sanity dec = Inl (missing_required_field ''nonce'' ''in transaction'')"
  by (simp add: unmarshal_ArbitrumLegacyTxType_def missing_required_field_def Let_def)

lemma legacy_missing_gasPrice: "txJSON.Nonce dec = Some n \<Longrightarrow> txJSON.GasPrice dec = None \<Longrightarrow>
  unmarshal_ArbitrumLegacyTxType sanity dec = Inl (missing_required_field ''gasPrice'' ''in transaction'')"
  by (simp add: unmarshal_ArbitrumLegacyTxType_def missing_required_field_def Let_def)

lemma legacy_missing_gas: "txJSON.Nonce dec = Some n \<Longrightarrow> txJSON.GasPrice dec = Some gp \<Longrightarrow> txJSON.Gas dec = None \<Longrightarrow>
  unmarshal_ArbitrumLegacyTxType sanity dec = Inl (missing_required_field ''gas'' ''in transaction'')"
  by (simp add: unmarshal_ArbitrumLegacyTxType_def missing_required_field_def Let_def)

lemma legacy_missing_value: "txJSON.Nonce dec = Some n \<Longrightarrow> txJSON.GasPrice dec = Some gp \<Longrightarrow> txJSON.Gas dec = Some g \<Longrightarrow>
  txJSON.Value dec = None \<Longrightarrow>
  unmarshal_ArbitrumLegacyTxType sanity dec = Inl (missing_required_field ''value'' ''in transaction'')"
  by (simp add: unmarshal_ArbitrumLegacyTxType_def missing_required_field_def Let_def)

lemma legacy_missing_input: "txJSON.Nonce dec = Some n \<Longrightarrow> txJSON.GasPrice dec = Some gp \<Longrightarrow> txJSON.Gas dec = Some g \<Longrightarrow>
  txJSON.Value dec = Some v \<Longrightarrow> txJSON.Input dec = None \<Longrightarrow>
  unmarshal_ArbitrumLegacyTxType sanity dec = Inl (missing_required_field ''input'' ''in transaction'')"
  by (simp add: unmarshal_ArbitrumLegacyTxType_def missing_required_field_def Let_def)

lemma legacy_missing_v: "txJSON.Nonce dec = Some n \<Longrightarrow> txJSON.GasPrice dec = Some gp \<Longrightarrow> txJSON.Gas dec = Some g \<Longrightarrow>
  txJSON.Value dec = Some v \<Longrightarrow> txJSON.Input dec = Some i \<Longrightarrow> txJSON.V dec = None \<Longrightarrow>
  unmarshal_ArbitrumLegacyTxType sanity dec = Inl (missing_required_field ''v'' ''in transaction'')"
  by (simp add: unmarshal_ArbitrumLegacyTxType_def missing_required_field_def Let_def)

lemma legacy_missing_r: "txJSON.Nonce dec = Some n \<Longrightarrow> txJSON.GasPrice dec = Some gp \<Longrightarrow> txJSON.Gas dec = Some g \<Longrightarrow>
  txJSON.Value dec = Some v \<Longrightarrow> txJSON.Input dec = Some i \<Longrightarrow> txJSON.V dec = Some sv \<Longrightarrow>
  txJSON.R dec = None \<Longrightarrow>
  unmarshal_ArbitrumLegacyTxType sanity dec = Inl (missing_required_field ''r'' ''in transaction'')"
  by (simp add: unmarshal_ArbitrumLegacyTxType_def missing_required_field_def Let_def)

lemma legacy_missing_s: "txJSON.Nonce dec = Some n \<Longrightarrow> txJSON.GasPrice dec = Some gp \<Longrightarrow> txJSON.Gas dec = Some g \<Longrightarrow>
  txJSON.Value dec = Some v \<Longrightarrow> txJSON.Input dec = Some i \<Longrightarrow> txJSON.V dec = Some sv \<Longrightarrow>
  txJSON.R dec = Some sr \<Longrightarrow> txJSON.S dec = None \<Longrightarrow>
  unmarshal_ArbitrumLegacyTxType sanity dec = Inl (missing_required_field ''s'' ''in transaction'')"
  by (simp add: unmarshal_ArbitrumLegacyTxType_def missing_required_field_def Let_def)

lemma legacy_after_signed:
  assumes "txJSON.Nonce dec = Some n" "txJSON.GasPrice dec = Some gp" "txJSON.Gas dec = Some g"
    "txJSON.Value dec = Some v" "txJSON.Input dec = Some i" "txJSON.V dec = Some sv"
    "txJSON.R dec = Some sr" "txJSON.S dec = Some ss"
  shows "unmarshal_ArbitrumLegacyTxType sanity dec =
    (case legacy_signature_error sanity dec of Some e \<Rightarrow> Inl e
     | None \<Rightarrow>
        if txJSON.EffectiveGasPrice dec = None
        then Inl (missing_required_field ''EffectiveGasPrice'' ''in transaction'')
        else if txJSON.L1BlockNumber dec = None
        then Inl (missing_required_field ''L1BlockNumber'' ''in transaction'')
        else Inr (Inner_ArbitrumLegacyTxData (ArbitrumLegacyTxData_of_json dec)))"
  using assms
  by (cases "txJSON.To dec"; cases "sanity sv sr ss True")
     (simp_all add: unmarshal_ArbitrumLegacyTxType_def legacy_signature_error_def
      missing_required_field_def Let_def LegacyTx_zero_def ArbitrumLegacyTxData_of_json_def)

lemma legacy_missing_signed:
  assumes "\<not> legacy_signed_fields_present dec"
  shows "unmarshal_ArbitrumLegacyTxType sanity dec = Inl (
     if txJSON.Nonce dec = None then missing_required_field ''nonce'' ''in transaction''
     else if txJSON.GasPrice dec = None then missing_required_field ''gasPrice'' ''in transaction''
     else if txJSON.Gas dec = None then missing_required_field ''gas'' ''in transaction''
     else if txJSON.Value dec = None then missing_required_field ''value'' ''in transaction''
     else if txJSON.Input dec = None then missing_required_field ''input'' ''in transaction''
     else if txJSON.V dec = None then missing_required_field ''v'' ''in transaction''
     else if txJSON.R dec = None then missing_required_field ''r'' ''in transaction''
     else missing_required_field ''s'' ''in transaction'')"
  using assms
  by (auto simp: legacy_signed_fields_present_def legacy_missing_nonce legacy_missing_gasPrice legacy_missing_gas legacy_missing_value legacy_missing_input
      legacy_missing_v legacy_missing_r legacy_missing_s)

lemma legacy_signed_present:
  assumes "legacy_signed_fields_present dec"
  shows "unmarshal_ArbitrumLegacyTxType sanity dec =
    (case legacy_signature_error sanity dec of Some e \<Rightarrow> Inl e
     | None \<Rightarrow>
        if txJSON.EffectiveGasPrice dec = None
        then Inl (missing_required_field ''EffectiveGasPrice'' ''in transaction'')
        else if txJSON.L1BlockNumber dec = None
        then Inl (missing_required_field ''L1BlockNumber'' ''in transaction'')
        else Inr (Inner_ArbitrumLegacyTxData (ArbitrumLegacyTxData_of_json dec)))"
proof -
  obtain n gp g v i sv sr ss where "txJSON.Nonce dec = Some n" "txJSON.GasPrice dec = Some gp"
    "txJSON.Gas dec = Some g" "txJSON.Value dec = Some v" "txJSON.Input dec = Some i"
    "txJSON.V dec = Some sv" "txJSON.R dec = Some sr" "txJSON.S dec = Some ss"
    using assms unfolding legacy_signed_fields_present_def by blast
  then show ?thesis by (rule legacy_after_signed)
qed

text \<open>
  C8 (amended). Decoding a legacy-with-override object succeeds exactly when nonce, gas
  price, gas limit, value, payload, \<open>v\<close>, \<open>r\<close>, \<open>s\<close>, the effective gas price paid and the
  source block number are all present and the triple \<open>(v, r, s)\<close> is all zero or passes the
  external sanity check; the sender override is optional and is carried over as it is.
  When one of nonce, gas price, gas limit, value, payload, \<open>v\<close>, \<open>r\<close>, \<open>s\<close> is absent the
  decode fails with a missing-field error. When these eight are present and the non-zero
  triple fails the sanity check, the decode fails with the error of that check, whether
  the two metadata fields are present or not. When the eight are present, the triple is
  acceptable and a metadata field is absent, the decode fails with a missing-field error.
\<close>

theorem C8_legacy_required_fields:
  assumes "txJSON.Type dec = ArbitrumLegacyTxType"
  shows "(unmarshalArbitrumJSON sanity dec = Inr inner \<longleftrightarrow>
            legacy_signed_fields_present dec \<and> legacy_signature_error sanity dec = None \<and>
            legacy_metadata_present dec \<and>
            inner = Inner_ArbitrumLegacyTxData (ArbitrumLegacyTxData_of_json dec)) \<and>
     (\<not> legacy_signed_fields_present dec \<longrightarrow>
        isl (unmarshalArbitrumJSON sanity dec) \<and>
        is_missing_field (projl (unmarshalArbitrumJSON sanity dec))) \<and>
     (legacy_signed_fields_present dec \<and> legacy_signature_error sanity dec = Some e \<longrightarrow>
        unmarshalArbitrumJSON sanity dec = Inl e) \<and>
     (legacy_signed_fields_present dec \<and> legacy_signature_error sanity dec = None \<and>
      \<not> legacy_metadata_present dec \<longrightarrow>
        isl (unmarshalArbitrumJSON sanity dec) \<and>
        is_missing_field (projl (unmarshalArbitrumJSON sanity dec))) \<and>
     ArbitrumLegacyTxData.Sender (ArbitrumLegacyTxData_of_json dec) = txJSON.From dec"
proof -
  note d = legacy_dispatch [OF assms, of sanity]
  have a: "\<not> legacy_signed_fields_present dec \<Longrightarrow>
        isl (unmarshalArbitrumJSON sanity dec) \<and>
        is_missing_field (projl (unmarshalArbitrumJSON sanity dec))"
    unfolding d by (simp add: legacy_missing_signed)
  have b: "legacy_signed_fields_present dec \<Longrightarrow> legacy_signature_error sanity dec = Some e \<Longrightarrow>
        unmarshalArbitrumJSON sanity dec = Inl e" for e
    unfolding d by (simp add: legacy_signed_present)
  have c: "legacy_signed_fields_present dec \<Longrightarrow> legacy_signature_error sanity dec = None \<Longrightarrow>
      \<not> legacy_metadata_present dec \<Longrightarrow>
        isl (unmarshalArbitrumJSON sanity dec) \<and>
        is_missing_field (projl (unmarshalArbitrumJSON sanity dec))"
    unfolding d by (auto simp add: legacy_signed_present legacy_metadata_present_def)
  have e: "legacy_signed_fields_present dec \<Longrightarrow> legacy_signature_error sanity dec = None \<Longrightarrow>
      legacy_metadata_present dec \<Longrightarrow>
        unmarshalArbitrumJSON sanity dec = Inr (Inner_ArbitrumLegacyTxData (ArbitrumLegacyTxData_of_json dec))"
    unfolding d by (auto simp add: legacy_signed_present legacy_metadata_present_def)
  have f: "unmarshalArbitrumJSON sanity dec = Inr inner \<longleftrightarrow>
            legacy_signed_fields_present dec \<and> legacy_signature_error sanity dec = None \<and>
            legacy_metadata_present dec \<and>
            inner = Inner_ArbitrumLegacyTxData (ArbitrumLegacyTxData_of_json dec)"
  proof (cases "legacy_signed_fields_present dec")
    case False
    then show ?thesis using a by auto
  next
    case s: True
    show ?thesis
    proof (cases "legacy_signature_error sanity dec")
      case (Some x)
      then show ?thesis using b [OF s Some] by simp
    next
      case n: None
      show ?thesis
      proof (cases "legacy_metadata_present dec")
        case False
        then show ?thesis using c [OF s n] by auto
      next
        case True
        then show ?thesis using e [OF s n] s n by auto
      qed
    qed
  qed
  have g: "ArbitrumLegacyTxData.Sender (ArbitrumLegacyTxData_of_json dec) = txJSON.From dec"
    by (simp add: ArbitrumLegacyTxData_of_json_def)
  show ?thesis using a b c f g by blast
qed

text \<open>
  C6 (amended). For the Optimism deposit (\<^verbatim>\<open>DepositTx\<close>): decoding succeeds only if gas,
  value, payload, sender and source hash are all present; when the checks of C7 pass and
  one of the five is absent, it fails with the missing-field error of the first absent
  one in that order; when the checks pass and the five are present, it succeeds, the
  destination of the result is the \<open>to\<close> field as it is (nil when absent: contract
  creation), and the system-transaction flag is false when \<open>isSystemTx\<close> is absent.
  For the Arbitrum deposit (\<^verbatim>\<open>ArbitrumDepositTx\<close>): the required fields are chain id, request
  id, destination, sender and value; decoding succeeds when the five are present, gas and
  payload being never read, and fails with the missing-field error of the first absent one
  otherwise.
\<close>

theorem C6_deposit_required_fields:
  "(txJSON.Type dec = OPDepositTxType \<longrightarrow>
      (unmarshalOptimismJSON dec = Inr inner \<longrightarrow> deposit_required_present dec) \<and>
      (deposit_prechecks_pass dec \<and> \<not> deposit_required_present dec \<longrightarrow>
         unmarshalOptimismJSON dec = Inl (
           if txJSON.Gas dec = None then missing_required_field ''gas'' ''for txdata''
           else if txJSON.Value dec = None then missing_required_field ''value'' ''in transaction''
           else if txJSON.Input dec = None then missing_required_field ''input'' ''in transaction''
           else if txJSON.From dec = None then missing_required_field ''from'' ''in transaction''
           else missing_required_field ''sourceHash'' ''in transaction'')) \<and>
      (deposit_prechecks_pass dec \<and> deposit_required_present dec \<longrightarrow>
         unmarshalOptimismJSON dec = Inr (case txJSON.Nonce dec of
             None \<Rightarrow> Inner_DepositTx (DepositTx_of_json dec)
           | Some n \<Rightarrow> Inner_depositTxWithNonce
               \<lparr>depositTxWithNonce.DepositTx = DepositTx_of_json dec, EffectiveNonce = n\<rparr>) \<and>
         DepositTx_to (DepositTx_of_json dec) = txJSON.To dec \<and>
         (txJSON.IsSystemTx dec = None \<longrightarrow>
            \<not> DepositTx.IsSystemTransaction (DepositTx_of_json dec)))) \<and>
   (txJSON.Type dec = ArbitrumDepositTxType \<longrightarrow>
      (arbitrum_deposit_required_present dec \<longrightarrow>
         unmarshalArbitrumJSON sanity dec =
           Inr (Inner_ArbitrumDepositTx (ArbitrumDepositTx_of_json dec))) \<and>
      (\<not> arbitrum_deposit_required_present dec \<longrightarrow>
         unmarshalArbitrumJSON sanity dec = Inl (
           if txJSON.ChainID dec = None then missing_required_field ''chainId'' ''in transaction''
           else if txJSON.RequestId dec = None
             then missing_required_field ''requestId'' ''in transaction''
           else if txJSON.To dec = None then missing_required_field ''to'' ''in transaction''
           else if txJSON.From dec = None then missing_required_field ''from'' ''in transaction''
           else missing_required_field ''value'' ''in transaction'')))"
proof -
  have a: "unmarshalOptimismJSON dec = Inr inner \<Longrightarrow> deposit_required_present dec"
    by (simp add: optimism_success_iff)
  have b: "DepositTx_to (DepositTx_of_json dec) = txJSON.To dec"
    by (simp add: DepositTx_to_def DepositTx_of_json_def)
  have c: "txJSON.IsSystemTx dec = None \<Longrightarrow>
      \<not> DepositTx.IsSystemTransaction (DepositTx_of_json dec)"
    by (simp add: DepositTx_of_json_def)
  show ?thesis
    using a b c optimism_missing [of dec] optimism_present [of dec]
      arbitrum_deposit_dispatch [of dec sanity] arbitrum_deposit_present [of dec]
      arbitrum_deposit_missing [of dec]
    by presburger
qed

lemma arbitrum_deposit_json_present:
  "txJSON.Type arbitrum_deposit_json = ArbitrumDepositTxType"
  "arbitrum_deposit_required_present arbitrum_deposit_json"
  "ArbitrumDepositTx_of_json arbitrum_deposit_json =
     \<lparr>ArbitrumDepositTx.ChainId = Some 42161, L1RequestId = 9, From = 7, To = 0x42,
      Value = Some 5\<rparr>"
  "txJSON.Gas arbitrum_deposit_json = None"
  "txJSON.Input arbitrum_deposit_json = None"
  by (simp_all add: arbitrum_deposit_json_def txJSON_empty_def
      arbitrum_deposit_required_present_def ArbitrumDepositTx_of_json_def)

theorem C6_deposit_required_fields_witness:
  "unmarshalOptimismJSON deposit_json = Inr (Inner_DepositTx deposit_itx) \<and>
   DepositTx_to deposit_itx = Some 0x42 \<and>
   \<not> DepositTx.IsSystemTransaction deposit_itx \<and>
   unmarshalOptimismJSON (deposit_json\<lparr>txJSON.To := None\<rparr>) =
     Inr (Inner_DepositTx (deposit_itx\<lparr>DepositTx.To := None\<rparr>)) \<and>
   unmarshalOptimismJSON (deposit_json\<lparr>txJSON.Input := None\<rparr>) =
     Inl (missing_required_field ''input'' ''in transaction'') \<and>
   unmarshalArbitrumJSON sanity_r_s_positive arbitrum_deposit_json =
     Inr (Inner_ArbitrumDepositTx
            \<lparr>ArbitrumDepositTx.ChainId = Some 42161, L1RequestId = 9, From = 7, To = 0x42,
             Value = Some 5\<rparr>) \<and>
   unmarshalArbitrumJSON sanity_r_s_positive (arbitrum_deposit_json\<lparr>txJSON.To := None\<rparr>) =
     Inl (missing_required_field ''to'' ''in transaction'')"
  using C6_deposit_required_fields [of deposit_json "Inner_DepositTx deposit_itx" sanity_r_s_positive]
    C6_deposit_required_fields [of "deposit_json\<lparr>txJSON.To := None\<rparr>" "Inner_DepositTx deposit_itx" sanity_r_s_positive]
    C6_deposit_required_fields [of "deposit_json\<lparr>txJSON.Input := None\<rparr>" "Inner_DepositTx deposit_itx" sanity_r_s_positive]
    C6_deposit_required_fields [of arbitrum_deposit_json "Inner_DepositTx deposit_itx" sanity_r_s_positive]
    C6_deposit_required_fields [of "arbitrum_deposit_json\<lparr>txJSON.To := None\<rparr>" "Inner_DepositTx deposit_itx" sanity_r_s_positive]
  by (simp add: deposit_json_def arbitrum_deposit_json_def txJSON_empty_def
      deposit_prechecks_pass_def deposit_forbidden_def zero_or_unset_def
      deposit_required_present_def DepositTx_of_json_def deposit_itx_def
      arbitrum_deposit_required_present_def ArbitrumDepositTx_of_json_def DepositTx_to_def
      OPDepositTxType_def ArbitrumDepositTxType_def)

text \<open>
  C6 as stated makes gas and payload required for every deposit-like variant. An Arbitrum
  deposit object with neither decodes successfully.
\<close>

theorem C6_arbitrum_deposit_counterexample:
  "txJSON.Gas arbitrum_deposit_json = None \<and>
   txJSON.Input arbitrum_deposit_json = None \<and>
   unmarshalArbitrumJSON sanity_r_s_positive arbitrum_deposit_json =
     Inr (Inner_ArbitrumDepositTx
            \<lparr>ArbitrumDepositTx.ChainId = Some 42161, L1RequestId = 9, From = 7, To = 0x42,
             Value = Some 5\<rparr>)"
  by (simp add: arbitrum_deposit_dispatch arbitrum_deposit_present arbitrum_deposit_json_present)

lemma legacy_json_facts:
  "txJSON.Type (legacy_json v r s) = ArbitrumLegacyTxType"
  "legacy_signed_fields_present (legacy_json v r s)"
  "txJSON.EffectiveGasPrice (legacy_json v r s) = None"
  "\<not> legacy_metadata_present (legacy_json v r s)"
  "legacy_signature_error sanity (legacy_json v r s) =
     (if v \<noteq> 0 \<or> r \<noteq> 0 \<or> s \<noteq> 0 then sanity v r s True else None)"
  by (simp_all add: legacy_json_def txJSON_empty_def legacy_signed_fields_present_def
      legacy_metadata_present_def legacy_signature_error_def)

lemma legacy_json_complete_facts:
  "txJSON.Type ((legacy_json v r s)\<lparr>txJSON.EffectiveGasPrice := Some p\<rparr>) = ArbitrumLegacyTxType"
  "legacy_signed_fields_present ((legacy_json v r s)\<lparr>txJSON.EffectiveGasPrice := Some p\<rparr>)"
  "legacy_metadata_present ((legacy_json v r s)\<lparr>txJSON.EffectiveGasPrice := Some p\<rparr>)"
  "legacy_signature_error sanity ((legacy_json v r s)\<lparr>txJSON.EffectiveGasPrice := Some p\<rparr>) =
     (if v \<noteq> 0 \<or> r \<noteq> 0 \<or> s \<noteq> 0 then sanity v r s True else None)"
  "ArbitrumLegacyTxData_of_json ((legacy_json v r s)\<lparr>txJSON.EffectiveGasPrice := Some p\<rparr>) =
     \<lparr>ArbitrumLegacyTxData.LegacyTx =
        \<lparr>LegacyTx.Nonce = 3, GasPrice = Some 1, Gas = 21000, To = None, Value = Some 5,
         Data = [], V = Some v, R = Some r, S = Some s\<rparr>,
      HashOverride = 0, EffectiveGasPrice = p, L1BlockNumber = 100, Sender = None\<rparr>"
  by (simp_all add: legacy_json_def txJSON_empty_def legacy_signed_fields_present_def
      legacy_metadata_present_def legacy_signature_error_def ArbitrumLegacyTxData_of_json_def)

theorem C8_legacy_required_fields_witness:
  "unmarshalArbitrumJSON sanity_r_s_positive ((legacy_json 0 0 0)\<lparr>txJSON.EffectiveGasPrice := Some 2\<rparr>) =
     Inr (Inner_ArbitrumLegacyTxData
       \<lparr>ArbitrumLegacyTxData.LegacyTx =
          \<lparr>LegacyTx.Nonce = 3, GasPrice = Some 1, Gas = 21000, To = None, Value = Some 5,
           Data = [], V = Some 0, R = Some 0, S = Some 0\<rparr>,
        HashOverride = 0, EffectiveGasPrice = 2, L1BlockNumber = 100, Sender = None\<rparr>) \<and>
   unmarshalArbitrumJSON sanity_r_s_positive ((legacy_json 27 5 6)\<lparr>txJSON.EffectiveGasPrice := Some 2\<rparr>) =
     Inr (Inner_ArbitrumLegacyTxData
       \<lparr>ArbitrumLegacyTxData.LegacyTx =
          \<lparr>LegacyTx.Nonce = 3, GasPrice = Some 1, Gas = 21000, To = None, Value = Some 5,
           Data = [], V = Some 27, R = Some 5, S = Some 6\<rparr>,
        HashOverride = 0, EffectiveGasPrice = 2, L1BlockNumber = 100, Sender = None\<rparr>) \<and>
   unmarshalArbitrumJSON sanity_r_s_positive ((legacy_json 27 0 6)\<lparr>txJSON.EffectiveGasPrice := Some 2\<rparr>) =
     Inl (errors_New ''invalid transaction v, r, s values'') \<and>
   is_missing_field (projl (unmarshalArbitrumJSON sanity_r_s_positive (legacy_json 0 0 0))) \<and>
   is_missing_field (projl (unmarshalArbitrumJSON sanity_r_s_positive
      ((legacy_json 0 0 0)\<lparr>txJSON.EffectiveGasPrice := Some 2, txJSON.Nonce := None\<rparr>)))"
  using
    C8_legacy_required_fields [of "(legacy_json 0 0 0)\<lparr>txJSON.EffectiveGasPrice := Some 2\<rparr>" sanity_r_s_positive
      "Inner_ArbitrumLegacyTxData (ArbitrumLegacyTxData_of_json
         ((legacy_json 0 0 0)\<lparr>txJSON.EffectiveGasPrice := Some 2\<rparr>))"]
    C8_legacy_required_fields [of "(legacy_json 27 5 6)\<lparr>txJSON.EffectiveGasPrice := Some 2\<rparr>" sanity_r_s_positive
      "Inner_ArbitrumLegacyTxData (ArbitrumLegacyTxData_of_json
         ((legacy_json 27 5 6)\<lparr>txJSON.EffectiveGasPrice := Some 2\<rparr>))"]
    C8_legacy_required_fields [of "(legacy_json 27 0 6)\<lparr>txJSON.EffectiveGasPrice := Some 2\<rparr>" sanity_r_s_positive
      _ "errors_New ''invalid transaction v, r, s values''"]
    C8_legacy_required_fields [of "legacy_json 0 0 0" sanity_r_s_positive]
    C8_legacy_required_fields [of "(legacy_json 0 0 0)\<lparr>txJSON.EffectiveGasPrice := Some 2, txJSON.Nonce := None\<rparr>"
      sanity_r_s_positive]
  by (simp add: legacy_json_facts legacy_json_complete_facts sanity_r_s_positive_def)
    (simp add: legacy_json_def txJSON_empty_def legacy_signed_fields_present_def)

text \<open>
  C8 as stated promises a missing-field error whenever one of the ten fields is absent.
  With \<open>EffectiveGasPrice\<close> absent and the triple \<open>(1, 0, 0)\<close>, which the signature check
  rejects, the decoder returns the signature error: the check runs before the two
  metadata fields are looked at.
\<close>

theorem C8_signature_error_first_counterexample:
  "txJSON.EffectiveGasPrice (legacy_json 1 0 0) = None \<and>
   unmarshalArbitrumJSON sanity_r_s_positive (legacy_json 1 0 0) =
     Inl (errors_New ''invalid transaction v, r, s values'') \<and>
   \<not> is_missing_field (errors_New ''invalid transaction v, r, s values'')"
  by (simp add: legacy_dispatch legacy_signed_present legacy_json_facts sanity_r_s_positive_def)

section \<open>\<^verbatim>\<open>copy\<close>: values, fresh storage, nil pointers\<close>

lemma Set_if_not_nil_zero_cell:
  "bs ! z = 0 \<Longrightarrow> z < length bs \<Longrightarrow>
   Set_if_not_nil z x \<lparr>bigs = bs, addrs = as, bufs = us\<rparr> =
     \<lparr>bigs = bs[z := cell_or_zero bs x], addrs = as, bufs = us\<rparr>"
  using list_update_id [of bs z]
  by (cases x) (simp_all add: Set_if_not_nil_def big_Set_at_def cell_or_zero_def)

lemma cell_or_zero_append:
  "ptr_ok (length xs) x \<Longrightarrow> cell_or_zero (xs @ ys) x = cell_or_zero xs x"
  by (cases x) (simp_all add: cell_or_zero_def ptr_ok_def nth_append)

lemma zero_if_nil_big_val:
  "zero_if_nil (map_option ((!) xs) p) = Some (cell_or_zero xs p)"
  by (cases p) (simp_all add: zero_if_nil_def cell_or_zero_def)

lemma new_big_literal:
  "new_big \<lparr>bigs = bs, addrs = as, bufs = us\<rparr> =
     (length bs, \<lparr>bigs = bs @ [0], addrs = as, bufs = us\<rparr>)"
  by (simp add: new_big_def)

lemma new_Address_literal:
  "new_Address v \<lparr>bigs = bs, addrs = as, bufs = us\<rparr> =
     (length as, \<lparr>bigs = bs, addrs = as @ [v], bufs = us\<rparr>)"
  by (simp add: new_Address_def)

lemma big_Set_at_literal:
  "big_Set_at z x \<lparr>bigs = bs, addrs = as, bufs = us\<rparr> =
     \<lparr>bigs = bs[z := bs ! x], addrs = as, bufs = us\<rparr>"
  by (simp add: big_Set_at_def)

lemma CopyBytes_literal:
  "CopyBytes None H = (None, H)"
  "CopyBytes (Some p) \<lparr>bigs = bs, addrs = as, bufs = us\<rparr> =
     (Some (length us), \<lparr>bigs = bs, addrs = as, bufs = us @ [us ! p]\<rparr>)"
  by (simp_all add: CopyBytes_def)

lemma copyAddressPtr_literal:
  "copyAddressPtr None H = (None, H)"
  "copyAddressPtr (Some p) \<lparr>bigs = bs, addrs = as, bufs = us\<rparr> =
     (Some (length as), \<lparr>bigs = bs, addrs = as @ [as ! p], bufs = us\<rparr>)"
  by (simp_all add: copyAddressPtr_def new_Address_def)

lemmas store_steps = new_big_literal new_Address_literal big_Set_at_literal CopyBytes_literal
  copyAddressPtr_literal Set_if_not_nil_zero_cell cell_or_zero_append nth_append
  list_update_append

lemmas store_reading = valid_def in_store_def fresh_def fresh_in_def grown_def big_val_def
  addr_val_def buf_val_def zero_if_nil_big_val ptr_ok_def ptr_fresh_def

lemma ArbitrumUnsignedTx_copy_correct:
  assumes "valid h (Inner_ArbitrumUnsignedTx tx)"
    and "ArbitrumUnsignedTx_copy tx h = (cpy, h')"
  shows "TxData_deref h' (Inner_ArbitrumUnsignedTx cpy) = initialised (TxData_deref h (Inner_ArbitrumUnsignedTx tx)) \<and>
         grown h h' \<and> valid h' (Inner_ArbitrumUnsignedTx cpy) \<and> fresh h (Inner_ArbitrumUnsignedTx cpy) \<and>
         (ArbitrumUnsignedTx.To cpy = None \<longleftrightarrow> ArbitrumUnsignedTx.To tx = None)"
proof -
  obtain bs as us where h: "h = \<lparr>bigs = bs, addrs = as, bufs = us\<rparr>"
    by (cases h) simp
  show ?thesis
    using assms unfolding h
    by (cases "ArbitrumUnsignedTx.To tx"; cases "ArbitrumUnsignedTx.Data tx")
      (auto simp add: ArbitrumUnsignedTx_copy_def ArbitrumUnsignedTx_deref_def store_steps store_reading)
qed

lemma ArbitrumContractTx_copy_correct:
  assumes "valid h (Inner_ArbitrumContractTx tx)"
    and "ArbitrumContractTx_copy tx h = (cpy, h')"
  shows "TxData_deref h' (Inner_ArbitrumContractTx cpy) = initialised (TxData_deref h (Inner_ArbitrumContractTx tx)) \<and>
         grown h h' \<and> valid h' (Inner_ArbitrumContractTx cpy) \<and> fresh h (Inner_ArbitrumContractTx cpy) \<and>
         (ArbitrumContractTx.To cpy = None \<longleftrightarrow> ArbitrumContractTx.To tx = None)"
proof -
  obtain bs as us where h: "h = \<lparr>bigs = bs, addrs = as, bufs = us\<rparr>"
    by (cases h) simp
  show ?thesis
    using assms unfolding h
    by (cases "ArbitrumContractTx.To tx"; cases "ArbitrumContractTx.Data tx")
      (auto simp add: ArbitrumContractTx_copy_def ArbitrumContractTx_deref_def store_steps store_reading)
qed

lemma ArbitrumRetryTx_copy_correct:
  assumes "valid h (Inner_ArbitrumRetryTx tx)"
    and "ArbitrumRetryTx_copy tx h = (cpy, h')"
  shows "TxData_deref h' (Inner_ArbitrumRetryTx cpy) = initialised (TxData_deref h (Inner_ArbitrumRetryTx tx)) \<and>
         grown h h' \<and> valid h' (Inner_ArbitrumRetryTx cpy) \<and> fresh h (Inner_ArbitrumRetryTx cpy) \<and>
         (ArbitrumRetryTx.To cpy = None \<longleftrightarrow> ArbitrumRetryTx.To tx = None)"
proof -
  obtain bs as us where h: "h = \<lparr>bigs = bs, addrs = as, bufs = us\<rparr>"
    by (cases h) simp
  show ?thesis
    using assms unfolding h
    by (cases "ArbitrumRetryTx.To tx"; cases "ArbitrumRetryTx.Data tx")
      (auto simp add: ArbitrumRetryTx_copy_def ArbitrumRetryTx_deref_def store_steps store_reading)
qed

lemma ArbitrumSubmitRetryableTx_copy_correct:
  assumes "valid h (Inner_ArbitrumSubmitRetryableTx tx)"
    and "ArbitrumSubmitRetryableTx_copy tx h = (cpy, h')"
  shows "TxData_deref h' (Inner_ArbitrumSubmitRetryableTx cpy) = initialised (TxData_deref h (Inner_ArbitrumSubmitRetryableTx tx)) \<and>
         grown h h' \<and> valid h' (Inner_ArbitrumSubmitRetryableTx cpy) \<and> fresh h (Inner_ArbitrumSubmitRetryableTx cpy) \<and>
         (ArbitrumSubmitRetryableTx.RetryTo cpy = None \<longleftrightarrow> ArbitrumSubmitRetryableTx.RetryTo tx = None)"
proof -
  obtain bs as us where h: "h = \<lparr>bigs = bs, addrs = as, bufs = us\<rparr>"
    by (cases h) simp
  show ?thesis
    using assms unfolding h
    by (cases "ArbitrumSubmitRetryableTx.RetryTo tx"; cases "ArbitrumSubmitRetryableTx.RetryData tx")
      (auto simp add: ArbitrumSubmitRetryableTx_copy_def ArbitrumSubmitRetryableTx_deref_def store_steps store_reading)
qed

lemma ArbitrumDepositTx_copy_correct:
  assumes "valid h (Inner_ArbitrumDepositTx tx)"
    and "ArbitrumDepositTx_copy tx h = (cpy, h')"
  shows "TxData_deref h' (Inner_ArbitrumDepositTx cpy) = initialised (TxData_deref h (Inner_ArbitrumDepositTx tx)) \<and>
         grown h h' \<and> valid h' (Inner_ArbitrumDepositTx cpy) \<and> fresh h (Inner_ArbitrumDepositTx cpy)"
proof -
  obtain bs as us where h: "h = \<lparr>bigs = bs, addrs = as, bufs = us\<rparr>"
    by (cases h) simp
  show ?thesis
    using assms unfolding h
    by (auto simp add: ArbitrumDepositTx_copy_def ArbitrumDepositTx_deref_def store_steps store_reading)
qed

lemma DepositTx_copy_correct:
  assumes "valid h (Inner_DepositTx tx)"
    and "DepositTx_copy tx h = (cpy, h')"
  shows "TxData_deref h' (Inner_DepositTx cpy) = initialised (TxData_deref h (Inner_DepositTx tx)) \<and>
         grown h h' \<and> valid h' (Inner_DepositTx cpy) \<and> fresh h (Inner_DepositTx cpy) \<and>
         (DepositTx.To cpy = None \<longleftrightarrow> DepositTx.To tx = None) \<and>
         (DepositTx.Mint cpy = None \<longleftrightarrow> DepositTx.Mint tx = None)"
proof -
  obtain bs as us where h: "h = \<lparr>bigs = bs, addrs = as, bufs = us\<rparr>"
    by (cases h) simp
  show ?thesis
    using assms unfolding h
    by (cases "DepositTx.To tx"; cases "DepositTx.Mint tx"; cases "DepositTx.Data tx")
      (auto simp add: DepositTx_copy_def DepositTx_deref_def DepositTx_initialised_def store_steps store_reading)
qed

lemma ArbitrumLegacyTxData_copy_correct:
  assumes "valid h (Inner_ArbitrumLegacyTxData tx)"
    and "ArbitrumLegacyTxData_copy tx h = (cpy, h')"
  shows "TxData_deref h' (Inner_ArbitrumLegacyTxData cpy) =
           initialised (TxData_deref h (Inner_ArbitrumLegacyTxData tx)) \<and>
         grown h h' \<and> valid h' (Inner_ArbitrumLegacyTxData cpy) \<and>
         fresh h (Inner_ArbitrumLegacyTxData cpy) \<and>
         (LegacyTx.To (ArbitrumLegacyTxData.LegacyTx cpy) = None \<longleftrightarrow>
            LegacyTx.To (ArbitrumLegacyTxData.LegacyTx tx) = None) \<and>
         (ArbitrumLegacyTxData.Sender cpy = None \<longleftrightarrow> ArbitrumLegacyTxData.Sender tx = None)"
proof -
  obtain bs as us where h: "h = \<lparr>bigs = bs, addrs = as, bufs = us\<rparr>"
    by (cases h) simp
  show ?thesis
    using assms unfolding h
    by (cases "LegacyTx.To (ArbitrumLegacyTxData.LegacyTx tx)";
        cases "LegacyTx.Data (ArbitrumLegacyTxData.LegacyTx tx)";
        cases "ArbitrumLegacyTxData.Sender tx")
      (auto simp add: ArbitrumLegacyTxData_copy_def LegacyTx_copy_def ArbitrumLegacyTxData_deref_def
        LegacyTx_deref_def LegacyTx_initialised_def store_steps store_reading)
qed

lemma ArbitrumInternalTx_copy_correct:
  assumes "valid h (Inner_ArbitrumInternalTx tx)"
    and "ArbitrumInternalTx.ChainId tx \<noteq> None"
  shows "\<exists>cpy h'. ArbitrumInternalTx_copy tx h = Inr (cpy, h') \<and>
         TxData_deref h' (Inner_ArbitrumInternalTx cpy) =
           initialised (TxData_deref h (Inner_ArbitrumInternalTx tx)) \<and>
         grown h h' \<and> valid h' (Inner_ArbitrumInternalTx cpy) \<and>
         fresh h (Inner_ArbitrumInternalTx cpy)"
proof -
  obtain bs as us where h: "h = \<lparr>bigs = bs, addrs = as, bufs = us\<rparr>"
    by (cases h) simp
  show ?thesis
    using assms unfolding h
    by (cases "ArbitrumInternalTx.Data tx")
      (auto simp add: ArbitrumInternalTx_copy_def ArbitrumInternalTx_deref_def
        store_steps store_reading)
qed

lemma ArbitrumInternalTx_copy_nil:
  "ArbitrumInternalTx.ChainId tx = None \<Longrightarrow>
   ArbitrumInternalTx_copy tx h = Inl nil_pointer_dereference"
  by (simp add: ArbitrumInternalTx_copy_def new_big_def)

lemma big_val_grown:
  "ptr_ok (length (bigs h)) p \<Longrightarrow> take (length (bigs h)) (bigs h') = bigs h \<Longrightarrow>
   big_val h' p = big_val h p"
  by (cases p) (auto simp: big_val_def ptr_ok_def dest: arg_cong [where f = "\<lambda>xs. xs ! the p"])

lemma addr_val_grown:
  "ptr_ok (length (addrs h)) p \<Longrightarrow> take (length (addrs h)) (addrs h') = addrs h \<Longrightarrow>
   addr_val h' p = addr_val h p"
  by (cases p) (auto simp: addr_val_def ptr_ok_def dest: arg_cong [where f = "\<lambda>xs. xs ! the p"])

lemma buf_val_grown:
  "ptr_ok (length (bufs h)) p \<Longrightarrow> take (length (bufs h)) (bufs h') = bufs h \<Longrightarrow>
   buf_val h' p = buf_val h p"
  by (cases p) (auto simp: buf_val_def ptr_ok_def dest: arg_cong [where f = "\<lambda>xs. xs ! the p"])

lemma deref_grown:
  assumes "valid h x" and "grown h h'"
  shows "TxData_deref h' x = TxData_deref h x"
  using assms
  by (cases x)
    (simp_all add: valid_def in_store_def grown_def big_val_grown addr_val_grown buf_val_grown
      DepositTx_deref_def LegacyTx_deref_def ArbitrumLegacyTxData_deref_def
      ArbitrumUnsignedTx_deref_def ArbitrumInternalTx_deref_def ArbitrumDepositTx_deref_def
      ArbitrumContractTx_deref_def ArbitrumRetryTx_deref_def ArbitrumSubmitRetryableTx_deref_def)

lemma cells_disjoint:
  "in_store n ps \<Longrightarrow> fresh_in n qs \<Longrightarrow> cells qs \<inter> cells ps = {}"
  by (fastforce simp: in_store_def fresh_in_def cells_def list_all_iff ptr_ok_def ptr_fresh_def)

lemma fresh_cell:
  "fresh_in n qs \<Longrightarrow> p \<in> cells qs \<Longrightarrow> n \<le> p"
  by (fastforce simp: fresh_in_def cells_def list_all_iff ptr_fresh_def)

lemma grown_update_bigs:
  "grown h h' \<Longrightarrow> length (bigs h) \<le> p \<Longrightarrow> grown h (h'\<lparr>bigs := (bigs h')[p := v]\<rparr>)"
  by (simp add: grown_def)

lemma grown_update_addrs:
  "grown h h' \<Longrightarrow> length (addrs h) \<le> p \<Longrightarrow> grown h (h'\<lparr>addrs := (addrs h')[p := v]\<rparr>)"
  by (simp add: grown_def)

lemma grown_update_bufs:
  "grown h h' \<Longrightarrow> length (bufs h) \<le> p \<Longrightarrow> grown h (h'\<lparr>bufs := (bufs h')[p := v]\<rparr>)"
  by (simp add: grown_def)

lemma zero_if_nil_set: "p \<noteq> None \<Longrightarrow> zero_if_nil (big_val h p) = big_val h p"
  by (cases p) (simp_all add: zero_if_nil_def big_val_def)

lemma initialised_all_set:
  assumes "all_set x"
  shows "observe legacy (initialised (TxData_deref h x)) = observe legacy (TxData_deref h x)"
proof (cases x)
  case (Inner_DepositTx tx)
  then show ?thesis
    using assms by (simp add: all_set_def DepositTx_deref_def DepositTx_initialised_def zero_if_nil_set)
next
  case (Inner_depositTxWithNonce tx)
  then show ?thesis
    using assms
    by (simp add: all_set_def DepositTx_deref_def DepositTx_initialised_def zero_if_nil_set
        depositTxWithNonce_txType_def depositTxWithNonce_chainID_def
        depositTxWithNonce_accessList_def depositTxWithNonce_data_def depositTxWithNonce_gas_def
        depositTxWithNonce_gasPrice_def depositTxWithNonce_gasTipCap_def
        depositTxWithNonce_gasFeeCap_def depositTxWithNonce_value_def
        depositTxWithNonce_nonce_def depositTxWithNonce_to_def depositTxWithNonce_blobGas_def
        depositTxWithNonce_blobGasFeeCap_def depositTxWithNonce_blobHashes_def
        depositTxWithNonce_rawSignatureValues_def depositTxWithNonce_effectiveGasPrice_def
        fun_eq_iff)
next
  case (Inner_ArbitrumLegacyTxData tx)
  then show ?thesis
    using assms
    by (simp add: all_set_def ArbitrumLegacyTxData_deref_def LegacyTx_deref_def
        LegacyTx_initialised_def zero_if_nil_set ArbitrumLegacyTxData_txType_def)
next
  case (Inner_ArbitrumUnsignedTx tx)
  then show ?thesis
    using assms by (simp add: all_set_def ArbitrumUnsignedTx_deref_def zero_if_nil_set)
next
  case (Inner_ArbitrumInternalTx tx)
  then show ?thesis by simp
next
  case (Inner_ArbitrumDepositTx tx)
  then show ?thesis
    using assms by (simp add: all_set_def ArbitrumDepositTx_deref_def zero_if_nil_set)
next
  case (Inner_ArbitrumContractTx tx)
  then show ?thesis
    using assms by (simp add: all_set_def ArbitrumContractTx_deref_def zero_if_nil_set)
next
  case (Inner_ArbitrumRetryTx tx)
  then show ?thesis
    using assms by (simp add: all_set_def ArbitrumRetryTx_deref_def zero_if_nil_set)
next
  case (Inner_ArbitrumSubmitRetryableTx tx)
  then show ?thesis
    using assms by (simp add: all_set_def ArbitrumSubmitRetryableTx_deref_def zero_if_nil_set)
qed

lemma TxData_copy_correct:
  assumes "valid h x" and "\<not> copy_panics x"
  shows "\<exists>y h'. TxData_copy x h = Inr (y, h') \<and>
     TxData_deref h' y = initialised (TxData_deref h x) \<and>
     grown h h' \<and> valid h' y \<and> fresh h y \<and>
     map (\<lambda>p. p = None) (optional_fields y) = map (\<lambda>p. p = None) (optional_fields x)"
proof (cases x)
  case (Inner_DepositTx tx)
  obtain cpy h' where c: "DepositTx_copy tx h = (cpy, h')" by (cases "DepositTx_copy tx h")
  show ?thesis
    using DepositTx_copy_correct [OF assms(1) [unfolded Inner_DepositTx] c] c Inner_DepositTx
    by simp
next
  case (Inner_depositTxWithNonce tx)
  obtain cpy h' where c: "DepositTx_copy (depositTxWithNonce.DepositTx tx) h = (cpy, h')"
    by (cases "DepositTx_copy (depositTxWithNonce.DepositTx tx) h")
  have v: "valid h (Inner_DepositTx (depositTxWithNonce.DepositTx tx))"
    using assms(1) Inner_depositTxWithNonce by (simp add: valid_def)
  show ?thesis
    using DepositTx_copy_correct [OF v c] c Inner_depositTxWithNonce
    by simp
next
  case (Inner_ArbitrumLegacyTxData tx)
  obtain cpy h' where c: "ArbitrumLegacyTxData_copy tx h = (cpy, h')"
    by (cases "ArbitrumLegacyTxData_copy tx h")
  show ?thesis
    using ArbitrumLegacyTxData_copy_correct [OF assms(1) [unfolded Inner_ArbitrumLegacyTxData] c]
      c Inner_ArbitrumLegacyTxData
    by simp
next
  case (Inner_ArbitrumUnsignedTx tx)
  obtain cpy h' where c: "ArbitrumUnsignedTx_copy tx h = (cpy, h')"
    by (cases "ArbitrumUnsignedTx_copy tx h")
  show ?thesis
    using ArbitrumUnsignedTx_copy_correct [OF assms(1) [unfolded Inner_ArbitrumUnsignedTx] c]
      c Inner_ArbitrumUnsignedTx
    by simp
next
  case (Inner_ArbitrumInternalTx tx)
  then have "ArbitrumInternalTx.ChainId tx \<noteq> None" using assms(2) by simp
  from ArbitrumInternalTx_copy_correct [OF assms(1) [unfolded Inner_ArbitrumInternalTx] this]
  show ?thesis using Inner_ArbitrumInternalTx by auto
next
  case (Inner_ArbitrumDepositTx tx)
  obtain cpy h' where c: "ArbitrumDepositTx_copy tx h = (cpy, h')"
    by (cases "ArbitrumDepositTx_copy tx h")
  show ?thesis
    using ArbitrumDepositTx_copy_correct [OF assms(1) [unfolded Inner_ArbitrumDepositTx] c]
      c Inner_ArbitrumDepositTx
    by simp
next
  case (Inner_ArbitrumContractTx tx)
  obtain cpy h' where c: "ArbitrumContractTx_copy tx h = (cpy, h')"
    by (cases "ArbitrumContractTx_copy tx h")
  show ?thesis
    using ArbitrumContractTx_copy_correct [OF assms(1) [unfolded Inner_ArbitrumContractTx] c]
      c Inner_ArbitrumContractTx
    by simp
next
  case (Inner_ArbitrumRetryTx tx)
  obtain cpy h' where c: "ArbitrumRetryTx_copy tx h = (cpy, h')"
    by (cases "ArbitrumRetryTx_copy tx h")
  show ?thesis
    using ArbitrumRetryTx_copy_correct [OF assms(1) [unfolded Inner_ArbitrumRetryTx] c]
      c Inner_ArbitrumRetryTx
    by simp
next
  case (Inner_ArbitrumSubmitRetryableTx tx)
  obtain cpy h' where c: "ArbitrumSubmitRetryableTx_copy tx h = (cpy, h')"
    by (cases "ArbitrumSubmitRetryableTx_copy tx h")
  show ?thesis
    using ArbitrumSubmitRetryableTx_copy_correct
      [OF assms(1) [unfolded Inner_ArbitrumSubmitRetryableTx] c]
      c Inner_ArbitrumSubmitRetryableTx
    by simp
qed

text \<open>
  C4 (amended). For every variant \<open>x\<close> whose pointers are valid, other than an
  \<^verbatim>\<open>ArbitrumInternalTx\<close> with a nil chain id, \<open>copy(x)\<close> returns a clone \<open>y\<close> such that:
  \<^item> the fields of \<open>y\<close> hold the values of the fields of \<open>x\<close>, fixed-size fields copied by
    value, except that a nil big integer that is not optional reads as zero in \<open>y\<close>, and
    that the clone of a nonce-carrying deposit is the bare deposit;
  \<^item> when no big integer of \<open>x\<close> other than \<open>Mint\<close> is nil, \<open>y\<close> equals \<open>x\<close> under every
    Capability Interface operation;
  \<^item> the call leaves \<open>x\<close> as it was;
  \<^item> every big-integer, byte-buffer and address pointer of \<open>y\<close> is freshly allocated: it
    is none of the pointers of \<open>x\<close>, and writing through it never changes a field of \<open>x\<close>;
  \<^item> each optional pointer (\<open>To\<close>, \<open>Mint\<close>, \<open>RetryTo\<close>, \<open>Sender\<close>) is nil in \<open>y\<close> exactly
    when it is nil in \<open>x\<close>.
\<close>

theorem C4_copy_is_deep:
  assumes "valid h x" and "\<not> copy_panics x"
  shows "\<exists>y h'. TxData_copy x h = Inr (y, h') \<and>
     TxData_deref h' y = initialised (TxData_deref h x) \<and>
     (all_set x \<longrightarrow> observe legacy (TxData_deref h' y) = observe legacy (TxData_deref h x)) \<and>
     TxData_deref h' x = TxData_deref h x \<and>
     valid h' y \<and> fresh h y \<and>
     cells (big_fields y) \<inter> cells (big_fields x) = {} \<and>
     cells (buf_fields y) \<inter> cells (buf_fields x) = {} \<and>
     cells (addr_fields y) \<inter> cells (addr_fields x) = {} \<and>
     (\<forall>p\<in>cells (big_fields y). \<forall>v.
        TxData_deref (h'\<lparr>bigs := (bigs h')[p := v]\<rparr>) x = TxData_deref h x) \<and>
     (\<forall>p\<in>cells (buf_fields y). \<forall>b.
        TxData_deref (h'\<lparr>bufs := (bufs h')[p := b]\<rparr>) x = TxData_deref h x) \<and>
     (\<forall>p\<in>cells (addr_fields y). \<forall>a.
        TxData_deref (h'\<lparr>addrs := (addrs h')[p := a]\<rparr>) x = TxData_deref h x) \<and>
     map (\<lambda>p. p = None) (optional_fields y) = map (\<lambda>p. p = None) (optional_fields x)"
proof -
  obtain y h' where c: "TxData_copy x h = Inr (y, h')"
    and d: "TxData_deref h' y = initialised (TxData_deref h x)"
    and g: "grown h h'" and v: "valid h' y" and f: "fresh h y"
    and n: "map (\<lambda>p. p = None) (optional_fields y) = map (\<lambda>p. p = None) (optional_fields x)"
    using TxData_copy_correct [OF assms] by blast
  have o: "all_set x \<Longrightarrow> observe legacy (TxData_deref h' y) = observe legacy (TxData_deref h x)"
    using d by (simp add: initialised_all_set)
  have s: "TxData_deref h' x = TxData_deref h x"
    using assms(1) g by (rule deref_grown)
  have i1: "cells (big_fields y) \<inter> cells (big_fields x) = {}"
    by (rule cells_disjoint [of "length (bigs h)"])
      (use assms(1) f in \<open>simp_all add: valid_def fresh_def\<close>)
  have i2: "cells (buf_fields y) \<inter> cells (buf_fields x) = {}"
    by (rule cells_disjoint [of "length (bufs h)"])
      (use assms(1) f in \<open>simp_all add: valid_def fresh_def\<close>)
  have i3: "cells (addr_fields y) \<inter> cells (addr_fields x) = {}"
    by (rule cells_disjoint [of "length (addrs h)"])
      (use assms(1) f in \<open>simp_all add: valid_def fresh_def\<close>)
  have m1: "TxData_deref (h'\<lparr>bigs := (bigs h')[p := b]\<rparr>) x = TxData_deref h x"
    if "p \<in> cells (big_fields y)" for p b
  proof -
    have "fresh_in (length (bigs h)) (big_fields y)"
      using f by (simp add: fresh_def)
    then have "length (bigs h) \<le> p"
      using that by (rule fresh_cell)
    then have "grown h (h'\<lparr>bigs := (bigs h')[p := b]\<rparr>)"
      using g by (rule grown_update_bigs [rotated])
    with assms(1) show ?thesis by (rule deref_grown)
  qed
  have m2: "TxData_deref (h'\<lparr>bufs := (bufs h')[p := b]\<rparr>) x = TxData_deref h x"
    if "p \<in> cells (buf_fields y)" for p b
  proof -
    have "fresh_in (length (bufs h)) (buf_fields y)"
      using f by (simp add: fresh_def)
    then have "length (bufs h) \<le> p"
      using that by (rule fresh_cell)
    then have "grown h (h'\<lparr>bufs := (bufs h')[p := b]\<rparr>)"
      using g by (rule grown_update_bufs [rotated])
    with assms(1) show ?thesis by (rule deref_grown)
  qed
  have m3: "TxData_deref (h'\<lparr>addrs := (addrs h')[p := b]\<rparr>) x = TxData_deref h x"
    if "p \<in> cells (addr_fields y)" for p b
  proof -
    have "fresh_in (length (addrs h)) (addr_fields y)"
      using f by (simp add: fresh_def)
    then have "length (addrs h) \<le> p"
      using that by (rule fresh_cell)
    then have "grown h (h'\<lparr>addrs := (addrs h')[p := b]\<rparr>)"
      using g by (rule grown_update_addrs [rotated])
    with assms(1) show ?thesis by (rule deref_grown)
  qed
  show ?thesis
    using c d o s v f i1 i2 i3 m1 m2 m3 n by blast
qed

lemma unsigned_example_copy:
  "ArbitrumUnsignedTx_copy (unsigned_ptr_example (Some 2)) store_example =
     (unsigned_ptr_clone, store_after_copy 5)"
  "ArbitrumUnsignedTx_copy (unsigned_ptr_example None) store_example =
     (unsigned_ptr_clone, store_after_copy 0)"
  by (simp_all add: ArbitrumUnsignedTx_copy_def unsigned_ptr_example_def store_example_def
      unsigned_ptr_clone_def store_after_copy_def new_big_def CopyBytes_def new_Address_def
      Set_if_not_nil_def big_Set_at_def Let_def)

theorem C4_copy_is_deep_witness:
  "valid store_example (Inner_ArbitrumUnsignedTx (unsigned_ptr_example (Some 2))) \<and>
   \<not> copy_panics (Inner_ArbitrumUnsignedTx (unsigned_ptr_example (Some 2))) \<and>
   all_set (Inner_ArbitrumUnsignedTx (unsigned_ptr_example (Some 2))) \<and>
   TxData_copy (Inner_ArbitrumUnsignedTx (unsigned_ptr_example (Some 2))) store_example =
     Inr (Inner_ArbitrumUnsignedTx unsigned_ptr_clone, store_after_copy 5) \<and>
   observe LegacyTx_methods_stub
     (TxData_deref (store_after_copy 5) (Inner_ArbitrumUnsignedTx unsigned_ptr_clone)) =
   observe LegacyTx_methods_stub
     (TxData_deref store_example (Inner_ArbitrumUnsignedTx (unsigned_ptr_example (Some 2)))) \<and>
   5 \<in> cells (big_fields (Inner_ArbitrumUnsignedTx unsigned_ptr_clone)) \<and>
   TxData_deref (store_after_copy 999) (Inner_ArbitrumUnsignedTx (unsigned_ptr_example (Some 2))) =
   TxData_deref store_example (Inner_ArbitrumUnsignedTx (unsigned_ptr_example (Some 2)))"
proof -
  let ?x = "Inner_ArbitrumUnsignedTx (unsigned_ptr_example (Some 2))"
  let ?y = "Inner_ArbitrumUnsignedTx unsigned_ptr_clone"
  have v: "valid store_example ?x"
    by (simp add: valid_def in_store_def ptr_ok_def unsigned_ptr_example_def store_example_def)
  have p: "\<not> copy_panics ?x"
    by simp
  have a: "all_set ?x"
    by (simp add: all_set_def unsigned_ptr_example_def)
  have c: "5 \<in> cells (big_fields ?y)"
    by (simp add: cells_def unsigned_ptr_clone_def)
  have u: "(store_after_copy 5)\<lparr>bigs := (bigs (store_after_copy 5))[5 := 999]\<rparr> =
      store_after_copy 999"
    by (simp add: store_after_copy_def)
  have e: "TxData_copy ?x store_example = Inr (?y, store_after_copy 5)"
    by (simp add: unsigned_example_copy)
  obtain y h' where r: "TxData_copy ?x store_example = Inr (y, h')"
    and o: "all_set ?x \<longrightarrow>
      observe LegacyTx_methods_stub (TxData_deref h' y) =
      observe LegacyTx_methods_stub (TxData_deref store_example ?x)"
    and m: "\<forall>p\<in>cells (big_fields y). \<forall>v.
      TxData_deref (h'\<lparr>bigs := (bigs h')[p := v]\<rparr>) ?x = TxData_deref store_example ?x"
    using C4_copy_is_deep [OF v p, of LegacyTx_methods_stub] by blast
  have y: "y = ?y" and h': "h' = store_after_copy 5"
    using r e by simp_all
  have "TxData_deref ((store_after_copy 5)\<lparr>bigs := (bigs (store_after_copy 5))[5 := 999]\<rparr>) ?x =
      TxData_deref store_example ?x"
    using m [unfolded y h', THEN bspec, OF c] by (rule spec)
  then have "TxData_deref (store_after_copy 999) ?x = TxData_deref store_example ?x"
    by (simp only: u)
  then show ?thesis
    using v p a c e o unfolding y h' by blast
qed

text \<open>
  C4 as stated makes the clone equal to \<open>x\<close> under every operation. On an unsigned
  transaction whose \<open>Value\<close> is nil, \<open>value()\<close> returns nil for \<open>x\<close> and zero for the clone:
  \<^verbatim>\<open>copy\<close> initialises the field with \<^verbatim>\<open>new(big.Int)\<close> and leaves it at that.
\<close>

theorem C4_nil_value_counterexample:
  "TxData_copy (Inner_ArbitrumUnsignedTx (unsigned_ptr_example None)) store_example =
     Inr (Inner_ArbitrumUnsignedTx unsigned_ptr_clone, store_after_copy 0) \<and>
   ArbitrumUnsignedTx_value (ArbitrumUnsignedTx_deref store_example (unsigned_ptr_example None)) =
     None \<and>
   ArbitrumUnsignedTx_value (ArbitrumUnsignedTx_deref (store_after_copy 0) unsigned_ptr_clone) =
     Some 0"
  by (simp add: unsigned_example_copy)
    (simp add: ArbitrumUnsignedTx_value_def ArbitrumUnsignedTx_deref_def big_val_def
      unsigned_ptr_example_def unsigned_ptr_clone_def store_after_copy_def)

section \<open>The destination of internal and submit-retryable transactions\<close>

text \<open>
  C9 (amended). For every \<^verbatim>\<open>ArbitrumInternalTx\<close> and every \<^verbatim>\<open>ArbitrumSubmitRetryableTx\<close>,
  \<open>to()\<close> never returns nil: it returns the address of the package-level variable
  \<^verbatim>\<open>arbosAddress\<close>, respectively \<^verbatim>\<open>arbRetryableTxAddress\<close>, the same pointer at every call,
  and as long as nobody has written to these variables it points to \<open>0xa4b05\<close>,
  respectively \<open>0x6e\<close>.
\<close>

theorem C9_to_returns_package_variable:
  "ArbitrumInternalTx_to_ref tx = Some Global_arbosAddress \<and>
   ArbitrumSubmitRetryableTx_to_ref stx = Some Global_arbRetryableTxAddress \<and>
   ArbitrumInternalTx_to_ref tx \<noteq> None \<and>
   ArbitrumSubmitRetryableTx_to_ref stx \<noteq> None \<and>
   load_Address (globals_init, h) Global_arbosAddress = 0xa4b05 \<and>
   load_Address (globals_init, h) Global_arbRetryableTxAddress = 0x6e \<and>
   map_option (load_Address (globals_init, h)) (ArbitrumInternalTx_to_ref tx) =
     ArbitrumInternalTx_to (ArbitrumInternalTx_deref h tx) \<and>
   map_option (load_Address (globals_init, h)) (ArbitrumSubmitRetryableTx_to_ref stx) =
     ArbitrumSubmitRetryableTx_to (ArbitrumSubmitRetryableTx_deref h stx)"
  by (simp add: ArbitrumInternalTx_to_ref_def ArbitrumSubmitRetryableTx_to_ref_def
      globals_init_def arbosAddress_def arbRetryableTxAddress_def ArbitrumInternalTx_to_def
      ArbitrumSubmitRetryableTx_to_def)

theorem C9_to_returns_package_variable_witness:
  "ArbitrumInternalTx_to_ref internal_ptr_a = Some Global_arbosAddress \<and>
   ArbitrumSubmitRetryableTx_to_ref
     submit_retryable_ptr = Some Global_arbRetryableTxAddress \<and>
   load_Address (globals_init, store_example) Global_arbosAddress = 0xa4b05 \<and>
   load_Address (globals_init, store_example) Global_arbRetryableTxAddress = 0x6e"
  using C9_to_returns_package_variable
    [of internal_ptr_a submit_retryable_ptr store_example]
  by simp

text \<open>
  C9 as stated has \<open>to()\<close> return an owned copy, so that no two calls share storage with
  the global. The calls on two internal transactions return one and the same pointer, the
  address of \<^verbatim>\<open>arbosAddress\<close>: what a caller writes through the first is read through the
  second, and the package-level variable itself has changed.
\<close>

theorem C9_shared_global_counterexample:
  "ArbitrumInternalTx_to_ref internal_ptr_a = Some Global_arbosAddress \<and>
   ArbitrumInternalTx_to_ref internal_ptr_b = ArbitrumInternalTx_to_ref internal_ptr_a \<and>
   load_Address
     (store_Address (the (ArbitrumInternalTx_to_ref internal_ptr_a)) 0xdead
        (globals_init, store_example))
     (the (ArbitrumInternalTx_to_ref internal_ptr_b)) = 0xdead \<and>
   arbosAddress_var
     (fst (store_Address (the (ArbitrumInternalTx_to_ref internal_ptr_a)) 0xdead
        (globals_init, store_example))) = 0xdead \<and>
   arbosAddress_var globals_init = 0xa4b05"
  by (simp add: ArbitrumInternalTx_to_ref_def globals_init_def arbosAddress_def)

end
